theory Spec2Isabelle
  imports Complex_Main
begin

section \<open>MoL attention layer: data model\<close>

text \<open>
  A shallow embedding of \<^verbatim>\<open>nntrainer/layers/mol_attention_layer.cpp\<close>.
  Tensor elements are real numbers: the rounding of the source's 32-bit floats is not
  part of the model.
\<close>

subsection \<open>Slots of the index table\<close>

text \<open>The enum \<^verbatim>\<open>AttentionParams\<close>, in the order of the source.\<close>

datatype AttentionParams =
    Query | Value | State
  | Fc_w | Fc_bias | Fc_proj_w
  | Fc_out | Fc_tanh | Fc_proj_out
  | Scores | Prob | Prob_left | Prob_right | U_neg_div | U_pos_div

datatype error =
    Runtime_error string
  | Invalid_argument string

subsection \<open>Tensor dimensions and tensors\<close>

record TensorDim =
  batch :: nat
  channel :: nat
  height :: nat
  width :: nat

text \<open>
  \<^verbatim>\<open>TensorDim({a, b})\<close> and \<^verbatim>\<open>TensorDim({a})\<close>: an initializer list fills the
  dimension from the back, the leading axes are 1.
\<close>

definition TensorDim4 :: "nat \<Rightarrow> nat \<Rightarrow> nat \<Rightarrow> nat \<Rightarrow> TensorDim" where
  "TensorDim4 b c h w = \<lparr>batch = b, channel = c, height = h, width = w\<rparr>"

definition TensorDim2 :: "nat \<Rightarrow> nat \<Rightarrow> TensorDim" where
  "TensorDim2 h w = TensorDim4 1 1 h w"

definition TensorDim1 :: "nat \<Rightarrow> TensorDim" where
  "TensorDim1 w = TensorDim4 1 1 1 w"

datatype TensorLifespan = ITERATION_LIFESPAN | MAX_LIFESPAN

text \<open>
  Modelled from the spec: the tensor container of the tensor-algebra runtime (not part of
  the source file). A tensor is its dimension and a contiguous row-major buffer;
  \<open>getValue\<close> reads the element at \<open>(b, c, h, w)\<close>.
\<close>

record Tensor =
  getDim :: TensorDim
  getData :: "nat \<Rightarrow> real"

definition getIndex :: "TensorDim \<Rightarrow> nat \<Rightarrow> nat \<Rightarrow> nat \<Rightarrow> nat \<Rightarrow> nat" where
  "getIndex d b c h w = ((b * channel d + c) * height d + h) * width d + w"

definition getValue :: "Tensor \<Rightarrow> nat \<Rightarrow> nat \<Rightarrow> nat \<Rightarrow> nat \<Rightarrow> real" where
  "getValue t b c h w = getData t (getIndex (getDim t) b c h w)"

definition getFeatureLen :: "TensorDim \<Rightarrow> nat" where
  "getFeatureLen d = channel d * height d * width d"

text \<open>The tensor of dimension \<open>d\<close> whose element at \<open>(b, c, h, w)\<close> is \<open>f b c h w\<close>.\<close>

definition Tensor_of :: "TensorDim \<Rightarrow> (nat \<Rightarrow> nat \<Rightarrow> nat \<Rightarrow> nat \<Rightarrow> real) \<Rightarrow> Tensor" where
  "Tensor_of d f =
     \<lparr>getDim = d,
      getData = (\<lambda>i. f (i div getFeatureLen d) (i div (height d * width d) mod channel d)
                         (i div width d mod height d) (i mod width d))\<rparr>"

text \<open>
  \<^verbatim>\<open>Tensor(dim)\<close> allocates a buffer whose contents the source never reads before
  writing them; the model starts it at 0. \<^verbatim>\<open>setZero\<close> writes 0 everywhere.
\<close>

definition Tensor_alloc :: "TensorDim \<Rightarrow> Tensor" where
  "Tensor_alloc d = \<lparr>getDim = d, getData = (\<lambda>_. 0)\<rparr>"

definition setZero :: "Tensor \<Rightarrow> Tensor" where
  "setZero t = t\<lparr>getData := (\<lambda>_. 0)\<rparr>"

text \<open>
  An operation with an output argument writes its result into the buffer of the output
  tensor, which keeps its own dimension. \<^verbatim>\<open>reshape\<close> changes the dimension and
  keeps the buffer.
\<close>

definition write_into :: "Tensor \<Rightarrow> Tensor \<Rightarrow> Tensor" where
  "write_into out res = \<lparr>getDim = getDim out, getData = getData res\<rparr>"

definition reshape :: "Tensor \<Rightarrow> TensorDim \<Rightarrow> Tensor" where
  "reshape t d = \<lparr>getDim = d, getData = getData t\<rparr>"

subsection \<open>Tensor algebra\<close>

text \<open>
  Modelled from the spec: element-wise add, subtract, multiply and divide with
  broadcast. The result has the dimension of the left operand; an axis of the right
  operand of extent 1 is broadcast along that axis.
\<close>

definition broadcast_value :: "Tensor \<Rightarrow> nat \<Rightarrow> nat \<Rightarrow> nat \<Rightarrow> nat \<Rightarrow> real" where
  "broadcast_value m b c h w =
     getValue m (if batch (getDim m) = 1 then 0 else b) (if channel (getDim m) = 1 then 0 else c)
                (if height (getDim m) = 1 then 0 else h) (if width (getDim m) = 1 then 0 else w)"

definition apply_broadcast :: "(real \<Rightarrow> real \<Rightarrow> real) \<Rightarrow> Tensor \<Rightarrow> Tensor \<Rightarrow> Tensor" where
  "apply_broadcast f t m =
     Tensor_of (getDim t) (\<lambda>b c h w. f (getValue t b c h w) (broadcast_value m b c h w))"

definition add :: "Tensor \<Rightarrow> Tensor \<Rightarrow> Tensor" where
  "add t m = apply_broadcast (+) t m"

definition subtract :: "Tensor \<Rightarrow> Tensor \<Rightarrow> Tensor" where
  "subtract t m = apply_broadcast (-) t m"

definition multiply :: "Tensor \<Rightarrow> Tensor \<Rightarrow> Tensor" where
  "multiply t m = apply_broadcast (*) t m"

definition divide_t :: "Tensor \<Rightarrow> Tensor \<Rightarrow> Tensor" where
  "divide_t t m = apply_broadcast (/) t m"

text \<open>\<^verbatim>\<open>apply\<close> maps a scalar function over the buffer; the scalar variants of
  \<^verbatim>\<open>add\<close> and \<^verbatim>\<open>multiply\<close> are instances of it.\<close>

definition apply_t :: "(real \<Rightarrow> real) \<Rightarrow> Tensor \<Rightarrow> Tensor" where
  "apply_t f t = \<lparr>getDim = getDim t, getData = (\<lambda>i. f (getData t i))\<rparr>"

definition add_scalar :: "Tensor \<Rightarrow> real \<Rightarrow> Tensor" where
  "add_scalar t x = apply_t (\<lambda>v. v + x) t"

definition multiply_scalar :: "Tensor \<Rightarrow> real \<Rightarrow> Tensor" where
  "multiply_scalar t x = apply_t (\<lambda>v. v * x) t"

text \<open>
  Modelled from the spec: reduction-sum along one axis (the result has extent 1 on that
  axis) and along the axis set \<open>{0, 1, 2}\<close>. The source file calls \<^verbatim>\<open>sum\<close> with the
  axes 2 and 3 only; an axis above 3 is rejected by the runtime and leaves the tensor as
  it is here.
\<close>

definition sum_axis :: "nat \<Rightarrow> Tensor \<Rightarrow> Tensor" where
  "sum_axis axis t =
     (let d = getDim t in
      if axis = 0 then Tensor_of (d\<lparr>batch := 1\<rparr>) (\<lambda>b c h w. \<Sum>i<batch d. getValue t i c h w)
      else if axis = 1 then Tensor_of (d\<lparr>channel := 1\<rparr>) (\<lambda>b c h w. \<Sum>i<channel d. getValue t b i h w)
      else if axis = 2 then Tensor_of (d\<lparr>height := 1\<rparr>) (\<lambda>b c h w. \<Sum>i<height d. getValue t b c i w)
      else if axis = 3 then Tensor_of (d\<lparr>width := 1\<rparr>) (\<lambda>b c h w. \<Sum>i<width d. getValue t b c h i)
      else t)"

definition sum_axes012 :: "Tensor \<Rightarrow> Tensor" where
  "sum_axes012 t =
     (let d = getDim t in
      Tensor_of (TensorDim4 1 1 1 (width d))
        (\<lambda>b c h w. \<Sum>i<batch d. \<Sum>j<channel d. \<Sum>l<height d. getValue t i j l w))"

text \<open>
  Modelled from the spec: dense matrix multiply. The first three axes of each operand
  are flattened into rows; the result keeps the leading axes of the left operand.
  \<open>matrix_value m i j\<close> is the element in row \<open>i\<close> and column \<open>j\<close> of the
  flattened \<open>m\<close>, \<open>batch_matrix_value m b i j\<close> that of the batch slice \<open>b\<close> of \<open>m\<close>.
\<close>

definition matrix_value :: "Tensor \<Rightarrow> nat \<Rightarrow> nat \<Rightarrow> real" where
  "matrix_value m i j = getData m (i * width (getDim m) + j)"

definition batch_matrix_value :: "Tensor \<Rightarrow> nat \<Rightarrow> nat \<Rightarrow> nat \<Rightarrow> real" where
  "batch_matrix_value m b i j = getData m (b * getFeatureLen (getDim m) + i * width (getDim m) + j)"

definition matrix_rows :: "Tensor \<Rightarrow> nat" where
  "matrix_rows m = batch (getDim m) * channel (getDim m) * height (getDim m)"

definition dot :: "Tensor \<Rightarrow> Tensor \<Rightarrow> Tensor" where
  "dot t m =
     Tensor_of ((getDim t)\<lparr>width := width (getDim m)\<rparr>)
       (\<lambda>b c h j. \<Sum>i<width (getDim t). getValue t b c h i * matrix_value m i j)"

text \<open>
  Modelled from the spec: the two partial-derivative variants of the matrix multiply.
  \<^verbatim>\<open>t.dot_deriv_wrt_1(m, output_deriv)\<close> writes \<open>output_deriv \<cdot> m\<^sup>T\<close> into \<open>t\<close>;
  \<^verbatim>\<open>t.dot_deriv_wrt_2(m_deriv, output_deriv)\<close> writes \<open>t\<^sup>T \<cdot> output_deriv\<close> into
  \<open>m_deriv\<close>. Each function returns the tensor that was written.
\<close>

definition dot_deriv_wrt_1 :: "Tensor \<Rightarrow> Tensor \<Rightarrow> Tensor \<Rightarrow> Tensor" where
  "dot_deriv_wrt_1 t m output_deriv =
     write_into t
       (Tensor_of ((getDim output_deriv)\<lparr>width := matrix_rows m\<rparr>)
          (\<lambda>b c h i. \<Sum>j<width (getDim output_deriv). getValue output_deriv b c h j * matrix_value m i j))"

definition dot_deriv_wrt_2 :: "Tensor \<Rightarrow> Tensor \<Rightarrow> Tensor \<Rightarrow> Tensor" where
  "dot_deriv_wrt_2 t m_deriv output_deriv =
     write_into m_deriv
       (Tensor_of (TensorDim2 (width (getDim t)) (width (getDim output_deriv)))
          (\<lambda>b c i j. \<Sum>r<matrix_rows t. matrix_value t r i * matrix_value output_deriv r j))"

text \<open>
  Modelled from the spec: the batched matrix product (one product per batch slice) and
  its derivative with respect to the left operand;
  \<^verbatim>\<open>t.dot_batched_deriv_wrt_1(m, output_deriv)\<close> writes, per batch slice,
  \<open>output_deriv \<cdot> m\<^sup>T\<close> into \<open>t\<close>.
\<close>

definition dotBatched :: "Tensor \<Rightarrow> Tensor \<Rightarrow> Tensor" where
  "dotBatched t m =
     Tensor_of ((getDim t)\<lparr>width := width (getDim m)\<rparr>)
       (\<lambda>b c h j. \<Sum>i<width (getDim t). getValue t b c h i * batch_matrix_value m b i j)"

definition dot_batched_deriv_wrt_1 :: "Tensor \<Rightarrow> Tensor \<Rightarrow> Tensor \<Rightarrow> Tensor" where
  "dot_batched_deriv_wrt_1 t m output_deriv =
     write_into t
       (Tensor_of ((getDim output_deriv)\<lparr>width := channel (getDim m) * height (getDim m)\<rparr>)
          (\<lambda>b c h i. \<Sum>j<width (getDim output_deriv).
                        getValue output_deriv b c h j * batch_matrix_value m b i j))"

text \<open>
  Modelled from the spec: aliasing sub-views of a buffer by offset and shape.
  \<^verbatim>\<open>getSharedDataTensor(dim, offset, false)\<close> is a view of dimension \<open>dim\<close> that
  starts \<open>offset\<close> elements into the buffer and keeps the strides of the tensor it
  views. \<open>copy_with_stride_from t d off\<close> is the fresh tensor
  \<^verbatim>\<open>x.copy_with_stride(t.getSharedDataTensor(d, off, false))\<close>;
  \<open>copy_with_stride_into t d off src\<close> is \<open>t\<close> after
  \<^verbatim>\<open>t.getSharedDataTensor(d, off, false).copy_with_stride(src)\<close>.
\<close>

definition copy_with_stride_from :: "Tensor \<Rightarrow> TensorDim \<Rightarrow> nat \<Rightarrow> Tensor" where
  "copy_with_stride_from t d off =
     Tensor_of d (\<lambda>b c h w. getData t (off + getIndex (getDim t) b c h w))"

definition copy_with_stride_into :: "Tensor \<Rightarrow> TensorDim \<Rightarrow> nat \<Rightarrow> Tensor \<Rightarrow> Tensor" where
  "copy_with_stride_into t d off src =
     t\<lparr>getData :=
         (\<lambda>i. if off \<le> i then
                (let j = i - off;
                     td = getDim t;
                     b = j div getFeatureLen td;
                     c = j div (height td * width td) mod channel td;
                     h = j div width td mod height td;
                     w = j mod width td
                 in if b < batch d \<and> c < channel d \<and> h < height d \<and> w < width d
                    then getValue src b c h w else getData t i)
              else getData t i)\<rparr>"

text \<open>
  The loop of \<^verbatim>\<open>forwarding\<close> that fills \<open>u_base\<close>:
  \<^verbatim>\<open>std::fill(u_data, u_data + width, h + 1)\<close> with \<open>u_data\<close> the address of
  \<open>(b, 0, h, 0)\<close>, for every \<open>b\<close> and \<open>h\<close>.
\<close>

definition fill_row :: "Tensor \<Rightarrow> nat \<Rightarrow> nat \<Rightarrow> real \<Rightarrow> Tensor" where
  "fill_row t b h v =
     t\<lparr>getData :=
         (\<lambda>i. if getIndex (getDim t) b 0 h 0 \<le> i \<and> i < getIndex (getDim t) b 0 h 0 + width (getDim t)
              then v else getData t i)\<rparr>"

definition fill_u_base :: "nat \<Rightarrow> Tensor \<Rightarrow> Tensor" where
  "fill_u_base batch_n u_base =
     fold (\<lambda>b t. fold (\<lambda>h t. fill_row t b h (real (h + 1))) [0..<height (getDim t)] t)
          [0..<batch_n] u_base"

subsection \<open>Activation functions\<close>

text \<open>
  Modelled from the spec: the activation library (not part of the source file): tanh,
  sigmoid and a row-wise softmax (over the last axis), each with a forward evaluator and
  a backward evaluator that takes the forward output and the incoming gradient.
\<close>

definition sigmoid :: "real \<Rightarrow> real" where
  "sigmoid x = 1 / (1 + exp (- x))"

definition softmax_fn :: "Tensor \<Rightarrow> Tensor" where
  "softmax_fn t =
     Tensor_of (getDim t)
       (\<lambda>b c h w. exp (getValue t b c h w) / (\<Sum>j<width (getDim t). exp (getValue t b c h j)))"

definition tanh_prime_fn :: "Tensor \<Rightarrow> Tensor \<Rightarrow> Tensor" where
  "tanh_prime_fn out deriv = multiply (apply_t (\<lambda>y. 1 - y * y) out) deriv"

definition sigmoid_prime_fn :: "Tensor \<Rightarrow> Tensor \<Rightarrow> Tensor" where
  "sigmoid_prime_fn out deriv = multiply (apply_t (\<lambda>y. y * (1 - y)) out) deriv"

definition softmax_prime_fn :: "Tensor \<Rightarrow> Tensor \<Rightarrow> Tensor" where
  "softmax_prime_fn out deriv =
     Tensor_of (getDim out)
       (\<lambda>b c h w. getValue out b c h w *
          (getValue deriv b c h w - (\<Sum>j<width (getDim out). getValue deriv b c h j * getValue out b c h j)))"

subsection \<open>The layer object\<close>

text \<open>
  The members of \<^verbatim>\<open>MoLAttentionLayer\<close> the source file reads and writes:
  the flag \<^verbatim>\<open>helper_exec\<close>, the index table \<^verbatim>\<open>wt_idx\<close> and the two
  properties of \<^verbatim>\<open>mol_props\<close>, each of which may be empty.
  \<open>helper_runs\<close> is not a member of the class: it counts the executions of
  \<^verbatim>\<open>calcDerivativeHelper\<close>, so that "executed once" can be stated.
\<close>

record MoLAttentionLayer =
  helper_exec :: bool
  wt_idx :: "AttentionParams \<Rightarrow> nat"
  props_Unit :: "nat option"
  props_MoL_K :: "nat option"
  helper_runs :: nat

text \<open>
  The constructor: \<^verbatim>\<open>helper_exec(false), wt_idx({0})\<close>; every entry of the
  table starts at 0. The properties are set later through \<^verbatim>\<open>setProperty\<close>.
\<close>

definition MoLAttentionLayer_new :: MoLAttentionLayer where
  "MoLAttentionLayer_new =
     \<lparr>helper_exec = False, wt_idx = (\<lambda>_. 0), props_Unit = None, props_MoL_K = None,
      helper_runs = 0\<rparr>"

subsection \<open>The setup context\<close>

text \<open>
  Modelled from the spec: the layer-lifecycle collaborator (\<^verbatim>\<open>InitLayerContext\<close>,
  not part of the source file). It supplies the input dimensions, records the requests
  for weight and scratch-tensor storage and the declared output dimensions. A request
  returns the position of the new entry among the requests made so far.
\<close>

record InitLayerContext =
  input_dim :: "TensorDim list"
  ctx_name :: string
  weights_spec :: "(TensorDim \<times> string) list"
  tensors_spec :: "(TensorDim \<times> string \<times> TensorLifespan) list"
  output_dim :: "TensorDim list"

definition getNumInputs :: "InitLayerContext \<Rightarrow> nat" where
  "getNumInputs context = length (input_dim context)"

definition requestWeight ::
  "InitLayerContext \<Rightarrow> TensorDim \<Rightarrow> string \<Rightarrow> nat \<times> InitLayerContext" where
  "requestWeight context d nm =
     (length (weights_spec context),
      context\<lparr>weights_spec := weights_spec context @ [(d, nm)]\<rparr>)"

definition requestTensor ::
  "InitLayerContext \<Rightarrow> TensorDim \<Rightarrow> string \<Rightarrow> TensorLifespan \<Rightarrow> nat \<times> InitLayerContext" where
  "requestTensor context d nm ls =
     (length (tensors_spec context),
      context\<lparr>tensors_spec := tensors_spec context @ [(d, nm, ls)]\<rparr>)"

definition setOutputDimensions :: "InitLayerContext \<Rightarrow> TensorDim list \<Rightarrow> InitLayerContext" where
  "setOutputDimensions context ds = context\<lparr>output_dim := ds\<rparr>"

section \<open>Setup\<close>

text \<open>
  \<^verbatim>\<open>MoLAttentionLayer::finalize\<close>, statement by statement. The three throws of the
  source are the three \<open>Inl\<close> results. \<open>fc_proj_out_dim\<close> is copied from
  \<open>fc_out_dim\<close> and the width setter that follows is applied to \<open>fc_out_dim\<close>, as in
  the source; no request for the slot \<open>Fc_tanh\<close> is made, as in the source.
\<close>

definition finalize ::
  "MoLAttentionLayer \<Rightarrow> InitLayerContext \<Rightarrow> error + (MoLAttentionLayer \<times> InitLayerContext)" where
  "finalize layer context =
    (if getNumInputs context \<noteq> 3 then Inl (Runtime_error ''MoL Attention layer needs 3 inputs.'')
     else
       let all_dims = input_dim context;
           query_dim = all_dims ! 0;
           value_dim = all_dims ! 1;
           wt = (wt_idx layer)(Query := 0, Value := 1, State := 2)
       in
       case props_Unit layer of
         None \<Rightarrow> Inl (Invalid_argument (''Number of units not provided for layer '' @ ctx_name context))
       | Some unit \<Rightarrow>
       case props_MoL_K layer of
         None \<Rightarrow> Inl (Invalid_argument (''MoL_K property not provided for layer '' @ ctx_name context))
       | Some mol_k \<Rightarrow>
       let fc_w_dim = TensorDim2 (width query_dim) unit;
           (i, context) = requestWeight context fc_w_dim ''fc_w'';
           wt = wt(Fc_w := i);
           fc_bias_dim = TensorDim1 unit;
           (i, context) = requestWeight context fc_bias_dim ''fc_bias'';
           wt = wt(Fc_bias := i);
           fc_proj_w_dim = TensorDim2 unit (3 * mol_k);
           (i, context) = requestWeight context fc_proj_w_dim ''fc_proj_w'';
           wt = wt(Fc_proj_w := i);
           fc_out_dim = query_dim;
           fc_out_dim = fc_out_dim\<lparr>width := width fc_w_dim\<rparr>;
           (i, context) = requestTensor context fc_out_dim ''fc_out'' ITERATION_LIFESPAN;
           wt = wt(Fc_out := i);
           fc_proj_out_dim = fc_out_dim;
           fc_out_dim = fc_out_dim\<lparr>width := width fc_proj_w_dim\<rparr>;
           (i, context) = requestTensor context fc_proj_out_dim ''fc_proj_out'' ITERATION_LIFESPAN;
           wt = wt(Fc_proj_out := i);
           scores_dim = TensorDim4 (batch value_dim) 1 1 (height value_dim);
           (i, context) = requestTensor context scores_dim ''scores'' ITERATION_LIFESPAN;
           wt = wt(Scores := i);
           prob_dim = value_dim;
           prob_dim = prob_dim\<lparr>width := mol_k\<rparr>;
           (i, context) = requestTensor context prob_dim ''prob'' ITERATION_LIFESPAN;
           wt = wt(Prob := i);
           (i, context) = requestTensor context prob_dim ''prob_left'' ITERATION_LIFESPAN;
           wt = wt(Prob_left := i);
           (i, context) = requestTensor context prob_dim ''prob_right'' ITERATION_LIFESPAN;
           wt = wt(Prob_right := i);
           (i, context) = requestTensor context prob_dim ''u_neg_div'' ITERATION_LIFESPAN;
           wt = wt(U_neg_div := i);
           (i, context) = requestTensor context prob_dim ''u_pos_div'' ITERATION_LIFESPAN;
           wt = wt(U_pos_div := i);
           context = setOutputDimensions context [query_dim]
       in Inr (layer\<lparr>wt_idx := wt\<rparr>, context))"

section \<open>The run context\<close>

text \<open>
  Modelled from the spec: the layer-lifecycle collaborator at run time
  (\<^verbatim>\<open>RunLayerContext\<close>, not part of the source file). Each family of tensors is a
  store from handles to tensors. A C++ reference \<^verbatim>\<open>Tensor &x = context.getTensor(i)\<close>
  is the handle \<open>i\<close>: every use of \<open>x\<close> reads the store at \<open>i\<close> and every
  write to \<open>x\<close> updates it, so that two names with the same handle are the same tensor.
  The incoming derivative is the gradient of an output, an outgoing derivative the
  gradient of an input.
\<close>

record RunLayerContext =
  inputs :: "nat \<Rightarrow> Tensor"
  outputs :: "nat \<Rightarrow> Tensor"
  weights :: "nat \<Rightarrow> Tensor"
  weight_grads :: "nat \<Rightarrow> Tensor"
  tensors :: "nat \<Rightarrow> Tensor"
  incoming_derivatives :: "nat \<Rightarrow> Tensor"
  outgoing_derivatives :: "nat \<Rightarrow> Tensor"

definition getInput :: "RunLayerContext \<Rightarrow> nat \<Rightarrow> Tensor" where
  "getInput context i = inputs context i"

definition getOutput :: "RunLayerContext \<Rightarrow> nat \<Rightarrow> Tensor" where
  "getOutput context i = outputs context i"

definition getWeight :: "RunLayerContext \<Rightarrow> nat \<Rightarrow> Tensor" where
  "getWeight context i = weights context i"

definition getWeightGrad :: "RunLayerContext \<Rightarrow> nat \<Rightarrow> Tensor" where
  "getWeightGrad context i = weight_grads context i"

definition getTensor :: "RunLayerContext \<Rightarrow> nat \<Rightarrow> Tensor" where
  "getTensor context i = tensors context i"

definition getIncomingDerivative :: "RunLayerContext \<Rightarrow> nat \<Rightarrow> Tensor" where
  "getIncomingDerivative context i = incoming_derivatives context i"

definition getOutgoingDerivative :: "RunLayerContext \<Rightarrow> nat \<Rightarrow> Tensor" where
  "getOutgoingDerivative context i = outgoing_derivatives context i"

definition setOutput :: "RunLayerContext \<Rightarrow> nat \<Rightarrow> Tensor \<Rightarrow> RunLayerContext" where
  "setOutput context i t = context\<lparr>outputs := (outputs context)(i := t)\<rparr>"

definition setWeightGrad :: "RunLayerContext \<Rightarrow> nat \<Rightarrow> Tensor \<Rightarrow> RunLayerContext" where
  "setWeightGrad context i t = context\<lparr>weight_grads := (weight_grads context)(i := t)\<rparr>"

definition setTensor :: "RunLayerContext \<Rightarrow> nat \<Rightarrow> Tensor \<Rightarrow> RunLayerContext" where
  "setTensor context i t = context\<lparr>tensors := (tensors context)(i := t)\<rparr>"

definition setOutgoingDerivative :: "RunLayerContext \<Rightarrow> nat \<Rightarrow> Tensor \<Rightarrow> RunLayerContext" where
  "setOutgoingDerivative context i t =
     context\<lparr>outgoing_derivatives := (outgoing_derivatives context)(i := t)\<rparr>"

text \<open>
  \<^verbatim>\<open>updateTensor(idx, batch)\<close> sets the batch extent of the scratch tensor at
  \<open>idx\<close>; the runtime gives no meaning to what its buffer holds afterwards, and the
  model leaves the buffer as it is.
\<close>

definition updateTensor :: "RunLayerContext \<Rightarrow> nat \<Rightarrow> nat \<Rightarrow> RunLayerContext" where
  "updateTensor context i batch_n =
     setTensor context i ((getTensor context i)\<lparr>getDim := (getDim (getTensor context i))\<lparr>batch := batch_n\<rparr>\<rparr>)"

definition SINGLE_INOUT_IDX :: nat where
  "SINGLE_INOUT_IDX = 0"

text \<open>
  \<^verbatim>\<open>std::get<props::MoL_K>(mol_props).get()\<close>: reading an empty property raises
  \<^verbatim>\<open>std::invalid_argument\<close>.
\<close>

definition get_MoL_K :: "MoLAttentionLayer \<Rightarrow> error + nat" where
  "get_MoL_K layer =
     (case props_MoL_K layer of
        None \<Rightarrow> Inl (Invalid_argument ''Cannot get property, property is empty'')
      | Some mol_k \<Rightarrow> Inr mol_k)"

section \<open>Forward pass\<close>

text \<open>
  \<^verbatim>\<open>MoLAttentionLayer::forwarding\<close>, in four blocks of consecutive statements.
  The first block is the projection \<open>fc_out\<close>, \<open>fc_tanh\<close>, \<open>fc_proj_out\<close>.
\<close>

definition forwarding_projection :: "MoLAttentionLayer \<Rightarrow> RunLayerContext \<Rightarrow> RunLayerContext" where
  "forwarding_projection layer context =
    (let wt = wt_idx layer;
         query = getInput context (wt Query);
         fc_w = getWeight context (wt Fc_w);
         fc_bias = getWeight context (wt Fc_bias);
         fc_proj_w = getWeight context (wt Fc_proj_w);
         context = setTensor context (wt Fc_out) (dot query fc_w);
         context = setTensor context (wt Fc_out) (add (getTensor context (wt Fc_out)) fc_bias);
         context = setTensor context (wt Fc_tanh)
                     (write_into (getTensor context (wt Fc_tanh)) (apply_t tanh (getTensor context (wt Fc_out))));
         context = setTensor context (wt Fc_proj_out) (dot (getTensor context (wt Fc_tanh)) fc_proj_w)
     in context)"

text \<open>
  The second block copies the three segments out of \<open>fc_proj_out\<close>, applies
  \<^verbatim>\<open>expf\<close> and softmax, and copies the results back into the same segments. It
  returns \<open>kappa\<close>, \<open>beta\<close>, \<open>alpha\<close> and the context.
\<close>

definition forwarding_mixture ::
  "MoLAttentionLayer \<Rightarrow> nat \<Rightarrow> RunLayerContext \<Rightarrow> Tensor \<times> Tensor \<times> Tensor \<times> RunLayerContext" where
  "forwarding_mixture layer mol_k context =
    (let wt = wt_idx layer;
         query = getInput context (wt Query);
         batch_n = batch (getDim query);
         seg = TensorDim4 batch_n 1 1 mol_k;
         kappa_src = copy_with_stride_from (getTensor context (wt Fc_proj_out)) seg 0;
         beta_src = copy_with_stride_from (getTensor context (wt Fc_proj_out)) seg mol_k;
         alpha_src = copy_with_stride_from (getTensor context (wt Fc_proj_out)) seg (mol_k * 2);
         kappa_src = apply_t exp kappa_src;
         beta_src = apply_t exp beta_src;
         kappa = kappa_src;
         beta = beta_src;
         alpha = softmax_fn alpha_src;
         context = setTensor context (wt Fc_proj_out)
                     (copy_with_stride_into (getTensor context (wt Fc_proj_out)) seg 0 kappa);
         context = setTensor context (wt Fc_proj_out)
                     (copy_with_stride_into (getTensor context (wt Fc_proj_out)) seg mol_k beta);
         context = setTensor context (wt Fc_proj_out)
                     (copy_with_stride_into (getTensor context (wt Fc_proj_out)) seg (mol_k * 2) alpha)
     in (kappa, beta, alpha, context))"

text \<open>
  The third block is the scorer: the centres \<open>m\<close>, the boundaries \<open>u_pos\<close> and
  \<open>u_neg\<close>, the two sigmoids, their difference and the weighted sum over the mixture
  axis, written into \<open>scores\<close>.
\<close>

definition forwarding_scores ::
  "MoLAttentionLayer \<Rightarrow> nat \<Rightarrow> Tensor \<Rightarrow> Tensor \<Rightarrow> Tensor \<Rightarrow> RunLayerContext \<Rightarrow> RunLayerContext" where
  "forwarding_scores layer mol_k kappa beta alpha context =
    (let wt = wt_idx layer;
         query = getInput context (wt Query);
         value = getInput context (wt Value);
         state = getInput context (wt State);
         batch_n = batch (getDim query);
         m = add state kappa;
         u_base = Tensor_alloc (TensorDim4 batch_n 1 (height (getDim value)) mol_k);
         u_base = fill_u_base batch_n u_base;
         u_pos = add_scalar u_base (1 / 2);
         u_base = add_scalar u_base (- (1 / 2));
         u_neg = u_base;
         beta_eps = add_scalar beta (1 / 10 ^ 8);
         u_pos_m = subtract u_pos m;
         context = setTensor context (wt U_pos_div)
                     (write_into (getTensor context (wt U_pos_div)) (divide_t u_pos_m beta_eps));
         context = setTensor context (wt Prob_left)
                     (write_into (getTensor context (wt Prob_left))
                        (apply_t sigmoid (getTensor context (wt U_pos_div))));
         u_neg_m = subtract u_neg m;
         context = setTensor context (wt U_neg_div)
                     (write_into (getTensor context (wt U_neg_div)) (divide_t u_neg_m beta_eps));
         context = setTensor context (wt Prob_right)
                     (write_into (getTensor context (wt Prob_right))
                        (apply_t sigmoid (getTensor context (wt U_neg_div))));
         context = setTensor context (wt Prob)
                     (write_into (getTensor context (wt Prob))
                        (subtract (getTensor context (wt Prob_left)) (getTensor context (wt Prob_right))));
         prob_scaled = multiply (getTensor context (wt Prob)) alpha;
         context = setTensor context (wt Scores)
                     (write_into (getTensor context (wt Scores)) (sum_axis 3 prob_scaled))
     in context)"

text \<open>
  The whole function: the property is read, the flag is reset, the three blocks run and
  the batched product of \<open>scores\<close> and \<open>value\<close> is written into the output.
\<close>

definition forwarding ::
  "MoLAttentionLayer \<Rightarrow> RunLayerContext \<Rightarrow> error + (MoLAttentionLayer \<times> RunLayerContext)" where
  "forwarding layer context =
    (case get_MoL_K layer of
       Inl e \<Rightarrow> Inl e
     | Inr mol_k \<Rightarrow>
       let wt = wt_idx layer;
           layer = layer\<lparr>helper_exec := False\<rparr>;
           context = forwarding_projection layer context;
           (kappa, beta, alpha, context) = forwarding_mixture layer mol_k context;
           context = forwarding_scores layer mol_k kappa beta alpha context;
           context = setOutput context SINGLE_INOUT_IDX
                       (write_into (getOutput context SINGLE_INOUT_IDX)
                          (dotBatched (getTensor context (wt Scores)) (getInput context (wt Value))))
       in Inr (layer, context))"

section \<open>Backward pass\<close>

text \<open>
  \<^verbatim>\<open>MoLAttentionLayer::calcDerivativeHelper\<close>. \<open>fc_proj_out\<close> and
  \<open>dfc_proj_out\<close> are two references to the tensor at the handle of \<open>Fc_proj_out\<close>.
  The first block copies \<open>kappa\<close>, \<open>beta\<close> and \<open>alpha\<close> out of it.
\<close>

definition helper_params ::
  "MoLAttentionLayer \<Rightarrow> nat \<Rightarrow> RunLayerContext \<Rightarrow> Tensor \<times> Tensor \<times> Tensor" where
  "helper_params layer mol_k context =
    (let wt = wt_idx layer;
         query = getInput context (wt Query);
         batch_n = batch (getDim query);
         seg = TensorDim4 batch_n 1 1 mol_k;
         kappa = copy_with_stride_from (getTensor context (wt Fc_proj_out)) seg 0;
         beta = copy_with_stride_from (getTensor context (wt Fc_proj_out)) seg mol_k;
         alpha = copy_with_stride_from (getTensor context (wt Fc_proj_out)) seg (mol_k * 2)
     in (kappa, beta, alpha))"

text \<open>
  The second block: the gradient of the scores from the incoming derivative, broadcast
  over the mixture axis; it returns \<open>dalpha\<close> and \<open>dprob\<close>.
\<close>

definition helper_dprob ::
  "MoLAttentionLayer \<Rightarrow> nat \<Rightarrow> Tensor \<Rightarrow> RunLayerContext \<Rightarrow> Tensor \<times> Tensor" where
  "helper_dprob layer mol_k alpha context =
    (let wt = wt_idx layer;
         query = getInput context (wt Query);
         value = getInput context (wt Value);
         derivative = getIncomingDerivative context SINGLE_INOUT_IDX;
         scores = getTensor context (wt Scores);
         prob = getTensor context (wt Prob);
         batch_n = batch (getDim query);
         dscores = Tensor_alloc (TensorDim4 (batch (getDim value)) 1 1 (height (getDim value)));
         dscores = dot_batched_deriv_wrt_1 dscores value derivative;
         dscores = reshape dscores (TensorDim4 (batch (getDim scores)) 1 (width (getDim scores)) 1);
         dprob_scaled = Tensor_alloc (TensorDim4 batch_n 1 (height (getDim value)) mol_k);
         dprob_scaled = setZero dprob_scaled;
         dprob_scaled = add dprob_scaled dscores;
         dalpha = sum_axis 2 (multiply dprob_scaled prob);
         dprob = multiply dprob_scaled alpha
     in (dalpha, dprob))"

text \<open>
  The third block is the backward pass of the scorer, from \<open>dprob\<close> to \<open>dm_neg\<close>,
  \<open>dm_pos\<close> and \<open>dbeta_eps\<close>.
\<close>

definition helper_scorer ::
  "MoLAttentionLayer \<Rightarrow> Tensor \<Rightarrow> Tensor \<Rightarrow> RunLayerContext \<Rightarrow> Tensor \<times> Tensor \<times> Tensor" where
  "helper_scorer layer beta dprob context =
    (let wt = wt_idx layer;
         prob_left = getTensor context (wt Prob_left);
         prob_right = getTensor context (wt Prob_right);
         u_neg_div = getTensor context (wt U_neg_div);
         u_pos_div = getTensor context (wt U_pos_div);
         dprob_left = dprob;
         dprob_right = multiply_scalar dprob (- 1);
         beta_eps = add_scalar beta (1 / 10 ^ 8);
         du_neg_div = sigmoid_prime_fn prob_right dprob_right;
         du_neg_m = divide_t du_neg_div beta_eps;
         dm_neg = sum_axis 2 (multiply_scalar du_neg_m (- 1));
         dbeta_eps_neg = sum_axis 2 (multiply_scalar (multiply du_neg_m u_neg_div) (- 1));
         du_pos_div = sigmoid_prime_fn prob_left dprob_left;
         du_pos_m = divide_t du_pos_div beta_eps;
         dm_pos = sum_axis 2 (multiply_scalar du_pos_m (- 1));
         dbeta_eps_pos = sum_axis 2 (multiply_scalar (multiply du_pos_m u_pos_div) (- 1));
         dbeta_eps = add dbeta_eps_neg dbeta_eps_pos
     in (dm_neg, dm_pos, dbeta_eps))"

text \<open>
  The whole helper. \<open>dstate\<close> is the handle of the outgoing derivative the caller
  passes by reference. The sum of \<open>dm_neg\<close> and \<open>dm_pos\<close> is written into it, the
  three gradient slices are written into the segments of the tensor at the handle of
  \<open>Fc_proj_out\<close>, and the flag is set.
\<close>

definition calcDerivativeHelper ::
  "MoLAttentionLayer \<Rightarrow> RunLayerContext \<Rightarrow> nat \<Rightarrow> error + (MoLAttentionLayer \<times> RunLayerContext)" where
  "calcDerivativeHelper layer context dstate =
    (case get_MoL_K layer of
       Inl e \<Rightarrow> Inl e
     | Inr mol_k \<Rightarrow>
       let wt = wt_idx layer;
           query = getInput context (wt Query);
           batch_n = batch (getDim query);
           seg = TensorDim4 batch_n 1 1 mol_k;
           (kappa, beta, alpha) = helper_params layer mol_k context;
           (dalpha, dprob) = helper_dprob layer mol_k alpha context;
           (dm_neg, dm_pos, dbeta_eps) = helper_scorer layer beta dprob context;
           context = setOutgoingDerivative context dstate
                       (write_into (getOutgoingDerivative context dstate) (add dm_neg dm_pos));
           dkappa = getOutgoingDerivative context dstate;
           dbeta = dbeta_eps;
           dalpha_src = softmax_prime_fn alpha dalpha;
           dkappa_src = multiply dkappa kappa;
           dbeta_src = multiply dbeta beta;
           context = setTensor context (wt Fc_proj_out)
                       (copy_with_stride_into (getTensor context (wt Fc_proj_out)) seg 0 dkappa_src);
           context = setTensor context (wt Fc_proj_out)
                       (copy_with_stride_into (getTensor context (wt Fc_proj_out)) seg mol_k dbeta_src);
           context = setTensor context (wt Fc_proj_out)
                       (copy_with_stride_into (getTensor context (wt Fc_proj_out)) seg (mol_k * 2) dalpha_src);
           layer = layer\<lparr>helper_exec := True, helper_runs := helper_runs layer + 1\<rparr>
       in Inr (layer, context))"

text \<open>
  \<^verbatim>\<open>MoLAttentionLayer::calcDerivative\<close>, the gradient with respect to the inputs.
  Its first statement writes into \<open>scores\<close>, as in the source.
\<close>

definition calcDerivative ::
  "MoLAttentionLayer \<Rightarrow> RunLayerContext \<Rightarrow> error + (MoLAttentionLayer \<times> RunLayerContext)" where
  "calcDerivative layer context =
    (let wt = wt_idx layer;
         derivative = getIncomingDerivative context SINGLE_INOUT_IDX;
         fc_w = getWeight context (wt Fc_w);
         fc_proj_w = getWeight context (wt Fc_proj_w);
         context = setTensor context (wt Scores)
                     (dot_batched_deriv_wrt_1 (getTensor context (wt Scores))
                        (getOutgoingDerivative context (wt Value)) derivative)
     in case (if \<not> helper_exec layer then calcDerivativeHelper layer context (wt State)
              else Inr (layer, context)) of
          Inl e \<Rightarrow> Inl e
        | Inr (layer, context) \<Rightarrow>
          let dfc_tanh = Tensor_alloc (getDim (getTensor context (wt Fc_out)));
              dfc_tanh = dot_deriv_wrt_1 dfc_tanh fc_proj_w (getTensor context (wt Fc_proj_out));
              dfc_out = tanh_prime_fn (getTensor context (wt Fc_tanh)) dfc_tanh;
              context = setOutgoingDerivative context (wt Query)
                          (dot_deriv_wrt_1 (getOutgoingDerivative context (wt Query)) fc_w dfc_out)
          in Inr (layer, context))"

text \<open>
  \<^verbatim>\<open>MoLAttentionLayer::calcGradient\<close>, the gradient with respect to the weights.
\<close>

definition calcGradient ::
  "MoLAttentionLayer \<Rightarrow> RunLayerContext \<Rightarrow> error + (MoLAttentionLayer \<times> RunLayerContext)" where
  "calcGradient layer context =
    (let wt = wt_idx layer;
         query = getInput context (wt Query);
         fc_proj_w = getWeight context (wt Fc_proj_w)
     in case (if \<not> helper_exec layer then calcDerivativeHelper layer context (wt State)
              else Inr (layer, context)) of
          Inl e \<Rightarrow> Inl e
        | Inr (layer, context) \<Rightarrow>
          let dfc_tanh = Tensor_alloc (getDim (getTensor context (wt Fc_out)));
              context = setWeightGrad context (wt Fc_proj_w)
                          (dot_deriv_wrt_2 (getTensor context (wt Fc_tanh))
                             (getWeightGrad context (wt Fc_proj_w)) (getTensor context (wt Fc_proj_out)));
              dfc_tanh = dot_deriv_wrt_1 dfc_tanh fc_proj_w (getTensor context (wt Fc_proj_out));
              dfc_out = tanh_prime_fn (getTensor context (wt Fc_tanh)) dfc_tanh;
              context = setWeightGrad context (wt Fc_w)
                          (dot_deriv_wrt_2 query (getWeightGrad context (wt Fc_w)) dfc_out);
              context = setWeightGrad context (wt Fc_bias)
                          (write_into (getWeightGrad context (wt Fc_bias)) (sum_axes012 dfc_out))
          in Inr (layer, context))"

section \<open>Batch-size change\<close>

text \<open>\<^verbatim>\<open>MoLAttentionLayer::setBatch\<close>: eight calls of \<^verbatim>\<open>updateTensor\<close>.\<close>

definition setBatch :: "MoLAttentionLayer \<Rightarrow> RunLayerContext \<Rightarrow> nat \<Rightarrow> MoLAttentionLayer \<times> RunLayerContext" where
  "setBatch layer context batch_n =
    (let wt = wt_idx layer;
         context = updateTensor context (wt Fc_out) batch_n;
         context = updateTensor context (wt Fc_proj_out) batch_n;
         context = updateTensor context (wt Scores) batch_n;
         context = updateTensor context (wt Prob) batch_n;
         context = updateTensor context (wt Prob_left) batch_n;
         context = updateTensor context (wt Prob_right) batch_n;
         context = updateTensor context (wt U_neg_div) batch_n;
         context = updateTensor context (wt U_pos_div) batch_n
     in (layer, context))"

section \<open>The life cycle of a layer\<close>

text \<open>
  The calls the framework makes on a finalized layer, and a run of a list of calls that
  stops at the first error, as an exception would.
\<close>

datatype call = Forwarding | CalcDerivative | CalcGradient | SetBatch nat

fun run_call ::
  "call \<Rightarrow> MoLAttentionLayer \<times> RunLayerContext \<Rightarrow> error + (MoLAttentionLayer \<times> RunLayerContext)" where
  "run_call Forwarding (layer, context) = forwarding layer context"
| "run_call CalcDerivative (layer, context) = calcDerivative layer context"
| "run_call CalcGradient (layer, context) = calcGradient layer context"
| "run_call (SetBatch n) (layer, context) = Inr (setBatch layer context n)"

fun run_calls ::
  "call list \<Rightarrow> MoLAttentionLayer \<times> RunLayerContext \<Rightarrow> error + (MoLAttentionLayer \<times> RunLayerContext)" where
  "run_calls [] s = Inr s"
| "run_calls (x # xs) s = (case run_call x s of Inl e \<Rightarrow> Inl e | Inr s' \<Rightarrow> run_calls xs s')"

text \<open>
  Modelled from the spec: the layer-lifecycle collaborator allocates what the setup
  declared. \<open>allocate\<close> is the run context with a tensor of the declared dimension at
  every handle; \<open>conforms\<close> says that the tensors of a run context have the declared
  dimensions. \<open>requested_dim\<close> looks a scratch tensor up by its name.
\<close>

definition alloc_store :: "TensorDim list \<Rightarrow> nat \<Rightarrow> Tensor" where
  "alloc_store ds i = (if i < length ds then Tensor_alloc (ds ! i) else Tensor_alloc (TensorDim4 0 0 0 0))"

definition allocate :: "InitLayerContext \<Rightarrow> RunLayerContext" where
  "allocate context =
     \<lparr>inputs = alloc_store (input_dim context),
      outputs = alloc_store (output_dim context),
      weights = alloc_store (map fst (weights_spec context)),
      weight_grads = alloc_store (map fst (weights_spec context)),
      tensors = alloc_store (map fst (tensors_spec context)),
      incoming_derivatives = alloc_store (output_dim context),
      outgoing_derivatives = alloc_store (input_dim context)\<rparr>"

definition dims_agree :: "TensorDim list \<Rightarrow> (nat \<Rightarrow> Tensor) \<Rightarrow> bool" where
  "dims_agree ds store = list_all (\<lambda>i. getDim (store i) = ds ! i) [0..<length ds]"

definition conforms :: "InitLayerContext \<Rightarrow> RunLayerContext \<Rightarrow> bool" where
  "conforms context rc \<longleftrightarrow>
     dims_agree (input_dim context) (inputs rc) \<and>
     dims_agree (output_dim context) (outputs rc) \<and>
     dims_agree (map fst (weights_spec context)) (weights rc) \<and>
     dims_agree (map fst (weights_spec context)) (weight_grads rc) \<and>
     dims_agree (map fst (tensors_spec context)) (tensors rc) \<and>
     dims_agree (output_dim context) (incoming_derivatives rc) \<and>
     dims_agree (input_dim context) (outgoing_derivatives rc)"

definition requested_dim :: "InitLayerContext \<Rightarrow> string \<Rightarrow> TensorDim option" where
  "requested_dim context nm = map_of (map (\<lambda>(d, n, l). (n, d)) (tensors_spec context)) nm"

subsection \<open>Set-up layers and contexts\<close>

text \<open>
  The state in which the framework runs a layer: \<open>layer_ok\<close> is the index table
  that \<^verbatim>\<open>finalize\<close> leaves on a fresh context together with the mixture size,
  \<open>io_dims\<close> the dimensions of the three inputs (query, value, location state, as
  in section 3 of the spec) and of the three weights, \<open>scratch_dims\<close> the dimensions
  of the scratch tensors other than \<open>fc_proj_out\<close>.
\<close>

definition layer_ok :: "nat \<Rightarrow> MoLAttentionLayer \<Rightarrow> bool" where
  "layer_ok K layer \<longleftrightarrow>
     props_MoL_K layer = Some K \<and>
     wt_idx layer Query = 0 \<and> wt_idx layer Value = 1 \<and> wt_idx layer State = 2 \<and>
     wt_idx layer Fc_w = 0 \<and> wt_idx layer Fc_bias = 1 \<and> wt_idx layer Fc_proj_w = 2 \<and>
     wt_idx layer Fc_out = 0 \<and> wt_idx layer Fc_tanh = 0 \<and> wt_idx layer Fc_proj_out = 1 \<and>
     wt_idx layer Scores = 2 \<and> wt_idx layer Prob = 3 \<and> wt_idx layer Prob_left = 4 \<and>
     wt_idx layer Prob_right = 5 \<and> wt_idx layer U_neg_div = 6 \<and> wt_idx layer U_pos_div = 7"

definition io_dims :: "nat \<Rightarrow> nat \<Rightarrow> nat \<Rightarrow> nat \<Rightarrow> nat \<Rightarrow> nat \<Rightarrow> RunLayerContext \<Rightarrow> bool" where
  "io_dims B qw T vw K U rc \<longleftrightarrow>
     getDim (inputs rc 0) = TensorDim4 B 1 1 qw \<and>
     getDim (inputs rc 1) = TensorDim4 B 1 T vw \<and>
     getDim (inputs rc 2) = TensorDim4 B 1 1 K \<and>
     getDim (weights rc 0) = TensorDim4 1 1 qw U \<and>
     getDim (weights rc 1) = TensorDim4 1 1 1 U \<and>
     getDim (weights rc 2) = TensorDim4 1 1 U (3 * K)"

definition scratch_dims :: "nat \<Rightarrow> nat \<Rightarrow> nat \<Rightarrow> nat \<Rightarrow> RunLayerContext \<Rightarrow> bool" where
  "scratch_dims B T K U rc \<longleftrightarrow>
     getDim (tensors rc 0) = TensorDim4 B 1 1 U \<and>
     getDim (tensors rc 2) = TensorDim4 B 1 1 T \<and>
     getDim (tensors rc 3) = TensorDim4 B 1 T K \<and>
     getDim (tensors rc 4) = TensorDim4 B 1 T K \<and>
     getDim (tensors rc 5) = TensorDim4 B 1 T K \<and>
     getDim (tensors rc 6) = TensorDim4 B 1 T K \<and>
     getDim (tensors rc 7) = TensorDim4 B 1 T K"

text \<open>
  The quantities of the spec, in its words (sections 4.1 to 4.4), over the inputs
  (query, value, location state at the handles 0, 1, 2) and the weights (\<open>W1\<close>,
  \<open>b1\<close>, \<open>W2\<close> at the handles 0, 1, 2) of a run context:
  \<open>hidden = tanh (query \<cdot> W1 + b1)\<close>, \<open>packed_output = hidden \<cdot> W2\<close>,
  \<open>center = location_state + exp shift_logits\<close>, \<open>scale = exp scale_logits\<close>,
  \<open>weight = softmax weight_logits\<close>, and the two arguments of the sigmoid at the
  timestep \<open>t\<close>, with the segments of the packed output at the offsets 0, \<open>K\<close>
  and \<open>2 * K\<close>.
\<close>

definition hidden :: "RunLayerContext \<Rightarrow> nat \<Rightarrow> nat \<Rightarrow> real" where
  "hidden rc b u =
     tanh ((\<Sum>i<width (getDim (inputs rc 0)). getValue (inputs rc 0) b 0 0 i * getValue (weights rc 0) 0 0 i u)
           + getValue (weights rc 1) 0 0 0 u)"

definition packed_output :: "RunLayerContext \<Rightarrow> nat \<Rightarrow> nat \<Rightarrow> real" where
  "packed_output rc b j =
     (\<Sum>u<width (getDim (weights rc 0)). hidden rc b u * getValue (weights rc 2) 0 0 u j)"

definition mol_center :: "RunLayerContext \<Rightarrow> nat \<Rightarrow> nat \<Rightarrow> nat \<Rightarrow> real" where
  "mol_center rc K b k = getValue (inputs rc 2) b 0 0 k + exp (packed_output rc b k)"

definition mol_scale :: "RunLayerContext \<Rightarrow> nat \<Rightarrow> nat \<Rightarrow> nat \<Rightarrow> real" where
  "mol_scale rc K b k = exp (packed_output rc b (K + k))"

definition mol_weight :: "RunLayerContext \<Rightarrow> nat \<Rightarrow> nat \<Rightarrow> nat \<Rightarrow> real" where
  "mol_weight rc K b k =
     exp (packed_output rc b (2 * K + k)) / (\<Sum>j<K. exp (packed_output rc b (2 * K + j)))"

definition left_arg :: "RunLayerContext \<Rightarrow> nat \<Rightarrow> nat \<Rightarrow> nat \<Rightarrow> nat \<Rightarrow> real" where
  "left_arg rc K b t k = (real t + 1 / 2 - mol_center rc K b k) / (mol_scale rc K b k + 1 / 10 ^ 8)"

definition right_arg :: "RunLayerContext \<Rightarrow> nat \<Rightarrow> nat \<Rightarrow> nat \<Rightarrow> nat \<Rightarrow> real" where
  "right_arg rc K b t k = (real t - 1 / 2 - mol_center rc K b k) / (mol_scale rc K b k + 1 / 10 ^ 8)"

text \<open>
  The gradients of the scorer at the entry of the backward pass, over the tensors a run
  context holds after the forward pass: the incoming derivative (handle 0), the value
  (handle 1), the packed buffer (scratch handle 1, with the mixture weights in its third
  segment and the scales in its second), \<open>prob\<close> (3), \<open>prob_left\<close> (4),
  \<open>prob_right\<close> (5), \<open>u_neg_div\<close> (6) and \<open>u_pos_div\<close> (7).
  \<open>d_score\<close> is the backward of the batched product; \<open>d_prob = d_score \<cdot> weight\<close>;
  \<open>d_left_arg\<close> and \<open>d_right_arg\<close> are the sigmoid backward formula applied to
  the cached sigmoid outputs with the incoming gradients \<open>d_prob\<close> and \<open>- d_prob\<close>;
  \<open>safe_scale = scale + 1e-8\<close>. \<open>d_center\<close> and \<open>d_safe_scale\<close> divide each
  term by \<open>safe_scale\<close>; \<open>d_weight\<close> and \<open>d_weight_logits\<close> are the gradient
  of the mixture weights and its softmax backward.
\<close>

definition d_score :: "RunLayerContext \<Rightarrow> nat \<Rightarrow> nat \<Rightarrow> real" where
  "d_score rc b h =
     (\<Sum>j<width (getDim (incoming_derivatives rc 0)).
        getValue (incoming_derivatives rc 0) b 0 0 j * batch_matrix_value (inputs rc 1) b h j)"

definition d_prob :: "RunLayerContext \<Rightarrow> nat \<Rightarrow> nat \<Rightarrow> nat \<Rightarrow> nat \<Rightarrow> real" where
  "d_prob rc K b h k = d_score rc b h * getValue (tensors rc 1) b 0 0 (2 * K + k)"

definition d_left_arg :: "RunLayerContext \<Rightarrow> nat \<Rightarrow> nat \<Rightarrow> nat \<Rightarrow> nat \<Rightarrow> real" where
  "d_left_arg rc K b h k =
     getValue (tensors rc 4) b 0 h k * (1 - getValue (tensors rc 4) b 0 h k) * d_prob rc K b h k"

definition d_right_arg :: "RunLayerContext \<Rightarrow> nat \<Rightarrow> nat \<Rightarrow> nat \<Rightarrow> nat \<Rightarrow> real" where
  "d_right_arg rc K b h k =
     getValue (tensors rc 5) b 0 h k * (1 - getValue (tensors rc 5) b 0 h k) * (- d_prob rc K b h k)"

definition safe_scale :: "RunLayerContext \<Rightarrow> nat \<Rightarrow> nat \<Rightarrow> nat \<Rightarrow> real" where
  "safe_scale rc K b k = getValue (tensors rc 1) b 0 0 (K + k) + 1 / 10 ^ 8"

definition d_center :: "RunLayerContext \<Rightarrow> nat \<Rightarrow> nat \<Rightarrow> nat \<Rightarrow> nat \<Rightarrow> real" where
  "d_center rc K T b k =
     - (\<Sum>h<T. (d_left_arg rc K b h k + d_right_arg rc K b h k) / safe_scale rc K b k)"

definition d_safe_scale :: "RunLayerContext \<Rightarrow> nat \<Rightarrow> nat \<Rightarrow> nat \<Rightarrow> nat \<Rightarrow> real" where
  "d_safe_scale rc K T b k =
     - (\<Sum>h<T. (d_left_arg rc K b h k * getValue (tensors rc 7) b 0 h k +
                  d_right_arg rc K b h k * getValue (tensors rc 6) b 0 h k) / safe_scale rc K b k)"

definition d_weight :: "RunLayerContext \<Rightarrow> nat \<Rightarrow> nat \<Rightarrow> nat \<Rightarrow> real" where
  "d_weight rc T b k = (\<Sum>h<T. d_score rc b h * getValue (tensors rc 3) b 0 h k)"

definition d_weight_logits :: "RunLayerContext \<Rightarrow> nat \<Rightarrow> nat \<Rightarrow> nat \<Rightarrow> nat \<Rightarrow> real" where
  "d_weight_logits rc K T b k =
     getValue (tensors rc 1) b 0 0 (2 * K + k) *
       (d_weight rc T b k - (\<Sum>j<K. d_weight rc T b j * getValue (tensors rc 1) b 0 0 (2 * K + j)))"

text \<open>
  The first three blocks of \<^verbatim>\<open>calcDerivativeHelper\<close> in sequence, up to the
  local tensors \<open>dm_neg\<close>, \<open>dm_pos\<close> and \<open>dbeta_eps\<close>.
\<close>

definition scorer_gradients ::
  "MoLAttentionLayer \<Rightarrow> nat \<Rightarrow> RunLayerContext \<Rightarrow> Tensor \<times> Tensor \<times> Tensor" where
  "scorer_gradients layer mol_k context =
     (let (kappa, beta, alpha) = helper_params layer mol_k context;
          (dalpha, dprob) = helper_dprob layer mol_k alpha context
      in helper_scorer layer beta dprob context)"

subsection \<open>Concrete inputs\<close>

text \<open>
  The scenario of the spec: \<open>K = 1\<close>, \<open>T = 4\<close>, batch 1, query width 2, value
  width 1, \<open>U = 2\<close>, on a fresh setup context.
\<close>

definition scenario_layer :: MoLAttentionLayer where
  "scenario_layer = MoLAttentionLayer_new\<lparr>props_Unit := Some 2, props_MoL_K := Some 1\<rparr>"

definition scenario_context :: InitLayerContext where
  "scenario_context =
     \<lparr>input_dim = [TensorDim4 1 1 1 2, TensorDim4 1 1 4 1, TensorDim4 1 1 1 1],
      ctx_name = ''mol_attention'', weights_spec = [], tensors_spec = [], output_dim = []\<rparr>"

text \<open>
  A second, smaller input for the run-time properties: batch 1, query width 1,
  \<open>T = 2\<close>, value width 1, \<open>K = 1\<close>, \<open>U = 3\<close>; all weights and the query
  are 0, the location state is \<open>1 / 2\<close>, the value is 1 at the first timestep and 0
  at the second, and the incoming derivative is 1.
\<close>

definition example_layer :: MoLAttentionLayer where
  "example_layer = MoLAttentionLayer_new\<lparr>props_Unit := Some 3, props_MoL_K := Some 1\<rparr>"

definition example_context :: InitLayerContext where
  "example_context =
     \<lparr>input_dim = [TensorDim4 1 1 1 1, TensorDim4 1 1 2 1, TensorDim4 1 1 1 1],
      ctx_name = ''mol_attention'', weights_spec = [], tensors_spec = [], output_dim = []\<rparr>"

definition example_run :: "InitLayerContext \<Rightarrow> RunLayerContext" where
  "example_run c =
     (allocate c)
       \<lparr>inputs := (inputs (allocate c))
           (1 := Tensor_of (TensorDim4 1 1 2 1) (\<lambda>b c h w. if h = 0 then 1 else 0),
            2 := Tensor_of (TensorDim4 1 1 1 1) (\<lambda>b c h w. 1 / 2)),
        incoming_derivatives := (incoming_derivatives (allocate c))
           (0 := Tensor_of (TensorDim4 1 1 1 1) (\<lambda>b c h w. 1))\<rparr>"

text \<open>
  The same run context with a bias \<open>fc_bias\<close> of ones and a projection \<open>fc_proj_w\<close>
  whose only non-zero entry, a one, feeds the scale logit: the hidden units are
  \<open>tanh 1\<close>, the packed buffer is \<open>(0, tanh 1, 0)\<close> and the scale is
  \<open>exp (tanh 1)\<close>, about 2.14.
\<close>

definition scaled_run :: "InitLayerContext \<Rightarrow> RunLayerContext" where
  "scaled_run c =
     (example_run c)
       \<lparr>weights := (weights (example_run c))
           (1 := Tensor_of (TensorDim4 1 1 1 3) (\<lambda>b c h w. 1),
            2 := Tensor_of (TensorDim4 1 1 3 3) (\<lambda>b c h w. if h = 0 \<and> w = 1 then 1 else 0))\<rparr>"

text \<open>
  A run from the constructor's layer: the setup, then a list of calls on the run context
  that \<open>mk\<close> builds from the finalized setup context.
\<close>

definition run_from_setup ::
  "MoLAttentionLayer \<Rightarrow> InitLayerContext \<Rightarrow> (InitLayerContext \<Rightarrow> RunLayerContext) \<Rightarrow> call list \<Rightarrow>
   error + (MoLAttentionLayer \<times> RunLayerContext)" where
  "run_from_setup layer0 ic mk calls =
     (case finalize layer0 ic of
        Inl e \<Rightarrow> Inl e
      | Inr (layer, ic') \<Rightarrow> run_calls calls (layer, mk ic'))"

section \<open>Properties of the setup\<close>

lemma finalize_Inl_iff:
  "isl (finalize layer context) \<longleftrightarrow>
     getNumInputs context \<noteq> 3 \<or> props_Unit layer = None \<or> props_MoL_K layer = None"
  by (simp add: finalize_def Let_def split: option.splits prod.splits)

lemma TensorDim4_sel [simp]:
  "batch (TensorDim4 b c h w) = b" "channel (TensorDim4 b c h w) = c"
  "height (TensorDim4 b c h w) = h" "width (TensorDim4 b c h w) = w"
  by (simp_all add: TensorDim4_def)

subsection \<open>Elements of the tensor operations\<close>

lemma getIndex_decomp:
  assumes "c < channel d" "h < height d" "w < width d"
  shows "getIndex d b c h w mod width d = w"
    and "getIndex d b c h w div width d mod height d = h"
    and "getIndex d b c h w div (height d * width d) mod channel d = c"
    and "getIndex d b c h w div getFeatureLen d = b"
proof -
  let ?i = "getIndex d b c h w"
  have i: "?i = ((b * channel d + c) * height d + h) * width d + w"
    by (simp add: getIndex_def)
  show m: "?i mod width d = w" using assms by (simp add: i)
  have dw: "?i div width d = (b * channel d + c) * height d + h"
    using assms by (simp add: i)
  show "?i div width d mod height d = h" using assms by (simp add: dw)
  have dhw: "?i div (height d * width d) = b * channel d + c"
  proof -
    have "?i div (height d * width d) = ?i div width d div height d"
      by (metis div_mult2_eq mult.commute)
    then show ?thesis using assms by (simp add: dw)
  qed
  show "?i div (height d * width d) mod channel d = c" using assms by (simp add: dhw)
  have "?i div getFeatureLen d = ?i div (height d * width d) div channel d"
    unfolding getFeatureLen_def by (metis div_mult2_eq mult.commute)
  then show "?i div getFeatureLen d = b" using assms by (simp add: dhw)
qed

lemma getValue_Tensor_of:
  "c < channel d \<Longrightarrow> h < height d \<Longrightarrow> w < width d \<Longrightarrow> getValue (Tensor_of d f) b c h w = f b c h w"
  by (simp add: getValue_def Tensor_of_def getIndex_decomp)

lemma getDim_Tensor_of [simp]: "getDim (Tensor_of d f) = d"
  by (simp add: Tensor_of_def)

lemma getDim_simps [simp]:
  "getDim (Tensor_alloc d) = d"
  "getDim (setZero t) = getDim t"
  "getDim (write_into out res) = getDim out"
  "getDim (reshape t d) = d"
  "getDim (apply_broadcast f t m) = getDim t"
  "getDim (add t m) = getDim t"
  "getDim (subtract t m) = getDim t"
  "getDim (multiply t m) = getDim t"
  "getDim (divide_t t m) = getDim t"
  "getDim (apply_t g t) = getDim t"
  "getDim (add_scalar t x) = getDim t"
  "getDim (multiply_scalar t x) = getDim t"
  "getDim (dot t m) = (getDim t)\<lparr>width := width (getDim m)\<rparr>"
  "getDim (dotBatched t m) = (getDim t)\<lparr>width := width (getDim m)\<rparr>"
  "getDim (dot_deriv_wrt_1 t m od) = getDim t"
  "getDim (dot_deriv_wrt_2 t md od) = getDim md"
  "getDim (dot_batched_deriv_wrt_1 t m od) = getDim t"
  "getDim (copy_with_stride_from t d off) = d"
  "getDim (copy_with_stride_into t d off src) = getDim t"
  "getDim (fill_row t b h v) = getDim t"
  "getDim (softmax_fn t) = getDim t"
  "getDim (tanh_prime_fn t m) = getDim t"
  "getDim (sigmoid_prime_fn t m) = getDim t"
  "getDim (softmax_prime_fn t m) = getDim t"
  by (simp_all add: Tensor_alloc_def setZero_def write_into_def reshape_def apply_broadcast_def
      add_def subtract_def multiply_def divide_t_def apply_t_def add_scalar_def multiply_scalar_def
      dot_def dotBatched_def dot_deriv_wrt_1_def dot_deriv_wrt_2_def dot_batched_deriv_wrt_1_def
      copy_with_stride_from_def copy_with_stride_into_def fill_row_def softmax_fn_def
      tanh_prime_fn_def sigmoid_prime_fn_def softmax_prime_fn_def)

lemma getDim_sum_axis [simp]:
  "getDim (sum_axis 2 t) = (getDim t)\<lparr>height := 1\<rparr>"
  "getDim (sum_axis 3 t) = (getDim t)\<lparr>width := 1\<rparr>"
  by (simp_all add: sum_axis_def Let_def)

lemma getDim_fill_rows [simp]:
  "getDim (fold (\<lambda>h t. fill_row t b h (g h)) hs t) = getDim t"
  by (induction hs arbitrary: t) simp_all

lemma getDim_fill_batches:
  "getDim (fold (\<lambda>b t. fold (\<lambda>h t. fill_row t b h (g h)) [0..<height (getDim t)] t) bs t) = getDim t"
  by (induction bs arbitrary: t) simp_all

lemma getDim_fill_u_base [simp]: "getDim (fill_u_base n t) = getDim t"
  unfolding fill_u_base_def by (rule getDim_fill_batches)

lemma row_cover: "(r * w \<le> i \<and> i < r * w + w) \<longleftrightarrow> (0 < w \<and> i div w = r)" for r w i :: nat
proof (cases "w = 0")
  case True
  then show ?thesis by simp
next
  case False
  then have w: "0 < w" by simp
  show ?thesis
  proof
    assume a: "r * w \<le> i \<and> i < r * w + w"
    then have "i div w = r"
      by (metis add.commute div_nat_eqI mult.commute mult_Suc_right)
    with w show "0 < w \<and> i div w = r" by simp
  next
    assume a: "0 < w \<and> i div w = r"
    have "i div w * w \<le> i" by simp
    moreover have "i < i div w * w + w"
      using w by (metis add.commute dividend_less_div_times mult.commute)
    ultimately show "r * w \<le> i \<and> i < r * w + w" using a by simp
  qed
qed

lemma getData_fill_row:
  "getData (fill_row t b h v) i =
    (if (b * channel (getDim t) * height (getDim t) + h) * width (getDim t) \<le> i \<and>
        i < (b * channel (getDim t) * height (getDim t) + h) * width (getDim t) + width (getDim t)
     then v else getData t i)"
  by (simp add: fill_row_def getIndex_def)

lemma getData_fill_rows:
  "getData (fold (\<lambda>h t. fill_row t b h (g h)) [0..<m] t) i =
    (if 0 < width (getDim t) \<and> b * channel (getDim t) * height (getDim t) \<le> i div width (getDim t)
        \<and> i div width (getDim t) < b * channel (getDim t) * height (getDim t) + m
     then g (i div width (getDim t) - b * channel (getDim t) * height (getDim t)) else getData t i)"
proof (induction m)
  case 0
  then show ?case by simp
next
  case (Suc m)
  let ?W = "width (getDim t)" and ?R = "b * channel (getDim t) * height (getDim t)"
  have idx: "getIndex (getDim t) b 0 m 0 = (?R + m) * ?W"
    by (simp add: getIndex_def)
  have cover: "((?R + m) * ?W \<le> i \<and> i < (?R + m) * ?W + ?W) \<longleftrightarrow> (0 < ?W \<and> i div ?W = ?R + m)"
    by (rule row_cover)
  let ?prev = "fold (\<lambda>h t. fill_row t b h (g h)) [0..<m] t"
  have "getData (fold (\<lambda>h t. fill_row t b h (g h)) [0..<Suc m] t) i =
        getData (fill_row ?prev b m (g m)) i"
    by simp
  also have "\<dots> = (if (?R + m) * ?W \<le> i \<and> i < (?R + m) * ?W + ?W then g m else getData ?prev i)"
    by (simp only: getData_fill_row getDim_fill_rows)
  also have "\<dots> = (if 0 < ?W \<and> i div ?W = ?R + m then g m else getData ?prev i)"
    using cover by simp
  finally show ?case
    by (auto simp add: Suc.IH)
qed

lemma getData_fill_u_base:
  assumes "channel (getDim t) = 1"
  shows "getData (fill_u_base n t) i =
    (if 0 < width (getDim t) \<and> i div width (getDim t) < n * height (getDim t)
     then real (i div width (getDim t) mod height (getDim t) + 1) else getData t i)"
proof (induction n)
  case 0
  then show ?case by (simp add: fill_u_base_def)
next
  case (Suc n)
  let ?H = "height (getDim t)" and ?W = "width (getDim t)"
  let ?prev = "fill_u_base n t"
  have step: "fill_u_base (Suc n) t = fold (\<lambda>h t. fill_row t n h (real (h + 1))) [0..<?H] ?prev"
    by (simp add: fill_u_base_def getDim_fill_batches)
  have md: "i div ?W mod ?H = i div ?W - n * ?H" if "n * ?H \<le> i div ?W" "i div ?W < n * ?H + ?H"
    using that by (metis add.commute le_add_diff_inverse mod_less mod_mult_self1 nat_add_left_cancel_less mult.commute) 
  show ?case
    unfolding step getData_fill_rows
    using assms md by (auto simp add: Suc.IH)
qed

lemma getValue_fill_u_base:
  assumes "channel (getDim t) = 1" "b < n" "h < height (getDim t)" "w < width (getDim t)"
  shows "getValue (fill_u_base n t) b 0 h w = real (h + 1)"
proof -
  let ?H = "height (getDim t)" and ?W = "width (getDim t)"
  have i: "getIndex (getDim t) b 0 h w = (b * ?H + h) * ?W + w"
    using assms by (simp add: getIndex_def)
  have d: "((b * ?H + h) * ?W + w) div ?W = b * ?H + h"
    using assms by simp
  have "b * ?H + h < n * ?H"
  proof -
    have "b * ?H + h < b * ?H + ?H" using assms by simp
    also have "\<dots> = Suc b * ?H" by simp
    also have "\<dots> \<le> n * ?H" using assms by (intro mult_le_mono1) simp
    finally show ?thesis .
  qed
  then show ?thesis
    using assms by (simp add: getValue_def getData_fill_u_base i d)
qed

lemma bc_index: "i < n \<Longrightarrow> (if n = Suc 0 then 0 else i) = i"
  by auto

lemma getValue_apply_t [simp]: "getValue (apply_t g t) b c h w = g (getValue t b c h w)"
  by (simp add: getValue_def apply_t_def)

lemma getValue_add_scalar [simp]: "getValue (add_scalar t x) b c h w = getValue t b c h w + x"
  by (simp add: add_scalar_def)

lemma getValue_multiply_scalar [simp]: "getValue (multiply_scalar t x) b c h w = getValue t b c h w * x"
  by (simp add: multiply_scalar_def)

lemma getValue_write_into: "getDim out = getDim res \<Longrightarrow> getValue (write_into out res) b c h w = getValue res b c h w"
  by (simp add: getValue_def write_into_def)

lemma getValue_apply_broadcast:
  "c < channel (getDim t) \<Longrightarrow> h < height (getDim t) \<Longrightarrow> w < width (getDim t) \<Longrightarrow>
   getValue (apply_broadcast f t m) b c h w = f (getValue t b c h w) (broadcast_value m b c h w)"
  by (simp add: apply_broadcast_def getValue_Tensor_of)

lemmas getValue_binop =
  getValue_apply_broadcast [where f = "(+)", folded add_def]
  getValue_apply_broadcast [where f = "(-)", folded subtract_def]
  getValue_apply_broadcast [where f = "(*)", folded multiply_def]
  getValue_apply_broadcast [where f = "(/)", folded divide_t_def]


subsection \<open>The setup on a fresh context\<close>

lemmas finalize_defs =
  finalize_def getNumInputs_def requestWeight_def requestTensor_def setOutputDimensions_def Let_def

lemmas scenario_defs =
  scenario_layer_def scenario_context_def MoLAttentionLayer_new_def TensorDim2_def TensorDim1_def
  TensorDim4_def requested_dim_def

subsection \<open>Errors are raised by the setup only\<close>

lemma get_MoL_K_Some: "props_MoL_K layer = Some k \<Longrightarrow> get_MoL_K layer = Inr k"
  by (simp add: get_MoL_K_def)

lemma forwarding_layer:
  assumes "props_MoL_K layer = Some k"
  shows "\<exists>c'. forwarding layer context = Inr (layer\<lparr>helper_exec := False\<rparr>, c')"
  using assms by (simp add: forwarding_def get_MoL_K_Some Let_def split: prod.splits)

lemma calcDerivativeHelper_layer:
  assumes "props_MoL_K layer = Some k"
  shows "\<exists>c'. calcDerivativeHelper layer context ds =
           Inr (layer\<lparr>helper_exec := True, helper_runs := helper_runs layer + 1\<rparr>, c')"
  using assms by (simp add: calcDerivativeHelper_def get_MoL_K_Some Let_def split: prod.splits)

text \<open>
  The flag and the counter after a call, as a function of the layer alone: the two-state
  machine of the backward cache (\<open>helper_exec\<close> false is Pending, true is Computed).
\<close>

lemma calcDerivative_layer:
  assumes "props_MoL_K layer = Some k"
  shows "\<exists>c'. calcDerivative layer context =
           Inr (if helper_exec layer then layer
                else layer\<lparr>helper_exec := True, helper_runs := helper_runs layer + 1\<rparr>, c')"
proof (cases "helper_exec layer")
  case True
  then show ?thesis by (simp add: calcDerivative_def Let_def)
next
  case False
  obtain c' where "calcDerivativeHelper layer
      (setTensor context (wt_idx layer Scores)
         (dot_batched_deriv_wrt_1 (getTensor context (wt_idx layer Scores))
            (getOutgoingDerivative context (wt_idx layer Value))
            (getIncomingDerivative context SINGLE_INOUT_IDX))) (wt_idx layer State) =
      Inr (layer\<lparr>helper_exec := True, helper_runs := helper_runs layer + 1\<rparr>, c')"
    using calcDerivativeHelper_layer [OF assms] by blast
  with False show ?thesis by (simp add: calcDerivative_def Let_def)
qed

lemma calcGradient_layer:
  assumes "props_MoL_K layer = Some k"
  shows "\<exists>c'. calcGradient layer context =
           Inr (if helper_exec layer then layer
                else layer\<lparr>helper_exec := True, helper_runs := helper_runs layer + 1\<rparr>, c')"
proof (cases "helper_exec layer")
  case True
  then show ?thesis by (simp add: calcGradient_def Let_def)
next
  case False
  obtain c' where "calcDerivativeHelper layer context (wt_idx layer State) =
      Inr (layer\<lparr>helper_exec := True, helper_runs := helper_runs layer + 1\<rparr>, c')"
    using calcDerivativeHelper_layer [OF assms] by blast
  with False show ?thesis by (simp add: calcGradient_def Let_def)
qed

lemma setBatch_layer: "fst (setBatch layer context n) = layer"
  by (simp add: setBatch_def Let_def)

lemma run_call_props:
  assumes "props_MoL_K layer = Some k"
  shows "\<exists>l' c'. run_call x (layer, context) = Inr (l', c') \<and> props_MoL_K l' = Some k"
proof (cases x)
  case Forwarding
  then show ?thesis using forwarding_layer [OF assms, of "context"] assms by auto
next
  case CalcDerivative
  then show ?thesis using calcDerivative_layer [OF assms, of "context"] assms by auto
next
  case CalcGradient
  then show ?thesis using calcGradient_layer [OF assms, of "context"] assms by auto
next
  case (SetBatch n)
  then show ?thesis using assms setBatch_layer [of layer "context" n]
    by (cases "setBatch layer context n") auto
qed

lemma run_calls_no_error:
  assumes "props_MoL_K layer = Some k"
  shows "\<not> isl (run_calls xs (layer, context))"
  using assms
proof (induction xs arbitrary: layer "context")
  case Nil
  then show ?case by simp
next
  case (Cons x xs)
  obtain l' c' where "run_call x (layer, context) = Inr (l', c')" "props_MoL_K l' = Some k"
    using run_call_props [OF Cons.prems] by blast
  then show ?case using Cons.IH by simp
qed

lemma finalize_props:
  assumes "finalize layer context = Inr (layer', context')"
  shows "props_MoL_K layer' = props_MoL_K layer" "props_MoL_K layer \<noteq> None"
  using assms by (auto simp add: finalize_defs split: if_splits option.splits prod.splits)

text \<open>
  C8. The setup raises an error exactly when the number of inputs is not 3, the unit
  count is missing or the mixture size is missing; after a successful setup no sequence
  of forward, backward and batch-size calls raises an error.
\<close>

theorem finalize_error_iff_configuration:
  "(isl (finalize layer context) \<longleftrightarrow>
      getNumInputs context \<noteq> 3 \<or> props_Unit layer = None \<or> props_MoL_K layer = None) \<and>
   (\<forall>layer' context' calls rc. finalize layer context = Inr (layer', context') \<longrightarrow>
      \<not> isl (run_calls calls (layer', rc)))"
proof (intro conjI allI impI)
  show "isl (finalize layer context) \<longleftrightarrow>
      getNumInputs context \<noteq> 3 \<or> props_Unit layer = None \<or> props_MoL_K layer = None"
    by (rule finalize_Inl_iff)
next
  fix layer' context' calls rc
  assume "finalize layer context = Inr (layer', context')"
  then obtain k where "props_MoL_K layer' = Some k"
    using finalize_props by fastforce
  then show "\<not> isl (run_calls calls (layer', rc))"
    by (rule run_calls_no_error)
qed

theorem finalize_error_iff_configuration_witness:
  "\<not> isl (finalize scenario_layer scenario_context) \<and>
   isl (finalize (scenario_layer\<lparr>props_MoL_K := None\<rparr>) scenario_context) \<and>
   isl (finalize (scenario_layer\<lparr>props_Unit := None\<rparr>) scenario_context) \<and>
   isl (finalize scenario_layer (scenario_context\<lparr>input_dim := [TensorDim4 1 1 1 2]\<rparr>)) \<and>
   (case finalize scenario_layer scenario_context of
      Inl e \<Rightarrow> False
    | Inr (l, c) \<Rightarrow> \<not> isl (run_calls [Forwarding, CalcDerivative, SetBatch 2, Forwarding, CalcGradient] (l, allocate c)))"
proof -
  have ok: "\<not> isl (finalize scenario_layer scenario_context)"
    using finalize_error_iff_configuration [of scenario_layer scenario_context]
    by (simp add: scenario_defs getNumInputs_def)
  have k: "isl (finalize (scenario_layer\<lparr>props_MoL_K := None\<rparr>) scenario_context)"
    using finalize_error_iff_configuration [of "scenario_layer\<lparr>props_MoL_K := None\<rparr>" scenario_context]
    by simp
  have u: "isl (finalize (scenario_layer\<lparr>props_Unit := None\<rparr>) scenario_context)"
    using finalize_error_iff_configuration [of "scenario_layer\<lparr>props_Unit := None\<rparr>" scenario_context]
    by simp
  have n: "isl (finalize scenario_layer (scenario_context\<lparr>input_dim := [TensorDim4 1 1 1 2]\<rparr>))"
    using finalize_error_iff_configuration [of scenario_layer "scenario_context\<lparr>input_dim := [TensorDim4 1 1 1 2]\<rparr>"]
    by (simp add: getNumInputs_def)
  from ok obtain l c where f: "finalize scenario_layer scenario_context = Inr (l, c)"
    by (cases "finalize scenario_layer scenario_context") auto
  have "\<not> isl (run_calls [Forwarding, CalcDerivative, SetBatch 2, Forwarding, CalcGradient] (l, allocate c))"
    using finalize_error_iff_configuration [of scenario_layer scenario_context] f by blast
  with ok k u n f show ?thesis by simp
qed

subsection \<open>What the setup declares in the scenario of the spec\<close>

text \<open>
  C4. In the scenario (\<open>U = 2\<close>, \<open>K = 1\<close>) the scratch tensor \<open>fc_proj_out\<close> is
  requested with the dimension \<open>(1, 1, 1, 2)\<close>, of width \<open>U\<close>, and not with the width
  \<open>3 * K = 3\<close> of the packed projection output: the width setter after the copy is
  applied to \<open>fc_out_dim\<close>.
\<close>

theorem finalize_scenario_packed_width:
  "(case finalize scenario_layer scenario_context of
      Inl e \<Rightarrow> False
    | Inr (l, c) \<Rightarrow> requested_dim c ''fc_proj_out'' = Some (TensorDim4 1 1 1 2) \<and>
                   map fst (weights_spec c) ! wt_idx l Fc_proj_w = TensorDim4 1 1 2 3)"
  by (simp add: finalize_defs scenario_defs)

text \<open>
  C5. In the scenario (query width 2, value width 1) the declared output dimension is
  the dimension of the query, \<open>(1, 1, 1, 2)\<close>, while the batched product of the scores
  and the value has the width 1 of the value.
\<close>

theorem finalize_scenario_output_width:
  "(case finalize scenario_layer scenario_context of
      Inl e \<Rightarrow> False
    | Inr (l, c) \<Rightarrow>
        output_dim c = [TensorDim4 1 1 1 2] \<and>
        getDim (dotBatched (getTensor (allocate c) (wt_idx l Scores)) (getInput (allocate c) (wt_idx l Value)))
          = TensorDim4 1 1 1 1)"
  by (simp add: finalize_defs scenario_defs allocate_def alloc_store_def getTensor_def getInput_def
      dotBatched_def Tensor_of_def Tensor_alloc_def)

text \<open>
  C6. In the scenario the setup requests eight scratch tensors and none of them is
  \<open>fc_tanh\<close>; the handle of \<open>Fc_tanh\<close> keeps the value 0 of the constructor, which
  is the handle of \<open>fc_out\<close>.
\<close>

theorem finalize_scenario_no_fc_tanh:
  "(case finalize scenario_layer scenario_context of
      Inl e \<Rightarrow> False
    | Inr (l, c) \<Rightarrow>
        map (\<lambda>(d, n, ls). n) (tensors_spec c) =
          [''fc_out'', ''fc_proj_out'', ''scores'', ''prob'', ''prob_left'', ''prob_right'',
           ''u_neg_div'', ''u_pos_div''] \<and>
        requested_dim c ''fc_tanh'' = None \<and>
        wt_idx l Fc_tanh = wt_idx l Fc_out)"
  by (simp add: finalize_defs scenario_defs)


section \<open>Properties of the forward pass\<close>

lemma TensorDim4_update [simp]:
  "(TensorDim4 b c h w)\<lparr>width := w'\<rparr> = TensorDim4 b c h w'"
  "(TensorDim4 b c h w)\<lparr>height := h'\<rparr> = TensorDim4 b c h' w"
  "(TensorDim4 b c h w)\<lparr>batch := b'\<rparr> = TensorDim4 b' c h w"
  by (simp_all add: TensorDim4_def)

lemma broadcast_value_row:
  "batch (getDim m) = 1 \<Longrightarrow> channel (getDim m) = 1 \<Longrightarrow> height (getDim m) = 1 \<Longrightarrow>
   w < width (getDim m) \<Longrightarrow> broadcast_value m b c h w = getValue m 0 0 0 w"
  by (auto simp add: broadcast_value_def)

lemma broadcast_value_batch_row:
  "b < batch (getDim m) \<Longrightarrow> channel (getDim m) = 1 \<Longrightarrow> height (getDim m) = 1 \<Longrightarrow>
   w < width (getDim m) \<Longrightarrow> broadcast_value m b c h w = getValue m b 0 0 w"
  by (auto simp add: broadcast_value_def)

lemma broadcast_value_column:
  "b < batch (getDim m) \<Longrightarrow> channel (getDim m) = 1 \<Longrightarrow> h < height (getDim m) \<Longrightarrow>
   width (getDim m) = 1 \<Longrightarrow> broadcast_value m b c h w = getValue m b 0 h 0"
  by (auto simp add: broadcast_value_def)

lemma broadcast_value_same:
  "b < batch (getDim m) \<Longrightarrow> channel (getDim m) = 1 \<Longrightarrow> h < height (getDim m) \<Longrightarrow>
   w < width (getDim m) \<Longrightarrow> broadcast_value m b c h w = getValue m b 0 h w"
  by (auto simp add: broadcast_value_def)

lemma getValue_add:
  "c < channel (getDim t) \<Longrightarrow> h < height (getDim t) \<Longrightarrow> w < width (getDim t) \<Longrightarrow>
   getValue (add t m) b c h w = getValue t b c h w + broadcast_value m b c h w"
  by (simp add: add_def getValue_apply_broadcast)

lemma getValue_subtract:
  "c < channel (getDim t) \<Longrightarrow> h < height (getDim t) \<Longrightarrow> w < width (getDim t) \<Longrightarrow>
   getValue (subtract t m) b c h w = getValue t b c h w - broadcast_value m b c h w"
  by (simp add: subtract_def getValue_apply_broadcast)

lemma getValue_multiply:
  "c < channel (getDim t) \<Longrightarrow> h < height (getDim t) \<Longrightarrow> w < width (getDim t) \<Longrightarrow>
   getValue (multiply t m) b c h w = getValue t b c h w * broadcast_value m b c h w"
  by (simp add: multiply_def getValue_apply_broadcast)

lemma getValue_divide_t:
  "c < channel (getDim t) \<Longrightarrow> h < height (getDim t) \<Longrightarrow> w < width (getDim t) \<Longrightarrow>
   getValue (divide_t t m) b c h w = getValue t b c h w / broadcast_value m b c h w"
  by (simp add: divide_t_def getValue_apply_broadcast)

lemmas getValue_ops = getValue_add getValue_subtract getValue_multiply getValue_divide_t

lemma matrix_value_getValue:
  "channel (getDim m) = 1 \<Longrightarrow> matrix_value m i j = getValue m 0 0 i j"
  by (simp add: matrix_value_def getValue_def getIndex_def)

lemma getValue_dot:
  "c < channel (getDim t) \<Longrightarrow> h < height (getDim t) \<Longrightarrow> j < width (getDim m) \<Longrightarrow>
   getValue (dot t m) b c h j = (\<Sum>i<width (getDim t). getValue t b c h i * matrix_value m i j)"
  by (simp add: dot_def getValue_Tensor_of)

lemmas ctx_simps = getInput_def getOutput_def getWeight_def getWeightGrad_def getTensor_def
  getIncomingDerivative_def getOutgoingDerivative_def setOutput_def setWeightGrad_def setTensor_def
  setOutgoingDerivative_def

lemma forwarding_projection_frame:
  "inputs (forwarding_projection layer rc) = inputs rc"
  "weights (forwarding_projection layer rc) = weights rc"
  "outputs (forwarding_projection layer rc) = outputs rc"
  "weight_grads (forwarding_projection layer rc) = weight_grads rc"
  "incoming_derivatives (forwarding_projection layer rc) = incoming_derivatives rc"
  "outgoing_derivatives (forwarding_projection layer rc) = outgoing_derivatives rc"
  by (simp_all add: forwarding_projection_def Let_def ctx_simps)

lemma forwarding_projection_tensors:
  assumes "layer_ok K layer"
  shows "tensors (forwarding_projection layer rc) =
     (tensors rc)(0 := write_into (add (dot (inputs rc 0) (weights rc 0)) (weights rc 1))
                         (apply_t tanh (add (dot (inputs rc 0) (weights rc 0)) (weights rc 1))),
                  1 := dot (write_into (add (dot (inputs rc 0) (weights rc 0)) (weights rc 1))
                         (apply_t tanh (add (dot (inputs rc 0) (weights rc 0)) (weights rc 1)))) (weights rc 2))"
  using assms by (simp add: forwarding_projection_def Let_def ctx_simps layer_ok_def)

lemma forwarding_projection_packed:
  assumes "layer_ok K layer" "io_dims B qw T vw K U rc"
  shows "j < 3 * K \<Longrightarrow> getValue (tensors (forwarding_projection layer rc) 1) b 0 0 j = packed_output rc b j"
    and "getDim (tensors (forwarding_projection layer rc) 1) = TensorDim4 B 1 1 (3 * K)"
    and "getDim (tensors (forwarding_projection layer rc) 0) = TensorDim4 B 1 1 U"
    and "1 < i \<Longrightarrow> tensors (forwarding_projection layer rc) i = tensors rc i"
proof -
  let ?pre = "add (dot (inputs rc 0) (weights rc 0)) (weights rc 1)"
  have d: "getDim (inputs rc 0) = TensorDim4 B 1 1 qw" "getDim (weights rc 0) = TensorDim4 1 1 qw U"
    "getDim (weights rc 1) = TensorDim4 1 1 1 U" "getDim (weights rc 2) = TensorDim4 1 1 U (3 * K)"
    using assms(2) by (simp_all add: io_dims_def)
  have pre: "getValue ?pre b 0 0 u =
      (\<Sum>i<qw. getValue (inputs rc 0) b 0 0 i * getValue (weights rc 0) 0 0 i u) + getValue (weights rc 1) 0 0 0 u"
    if "u < U" for u
    using that d by (simp add: getValue_ops getValue_dot broadcast_value_row matrix_value_getValue)
  have hid: "getValue (write_into ?pre (apply_t tanh ?pre)) b 0 0 u = hidden rc b u" if "u < U" for u
    using that d pre by (simp add: getValue_write_into hidden_def)
  show "j < 3 * K \<Longrightarrow> getValue (tensors (forwarding_projection layer rc) 1) b 0 0 j = packed_output rc b j"
    using d hid
    by (simp add: forwarding_projection_tensors [OF assms(1)] getValue_dot
        matrix_value_getValue packed_output_def)
  show "1 < i \<Longrightarrow> tensors (forwarding_projection layer rc) i = tensors rc i"
    by (simp add: forwarding_projection_tensors [OF assms(1)])
  show "getDim (tensors (forwarding_projection layer rc) 1) = TensorDim4 B 1 1 (3 * K)"
    using d by (simp add: forwarding_projection_tensors [OF assms(1)])
  show "getDim (tensors (forwarding_projection layer rc) 0) = TensorDim4 B 1 1 U"
    using d by (simp add: forwarding_projection_tensors [OF assms(1)])
qed

lemma getValue_copy_with_stride_from:
  assumes "c < channel d" "h < height d" "k < width d"
  shows "getValue (copy_with_stride_from t d off) b c h k = getValue t b c h (off + k)"
  using assms by (simp add: copy_with_stride_from_def getValue_Tensor_of) (simp add: getValue_def getIndex_def add.left_commute)

lemma getValue_copy_with_stride_into:
  assumes t: "getDim t = TensorDim4 B' 1 1 W" and fit: "off + K \<le> W" and b: "b < B" and j: "j < W"
  shows "getValue (copy_with_stride_into t (TensorDim4 B 1 1 K) off src) b 0 0 j =
           (if off \<le> j \<and> j < off + K then getValue src b 0 0 (j - off) else getValue t b 0 0 j)"
proof -
  let ?i = "b * W + j"
  have idx: "getIndex (getDim t) b 0 0 j = ?i"
    by (simp add: t getIndex_def)
  have fl: "getFeatureLen (getDim t) = W"
    by (simp add: t getFeatureLen_def)
  have data: "getData (copy_with_stride_into t (TensorDim4 B 1 1 K) off src) ?i =
      (if off \<le> ?i \<and> (?i - off) div W < B \<and> (?i - off) mod W < K
       then getValue src ((?i - off) div W) 0 0 ((?i - off) mod W) else getData t ?i)"
    by (simp add: copy_with_stride_into_def Let_def t getFeatureLen_def)
  show ?thesis
  proof (cases "off \<le> j")
    case True
    then have e: "?i - off = b * W + (j - off)" by simp
    have lt: "j - off < W" using j by simp
    have dv: "(?i - off) div W = b" and md: "(?i - off) mod W = j - off"
      using lt by (simp_all add: e)
    have "off \<le> ?i" using True by simp
    then show ?thesis
      using True b data by (auto simp add: getValue_def idx dv md)
  next
    case False
    then have jo: "j < off" by simp
    show ?thesis
    proof (cases "off \<le> ?i")
      case False
      then show ?thesis using jo data by (simp add: getValue_def idx)
    next
      case True
      then have bpos: "0 < b" using jo by (cases b) auto
      then obtain b' where b': "b = Suc b'" by (cases b) auto
      have e: "?i - off = b' * W + (W + j - off)"
        using fit by (simp add: b')
      have lt: "W + j - off < W" using jo fit by simp
      have md: "(?i - off) mod W = W + j - off"
        using lt by (simp add: e)
      have "\<not> (W + j - off < K)" using fit by simp
      then show ?thesis using jo data by (simp add: getValue_def idx md)
    qed
  qed
qed


lemma getValue_softmax_fn:
  "c < channel (getDim t) \<Longrightarrow> h < height (getDim t) \<Longrightarrow> w < width (getDim t) \<Longrightarrow>
   getValue (softmax_fn t) b c h w =
     exp (getValue t b c h w) / (\<Sum>j<width (getDim t). exp (getValue t b c h j))"
  by (simp add: softmax_fn_def getValue_Tensor_of)

lemma forwarding_mixture_frame:
  assumes "forwarding_mixture layer K rc = (kappa, beta, alpha, rc')"
  shows "inputs rc' = inputs rc" "weights rc' = weights rc" "outputs rc' = outputs rc"
    "weight_grads rc' = weight_grads rc" "incoming_derivatives rc' = incoming_derivatives rc"
    "outgoing_derivatives rc' = outgoing_derivatives rc"
  using assms by (auto simp add: forwarding_mixture_def Let_def ctx_simps)

lemma forwarding_mixture_params:
  assumes ok: "layer_ok K layer"
    and q: "batch (getDim (inputs rc 0)) = B"
    and run: "forwarding_mixture layer K rc = (kappa, beta, alpha, rc')"
  shows "getDim kappa = TensorDim4 B 1 1 K" "getDim beta = TensorDim4 B 1 1 K"
    "getDim alpha = TensorDim4 B 1 1 K"
    "k < K \<Longrightarrow> getValue kappa b 0 0 k = exp (getValue (tensors rc 1) b 0 0 k)"
    "k < K \<Longrightarrow> getValue beta b 0 0 k = exp (getValue (tensors rc 1) b 0 0 (K + k))"
    "k < K \<Longrightarrow> getValue alpha b 0 0 k =
        exp (getValue (tensors rc 1) b 0 0 (2 * K + k)) /
        (\<Sum>j<K. exp (getValue (tensors rc 1) b 0 0 (2 * K + j)))"
proof -
  have k: "kappa = apply_t exp (copy_with_stride_from (tensors rc 1) (TensorDim4 B 1 1 K) 0)"
    and be: "beta = apply_t exp (copy_with_stride_from (tensors rc 1) (TensorDim4 B 1 1 K) K)"
    and al: "alpha = softmax_fn (copy_with_stride_from (tensors rc 1) (TensorDim4 B 1 1 K) (K * 2))"
    using ok q run by (auto simp add: forwarding_mixture_def Let_def ctx_simps layer_ok_def)
  show "getDim kappa = TensorDim4 B 1 1 K" "getDim beta = TensorDim4 B 1 1 K"
    "getDim alpha = TensorDim4 B 1 1 K"
    by (simp_all add: k be al)
  show "k < K \<Longrightarrow> getValue kappa b 0 0 k = exp (getValue (tensors rc 1) b 0 0 k)"
    by (simp add: k getValue_copy_with_stride_from)
  show "k < K \<Longrightarrow> getValue beta b 0 0 k = exp (getValue (tensors rc 1) b 0 0 (K + k))"
    by (simp add: be getValue_copy_with_stride_from)
  show "k < K \<Longrightarrow> getValue alpha b 0 0 k =
        exp (getValue (tensors rc 1) b 0 0 (2 * K + k)) /
        (\<Sum>j<K. exp (getValue (tensors rc 1) b 0 0 (2 * K + j)))"
    by (simp add: al getValue_softmax_fn getValue_copy_with_stride_from mult.commute)
qed

lemma forwarding_mixture_buffer:
  assumes ok: "layer_ok K layer"
    and q: "batch (getDim (inputs rc 0)) = B"
    and buf: "getDim (tensors rc 1) = TensorDim4 B 1 1 (3 * K)"
    and run: "forwarding_mixture layer K rc = (kappa, beta, alpha, rc')"
  shows "getDim (tensors rc' 1) = TensorDim4 B 1 1 (3 * K)"
    and "i \<noteq> 1 \<Longrightarrow> tensors rc' i = tensors rc i"
    and "b < B \<Longrightarrow> j < 3 * K \<Longrightarrow> getValue (tensors rc' 1) b 0 0 j =
          (if j < K then getValue kappa b 0 0 j
           else if j < 2 * K then getValue beta b 0 0 (j - K)
           else getValue alpha b 0 0 (j - 2 * K))"
proof -
  let ?seg = "TensorDim4 B 1 1 K"
  let ?b1 = "copy_with_stride_into (tensors rc 1) ?seg 0 kappa"
  let ?b2 = "copy_with_stride_into ?b1 ?seg K beta"
  let ?b3 = "copy_with_stride_into ?b2 ?seg (K * 2) alpha"
  have t: "tensors rc' = (tensors rc)(1 := ?b3)"
    using ok q run by (auto simp add: forwarding_mixture_def Let_def ctx_simps layer_ok_def)
  show "getDim (tensors rc' 1) = TensorDim4 B 1 1 (3 * K)"
    using buf by (simp add: t)
  show "i \<noteq> 1 \<Longrightarrow> tensors rc' i = tensors rc i"
    by (simp add: t)
  assume b: "b < B" and j: "j < 3 * K"
  have d1: "getDim ?b1 = TensorDim4 B 1 1 (3 * K)" and d2: "getDim ?b2 = TensorDim4 B 1 1 (3 * K)"
    using buf by simp_all
  have v3: "getValue ?b3 b 0 0 j =
      (if K * 2 \<le> j \<and> j < K * 2 + K then getValue alpha b 0 0 (j - K * 2) else getValue ?b2 b 0 0 j)"
    by (rule getValue_copy_with_stride_into [OF d2 _ b j]) simp
  have v2: "getValue ?b2 b 0 0 j =
      (if K \<le> j \<and> j < K + K then getValue beta b 0 0 (j - K) else getValue ?b1 b 0 0 j)"
    by (rule getValue_copy_with_stride_into [OF d1 _ b j]) simp
  have v1: "getValue ?b1 b 0 0 j =
      (if 0 \<le> j \<and> j < 0 + K then getValue kappa b 0 0 (j - 0) else getValue (tensors rc 1) b 0 0 j)"
    by (rule getValue_copy_with_stride_into [OF buf _ b j]) simp
  show "getValue (tensors rc' 1) b 0 0 j =
          (if j < K then getValue kappa b 0 0 j
           else if j < 2 * K then getValue beta b 0 0 (j - K)
           else getValue alpha b 0 0 (j - 2 * K))"
    using j v3 v2 v1 by (auto simp add: t mult.commute)
qed


lemma getValue_write_into_column:
  assumes "getDim out = TensorDim4 B 1 1 T" "getDim res = TensorDim4 B' 1 T 1"
  shows "getValue (write_into out res) b 0 0 h = getValue res b 0 h 0"
  using assms by (simp add: getValue_def write_into_def getIndex_def)

lemma getValue_sum_axis3:
  "c < channel (getDim t) \<Longrightarrow> h < height (getDim t) \<Longrightarrow>
   getValue (sum_axis 3 t) b c h 0 = (\<Sum>i<width (getDim t). getValue t b c h i)"
  by (simp add: sum_axis_def Let_def getValue_Tensor_of)

lemma getValue_sum_axis2:
  "c < channel (getDim t) \<Longrightarrow> w < width (getDim t) \<Longrightarrow>
   getValue (sum_axis 2 t) b c 0 w = (\<Sum>i<height (getDim t). getValue t b c i w)"
  by (simp add: sum_axis_def Let_def getValue_Tensor_of)

lemma forwarding_scores_frame:
  "inputs (forwarding_scores layer K kappa beta alpha rc) = inputs rc"
  "weights (forwarding_scores layer K kappa beta alpha rc) = weights rc"
  "outputs (forwarding_scores layer K kappa beta alpha rc) = outputs rc"
  "weight_grads (forwarding_scores layer K kappa beta alpha rc) = weight_grads rc"
  "incoming_derivatives (forwarding_scores layer K kappa beta alpha rc) = incoming_derivatives rc"
  "outgoing_derivatives (forwarding_scores layer K kappa beta alpha rc) = outgoing_derivatives rc"
  by (simp_all add: forwarding_scores_def Let_def ctx_simps)

lemma forwarding_scores_values:
  assumes ok: "layer_ok K layer"
    and io: "io_dims B qw T vw K U rc"
    and sc: "scratch_dims B T K U rc"
    and dk: "getDim kappa = TensorDim4 B 1 1 K"
    and db: "getDim beta = TensorDim4 B 1 1 K"
    and da: "getDim alpha = TensorDim4 B 1 1 K"
    and rc': "rc' = forwarding_scores layer K kappa beta alpha rc"
  shows "scratch_dims B T K U rc'"
    and "tensors rc' 1 = tensors rc 1"
    and "b < B \<Longrightarrow> h < T \<Longrightarrow> k < K \<Longrightarrow> getValue (tensors rc' 7) b 0 h k =
          (real (h + 1) + 1 / 2 - (getValue (inputs rc 2) b 0 0 k + getValue kappa b 0 0 k)) /
          (getValue beta b 0 0 k + 1 / 10 ^ 8)"
    and "b < B \<Longrightarrow> h < T \<Longrightarrow> k < K \<Longrightarrow> getValue (tensors rc' 6) b 0 h k =
          (real (h + 1) - 1 / 2 - (getValue (inputs rc 2) b 0 0 k + getValue kappa b 0 0 k)) /
          (getValue beta b 0 0 k + 1 / 10 ^ 8)"
    and "getValue (tensors rc' 4) b 0 h k = sigmoid (getValue (tensors rc' 7) b 0 h k)"
    and "getValue (tensors rc' 5) b 0 h k = sigmoid (getValue (tensors rc' 6) b 0 h k)"
    and "b < B \<Longrightarrow> h < T \<Longrightarrow> k < K \<Longrightarrow> getValue (tensors rc' 3) b 0 h k =
          getValue (tensors rc' 4) b 0 h k - getValue (tensors rc' 5) b 0 h k"
    and "b < B \<Longrightarrow> h < T \<Longrightarrow> getValue (tensors rc' 2) b 0 0 h =
          (\<Sum>k<K. getValue (tensors rc' 3) b 0 h k * getValue alpha b 0 0 k)"
proof -
  define m where "m = add (inputs rc 2) kappa"
  define u_base where "u_base = fill_u_base B (Tensor_alloc (TensorDim4 B 1 T K))"
  define beta_eps where "beta_eps = add_scalar beta (1 / 10 ^ 8)"
  define Tup where "Tup = write_into (tensors rc 7) (divide_t (subtract (add_scalar u_base (1 / 2)) m) beta_eps)"
  define Tpl where "Tpl = write_into (tensors rc 4) (apply_t sigmoid Tup)"
  define Tun where "Tun = write_into (tensors rc 6) (divide_t (subtract (add_scalar u_base (- (1 / 2))) m) beta_eps)"
  define Tpr where "Tpr = write_into (tensors rc 5) (apply_t sigmoid Tun)"
  define Tp where "Tp = write_into (tensors rc 3) (subtract Tpl Tpr)"
  define Ts where "Ts = write_into (tensors rc 2) (sum_axis 3 (multiply Tp alpha))"
  have din: "getDim (inputs rc 0) = TensorDim4 B 1 1 qw" "getDim (inputs rc 1) = TensorDim4 B 1 T vw"
    "getDim (inputs rc 2) = TensorDim4 B 1 1 K"
    using io by (simp_all add: io_dims_def)
  have dsc: "getDim (tensors rc 2) = TensorDim4 B 1 1 T" "getDim (tensors rc 3) = TensorDim4 B 1 T K"
    "getDim (tensors rc 4) = TensorDim4 B 1 T K" "getDim (tensors rc 5) = TensorDim4 B 1 T K"
    "getDim (tensors rc 6) = TensorDim4 B 1 T K" "getDim (tensors rc 7) = TensorDim4 B 1 T K"
    "getDim (tensors rc 0) = TensorDim4 B 1 1 U"
    using sc by (simp_all add: scratch_dims_def)
  have t: "tensors rc' = (tensors rc)(7 := Tup, 4 := Tpl, 6 := Tun, 5 := Tpr, 3 := Tp, 2 := Ts)"
    using ok din
    by (simp add: rc' forwarding_scores_def Let_def ctx_simps layer_ok_def m_def u_base_def
        beta_eps_def Tup_def Tpl_def Tun_def Tpr_def Tp_def Ts_def)
  have dims: "getDim Tup = TensorDim4 B 1 T K" "getDim Tpl = TensorDim4 B 1 T K"
    "getDim Tun = TensorDim4 B 1 T K" "getDim Tpr = TensorDim4 B 1 T K"
    "getDim Tp = TensorDim4 B 1 T K" "getDim Ts = TensorDim4 B 1 1 T"
    "getDim u_base = TensorDim4 B 1 T K" "getDim m = TensorDim4 B 1 1 K"
    "getDim beta_eps = TensorDim4 B 1 1 K"
    by (simp_all add: Tup_def Tpl_def Tun_def Tpr_def Tp_def Ts_def dsc u_base_def m_def din beta_eps_def db)
  show "scratch_dims B T K U rc'"
    using dsc dims by (simp add: scratch_dims_def t)
  show "tensors rc' 1 = tensors rc 1"
    by (simp add: t)
  have ub: "getValue u_base b 0 h k = real (h + 1)" if "b < B" "h < T" "k < K" for b h k
    unfolding u_base_def using that by (intro getValue_fill_u_base) simp_all
  have mv: "getValue m b 0 0 k = getValue (inputs rc 2) b 0 0 k + getValue kappa b 0 0 k"
    if "b < B" "k < K" for b k
    using that by (simp add: m_def getValue_add din dk broadcast_value_batch_row)
  have arg: "getValue (divide_t (subtract (add_scalar u_base x) m) beta_eps) b 0 h k =
      (real (h + 1) + x - (getValue (inputs rc 2) b 0 0 k + getValue kappa b 0 0 k)) /
      (getValue beta b 0 0 k + 1 / 10 ^ 8)"
    if "b < B" "h < T" "k < K" for b h k x
    using that
    by (simp add: getValue_ops dims broadcast_value_batch_row ub mv) (simp add: beta_eps_def)
  show "b < B \<Longrightarrow> h < T \<Longrightarrow> k < K \<Longrightarrow> getValue (tensors rc' 7) b 0 h k =
          (real (h + 1) + 1 / 2 - (getValue (inputs rc 2) b 0 0 k + getValue kappa b 0 0 k)) /
          (getValue beta b 0 0 k + 1 / 10 ^ 8)"
    using arg [of b h k "1 / 2"] by (simp add: t Tup_def getValue_write_into dsc dims)
  show "b < B \<Longrightarrow> h < T \<Longrightarrow> k < K \<Longrightarrow> getValue (tensors rc' 6) b 0 h k =
          (real (h + 1) - 1 / 2 - (getValue (inputs rc 2) b 0 0 k + getValue kappa b 0 0 k)) /
          (getValue beta b 0 0 k + 1 / 10 ^ 8)"
    using arg [of b h k "- (1 / 2)"] by (simp add: t Tun_def getValue_write_into dsc dims)
  show "getValue (tensors rc' 4) b 0 h k = sigmoid (getValue (tensors rc' 7) b 0 h k)"
    by (simp add: t Tpl_def getValue_write_into dsc dims)
  show "getValue (tensors rc' 5) b 0 h k = sigmoid (getValue (tensors rc' 6) b 0 h k)"
    by (simp add: t Tpr_def getValue_write_into dsc dims)
  have pv: "getValue Tp b 0 h k = getValue Tpl b 0 h k - getValue Tpr b 0 h k"
    if "b < B" "h < T" "k < K" for b h k
    using that
    by (simp add: Tp_def getValue_write_into dsc dims getValue_subtract broadcast_value_same)
  show "b < B \<Longrightarrow> h < T \<Longrightarrow> k < K \<Longrightarrow> getValue (tensors rc' 3) b 0 h k =
          getValue (tensors rc' 4) b 0 h k - getValue (tensors rc' 5) b 0 h k"
    using pv [of b h k] by (simp add: t)
  show "b < B \<Longrightarrow> h < T \<Longrightarrow> getValue (tensors rc' 2) b 0 0 h =
          (\<Sum>k<K. getValue (tensors rc' 3) b 0 h k * getValue alpha b 0 0 k)"
  proof -
    assume b: "b < B" and h: "h < T"
    have "getValue Ts b 0 0 h = getValue (sum_axis 3 (multiply Tp alpha)) b 0 h 0"
      unfolding Ts_def by (rule getValue_write_into_column [where B' = B]) (simp_all add: dsc dims)
    also have "\<dots> = (\<Sum>k<K. getValue (multiply Tp alpha) b 0 h k)"
      using h by (simp add: getValue_sum_axis3 dims)
    also have "\<dots> = (\<Sum>k<K. getValue Tp b 0 h k * getValue alpha b 0 0 k)"
      using b h by (intro sum.cong) (simp_all add: getValue_multiply dims da broadcast_value_batch_row)
    finally show ?thesis by (simp add: t)
  qed
qed


lemma dims_agreeD: "dims_agree ds store \<Longrightarrow> i < length ds \<Longrightarrow> getDim (store i) = ds ! i"
  by (simp add: dims_agree_def list_all_iff)

lemma setup_ready:
  assumes fin: "finalize layer0 ic = Inr (layer, ic')"
    and tanh0: "wt_idx layer0 Fc_tanh = 0"
    and fresh: "weights_spec ic = []" "tensors_spec ic = []"
    and ins: "input_dim ic = [TensorDim4 B 1 1 qw, TensorDim4 B 1 T vw, TensorDim4 B 1 1 K]"
    and pk: "props_MoL_K layer0 = Some K"
    and pu: "props_Unit layer0 = Some U"
    and conf: "conforms ic' rc"
  shows "layer_ok K layer" "io_dims B qw T vw K U rc" "scratch_dims B T K U rc"
    "getDim (tensors rc 1) = TensorDim4 B 1 1 U"
    "helper_exec layer = helper_exec layer0" "helper_runs layer = helper_runs layer0"
proof -
  have ii: "input_dim ic' = [TensorDim4 B 1 1 qw, TensorDim4 B 1 T vw, TensorDim4 B 1 1 K]"
    and ww: "map fst (weights_spec ic') = [TensorDim4 1 1 qw U, TensorDim4 1 1 1 U, TensorDim4 1 1 U (3 * K)]"
    and tt: "map fst (tensors_spec ic') = [TensorDim4 B 1 1 U, TensorDim4 B 1 1 U, TensorDim4 B 1 1 T,
            TensorDim4 B 1 T K, TensorDim4 B 1 T K, TensorDim4 B 1 T K, TensorDim4 B 1 T K, TensorDim4 B 1 T K]"
    using fin fresh ins pk pu
    by (auto simp add: finalize_defs TensorDim2_def TensorDim1_def split: if_splits)
  show "layer_ok K layer"
    using fin fresh ins pk pu tanh0
    by (auto simp add: finalize_defs layer_ok_def eval_nat_numeral split: if_splits)
  show "helper_exec layer = helper_exec layer0" "helper_runs layer = helper_runs layer0"
    using fin by (auto simp add: finalize_defs split: if_splits option.splits)
  have a: "dims_agree [TensorDim4 B 1 1 qw, TensorDim4 B 1 T vw, TensorDim4 B 1 1 K] (inputs rc)"
    and b: "dims_agree [TensorDim4 1 1 qw U, TensorDim4 1 1 1 U, TensorDim4 1 1 U (3 * K)] (weights rc)"
    and c: "dims_agree [TensorDim4 B 1 1 U, TensorDim4 B 1 1 U, TensorDim4 B 1 1 T,
            TensorDim4 B 1 T K, TensorDim4 B 1 T K, TensorDim4 B 1 T K, TensorDim4 B 1 T K, TensorDim4 B 1 T K]
           (tensors rc)"
    using conf by (simp_all add: conforms_def ii ww tt)
  show "io_dims B qw T vw K U rc"
    using dims_agreeD [OF a, of 0] dims_agreeD [OF a, of 1] dims_agreeD [OF a, of 2]
      dims_agreeD [OF b, of 0] dims_agreeD [OF b, of 1] dims_agreeD [OF b, of 2]
    by (simp add: io_dims_def)
  show "scratch_dims B T K U rc"
    using dims_agreeD [OF c, of 0] dims_agreeD [OF c, of 2] dims_agreeD [OF c, of 3]
      dims_agreeD [OF c, of 4] dims_agreeD [OF c, of 5] dims_agreeD [OF c, of 6] dims_agreeD [OF c, of 7]
    by (simp add: scratch_dims_def)
  show "getDim (tensors rc 1) = TensorDim4 B 1 1 U"
    using dims_agreeD [OF c, of 1] by simp
qed

lemma forwarding_result:
  assumes ok: "layer_ok K layer"
    and io: "io_dims B qw T vw K U rc"
    and sc: "scratch_dims B T K U rc"
  shows "\<exists>rc'. forwarding layer rc = Inr (layer\<lparr>helper_exec := False\<rparr>, rc') \<and>
     inputs rc' = inputs rc \<and> weights rc' = weights rc \<and>
     incoming_derivatives rc' = incoming_derivatives rc \<and>
     outgoing_derivatives rc' = outgoing_derivatives rc \<and>
     weight_grads rc' = weight_grads rc \<and>
     scratch_dims B T K U rc' \<and>
     getDim (tensors rc' 1) = TensorDim4 B 1 1 (3 * K) \<and>
     (\<forall>b k. b < B \<longrightarrow> k < K \<longrightarrow>
        getValue (tensors rc' 1) b 0 0 k = exp (packed_output rc b k) \<and>
        getValue (tensors rc' 1) b 0 0 (K + k) = mol_scale rc K b k \<and>
        getValue (tensors rc' 1) b 0 0 (2 * K + k) = mol_weight rc K b k) \<and>
     (\<forall>b h k. b < B \<longrightarrow> h < T \<longrightarrow> k < K \<longrightarrow>
        getValue (tensors rc' 7) b 0 h k = left_arg rc K b (h + 1) k \<and>
        getValue (tensors rc' 6) b 0 h k = right_arg rc K b (h + 1) k \<and>
        getValue (tensors rc' 4) b 0 h k = sigmoid (left_arg rc K b (h + 1) k) \<and>
        getValue (tensors rc' 5) b 0 h k = sigmoid (right_arg rc K b (h + 1) k) \<and>
        getValue (tensors rc' 3) b 0 h k =
          sigmoid (left_arg rc K b (h + 1) k) - sigmoid (right_arg rc K b (h + 1) k)) \<and>
     (\<forall>b h. b < B \<longrightarrow> h < T \<longrightarrow>
        getValue (tensors rc' 2) b 0 0 h =
          (\<Sum>k<K. (sigmoid (left_arg rc K b (h + 1) k) - sigmoid (right_arg rc K b (h + 1) k)) *
                   mol_weight rc K b k))"
proof -
  define rc1 where "rc1 = forwarding_projection (layer\<lparr>helper_exec := False\<rparr>) rc"
  obtain kappa beta alpha rc2 where
    mix: "forwarding_mixture (layer\<lparr>helper_exec := False\<rparr>) K rc1 = (kappa, beta, alpha, rc2)"
    by (cases "forwarding_mixture (layer\<lparr>helper_exec := False\<rparr>) K rc1") auto
  define rc3 where "rc3 = forwarding_scores (layer\<lparr>helper_exec := False\<rparr>) K kappa beta alpha rc2"
  define rc4 where "rc4 = setOutput rc3 SINGLE_INOUT_IDX
      (write_into (getOutput rc3 SINGLE_INOUT_IDX)
         (dotBatched (getTensor rc3 (wt_idx layer Scores)) (getInput rc3 (wt_idx layer Value))))"
  have ok': "layer_ok K (layer\<lparr>helper_exec := False\<rparr>)"
    using ok by (simp add: layer_ok_def)
  have run: "forwarding layer rc = Inr (layer\<lparr>helper_exec := False\<rparr>, rc4)"
    using ok mix
    by (simp add: forwarding_def get_MoL_K_def layer_ok_def Let_def rc1_def [symmetric]
        rc3_def [symmetric] rc4_def)
  have f1: "inputs rc1 = inputs rc" "weights rc1 = weights rc"
    "incoming_derivatives rc1 = incoming_derivatives rc" "outgoing_derivatives rc1 = outgoing_derivatives rc"
    "weight_grads rc1 = weight_grads rc"
    by (simp_all add: rc1_def forwarding_projection_frame)
  have f2: "inputs rc2 = inputs rc" "weights rc2 = weights rc"
    "incoming_derivatives rc2 = incoming_derivatives rc" "outgoing_derivatives rc2 = outgoing_derivatives rc"
    "weight_grads rc2 = weight_grads rc"
    using forwarding_mixture_frame [OF mix] f1 by simp_all
  have f3: "inputs rc3 = inputs rc" "weights rc3 = weights rc"
    "incoming_derivatives rc3 = incoming_derivatives rc" "outgoing_derivatives rc3 = outgoing_derivatives rc"
    "weight_grads rc3 = weight_grads rc"
    using f2 by (simp_all add: rc3_def forwarding_scores_frame)
  have f4: "inputs rc4 = inputs rc" "weights rc4 = weights rc"
    "incoming_derivatives rc4 = incoming_derivatives rc" "outgoing_derivatives rc4 = outgoing_derivatives rc"
    "weight_grads rc4 = weight_grads rc" "tensors rc4 = tensors rc3"
    using f3 by (simp_all add: rc4_def ctx_simps)
  have io1: "io_dims B qw T vw K U rc1" and io2: "io_dims B qw T vw K U rc2"
    using io f1 f2 by (simp_all add: io_dims_def)
  have qb: "batch (getDim (inputs rc1 0)) = B"
    using io1 by (simp add: io_dims_def)
  have p1: "getDim (tensors rc1 1) = TensorDim4 B 1 1 (3 * K)"
    and p0: "getDim (tensors rc1 0) = TensorDim4 B 1 1 U"
    and pv: "\<And>b j. j < 3 * K \<Longrightarrow> getValue (tensors rc1 1) b 0 0 j = packed_output rc b j"
    and pf: "\<And>i. 1 < i \<Longrightarrow> tensors rc1 i = tensors rc i"
    unfolding rc1_def using forwarding_projection_packed [OF ok' io] by simp_all
  have sc1: "scratch_dims B T K U rc1"
    using sc p0 by (simp add: scratch_dims_def pf)
  note mb = forwarding_mixture_buffer [OF ok' qb p1 mix]
  note mp = forwarding_mixture_params [OF ok' qb mix]
  have sc2: "scratch_dims B T K U rc2"
    using sc1 by (simp add: scratch_dims_def mb(2))
  note sv = forwarding_scores_values [OF ok' io2 sc2 mp(1) mp(2) mp(3) rc3_def]
  have kap: "getValue kappa b 0 0 k = exp (packed_output rc b k)"
    and bet: "getValue beta b 0 0 k = mol_scale rc K b k" if "k < K" for b k
    using that pv by (simp_all add: mp mol_scale_def)
  have alp: "getValue alpha b 0 0 k = mol_weight rc K b k" if "k < K" for b k
  proof -
    have "(\<Sum>j<K. exp (getValue (tensors rc1 1) b 0 0 (2 * K + j))) =
          (\<Sum>j<K. exp (packed_output rc b (2 * K + j)))"
      by (intro sum.cong refl arg_cong [where f = exp] pv) simp
    then show ?thesis
      using that pv [of "2 * K + k" b] by (simp add: mp mol_weight_def)
  qed
  have buf: "getValue (tensors rc4 1) b 0 0 k = exp (packed_output rc b k) \<and>
        getValue (tensors rc4 1) b 0 0 (K + k) = mol_scale rc K b k \<and>
        getValue (tensors rc4 1) b 0 0 (2 * K + k) = mol_weight rc K b k"
    if "b < B" "k < K" for b k
    using that sv(2) mb(3) [of b k] mb(3) [of b "K + k"] mb(3) [of b "2 * K + k"]
    by (simp add: f4 kap bet alp)
  have la: "getValue (tensors rc4 7) b 0 h k = left_arg rc K b (h + 1) k"
    and ra: "getValue (tensors rc4 6) b 0 h k = right_arg rc K b (h + 1) k"
    if "b < B" "h < T" "k < K" for b h k
    using that by (simp_all add: f4 sv(3,4) f2 kap bet left_arg_def right_arg_def mol_center_def)
  have pl: "getValue (tensors rc4 4) b 0 h k = sigmoid (left_arg rc K b (h + 1) k)"
    and pr: "getValue (tensors rc4 5) b 0 h k = sigmoid (right_arg rc K b (h + 1) k)"
    if "b < B" "h < T" "k < K" for b h k
    using that la [of b h k] ra [of b h k] by (simp_all add: f4 sv(5,6))
  have pp: "getValue (tensors rc4 3) b 0 h k =
      sigmoid (left_arg rc K b (h + 1) k) - sigmoid (right_arg rc K b (h + 1) k)"
    if "b < B" "h < T" "k < K" for b h k
    using that pl [of b h k] pr [of b h k] sv(7) [of b h k] by (simp add: f4)
  have ss: "getValue (tensors rc4 2) b 0 0 h =
      (\<Sum>k<K. (sigmoid (left_arg rc K b (h + 1) k) - sigmoid (right_arg rc K b (h + 1) k)) *
               mol_weight rc K b k)"
    if "b < B" "h < T" for b h
  proof -
    have "getValue (tensors rc4 2) b 0 0 h =
        (\<Sum>k<K. getValue (tensors rc3 3) b 0 h k * getValue alpha b 0 0 k)"
      using that sv(8) [of b h] by (simp add: f4)
    also have "\<dots> = (\<Sum>k<K. (sigmoid (left_arg rc K b (h + 1) k) - sigmoid (right_arg rc K b (h + 1) k)) *
               mol_weight rc K b k)"
      using that pp [of b h] by (intro sum.cong) (simp_all add: f4 alp)
    finally show ?thesis .
  qed
  have d1: "getDim (tensors rc4 1) = TensorDim4 B 1 1 (3 * K)"
    using sv(2) mb(1) by (simp add: f4)
  have sc4: "scratch_dims B T K U rc4"
    using sv(1) by (simp add: scratch_dims_def f4)
  show ?thesis
  proof (intro exI [of _ rc4] conjI allI impI)
    show "forwarding layer rc = Inr (layer\<lparr>helper_exec := False\<rparr>, rc4)" by (rule run)
  qed (simp_all only: f4(1-5) sc4 d1 buf la ra pl pr pp ss)
qed


lemma sigmoid_pos: "0 < sigmoid x"
  by (simp add: sigmoid_def add_pos_pos)

lemma sigmoid_less_one: "sigmoid x < 1"
  by (simp add: sigmoid_def add_pos_pos)

lemma sigmoid_mono: "x \<le> y \<Longrightarrow> sigmoid x \<le> sigmoid y"
  by (simp add: sigmoid_def frac_le add_pos_pos)

lemma mol_scale_pos: "0 < mol_scale rc K b k"
  by (simp add: mol_scale_def)

lemma right_arg_le_left_arg: "right_arg rc K b t k \<le> left_arg rc K b t k"
proof -
  have "0 < mol_scale rc K b k + 1 / 10 ^ 8"
    using mol_scale_pos [of rc K b k] by simp
  then show ?thesis
    by (simp add: right_arg_def left_arg_def divide_right_mono)
qed

lemma prob_bounds:
  "0 \<le> sigmoid (left_arg rc K b t k) - sigmoid (right_arg rc K b t k)"
  "sigmoid (left_arg rc K b t k) - sigmoid (right_arg rc K b t k) \<le> 1"
  using sigmoid_mono [OF right_arg_le_left_arg [of rc K b t k]]
    sigmoid_less_one [of "left_arg rc K b t k"] sigmoid_pos [of "right_arg rc K b t k"]
  by simp_all

text \<open>
  C1. After a setup on a fresh context with inputs of the shapes of the spec, the
  forward pass returns, and for each batch row \<open>b\<close> and each timestep
  \<open>t = h + 1\<close> in \<open>1..T\<close> the score it stores is the sum over the mixture
  components of weight times the difference of the sigmoids at
  \<open>(t + 0.5 - center) / (scale + 1e-8)\<close> and \<open>(t - 0.5 - center) / (scale + 1e-8)\<close>,
  with \<open>center = location_state + exp shift_logits\<close>, \<open>scale = exp scale_logits\<close>
  and \<open>weight = softmax weight_logits\<close>.
\<close>

theorem forwarding_scores_formula:
  assumes "finalize layer0 ic = Inr (layer, ic')"
    and "wt_idx layer0 Fc_tanh = 0"
    and "weights_spec ic = []" and "tensors_spec ic = []"
    and "input_dim ic = [TensorDim4 B 1 1 qw, TensorDim4 B 1 T vw, TensorDim4 B 1 1 K]"
    and "props_MoL_K layer0 = Some K"
    and "conforms ic' rc"
    and "b < B" and "h < T"
  shows "\<exists>layer' rc'. forwarding layer rc = Inr (layer', rc') \<and>
     getValue (getTensor rc' (wt_idx layer' Scores)) b 0 0 h =
       (\<Sum>k<K. mol_weight rc K b k *
          (sigmoid ((real (h + 1) + 1 / 2 - mol_center rc K b k) / (mol_scale rc K b k + 1 / 10 ^ 8)) -
           sigmoid ((real (h + 1) - 1 / 2 - mol_center rc K b k) / (mol_scale rc K b k + 1 / 10 ^ 8))))"
proof -
  obtain U where pu: "props_Unit layer0 = Some U"
    using assms(1) by (auto simp add: finalize_defs split: if_splits option.splits)
  note rdy = setup_ready [OF assms(1-6) pu assms(7)]
  obtain rc' where run: "forwarding layer rc = Inr (layer\<lparr>helper_exec := False\<rparr>, rc')"
    and sc: "\<forall>b h. b < B \<longrightarrow> h < T \<longrightarrow>
        getValue (tensors rc' 2) b 0 0 h =
          (\<Sum>k<K. (sigmoid (left_arg rc K b (h + 1) k) - sigmoid (right_arg rc K b (h + 1) k)) *
                   mol_weight rc K b k)"
    using forwarding_result [OF rdy(1-3)] by blast
  have idx: "wt_idx layer Scores = 2"
    using rdy(1) by (simp add: layer_ok_def)
  have "getValue (getTensor rc' (wt_idx (layer\<lparr>helper_exec := False\<rparr>) Scores)) b 0 0 h =
       (\<Sum>k<K. (sigmoid (left_arg rc K b (h + 1) k) - sigmoid (right_arg rc K b (h + 1) k)) *
                   mol_weight rc K b k)"
    using sc assms(8,9) by (simp add: getTensor_def idx)
  also have "\<dots> = (\<Sum>k<K. mol_weight rc K b k *
          (sigmoid ((real (h + 1) + 1 / 2 - mol_center rc K b k) / (mol_scale rc K b k + 1 / 10 ^ 8)) -
           sigmoid ((real (h + 1) - 1 / 2 - mol_center rc K b k) / (mol_scale rc K b k + 1 / 10 ^ 8))))"
    by (simp add: left_arg_def right_arg_def mult.commute)
  finally show ?thesis using run by blast
qed

text \<open>
  In exact arithmetic the cached \<open>prob\<close> is the cached \<open>prob_left\<close> minus the cached
  \<open>prob_right\<close> and lies between 0 and 1. The elements of the tensors here are reals:
  the lemma does not speak of the single-precision \<open>exp\<close> of the source, which
  overflows for a logit above \<open>ln FLT_MAX\<close>, about 88.72.
\<close>

lemma forwarding_prob_exact_arithmetic:
  assumes "finalize layer0 ic = Inr (layer, ic')"
    and "wt_idx layer0 Fc_tanh = 0"
    and "weights_spec ic = []" and "tensors_spec ic = []"
    and "input_dim ic = [TensorDim4 B 1 1 qw, TensorDim4 B 1 T vw, TensorDim4 B 1 1 K]"
    and "props_MoL_K layer0 = Some K"
    and "conforms ic' rc"
    and "b < B" and "h < T" and "k < K"
  shows "\<exists>layer' rc'. forwarding layer rc = Inr (layer', rc') \<and>
     getValue (getTensor rc' (wt_idx layer' Prob)) b 0 h k =
       getValue (getTensor rc' (wt_idx layer' Prob_left)) b 0 h k -
       getValue (getTensor rc' (wt_idx layer' Prob_right)) b 0 h k \<and>
     0 \<le> getValue (getTensor rc' (wt_idx layer' Prob)) b 0 h k \<and>
     getValue (getTensor rc' (wt_idx layer' Prob)) b 0 h k \<le> 1"
proof -
  obtain U where pu: "props_Unit layer0 = Some U"
    using assms(1) by (auto simp add: finalize_defs split: if_splits option.splits)
  note rdy = setup_ready [OF assms(1-6) pu assms(7)]
  obtain rc' where run: "forwarding layer rc = Inr (layer\<lparr>helper_exec := False\<rparr>, rc')"
    and pr: "\<forall>b h k. b < B \<longrightarrow> h < T \<longrightarrow> k < K \<longrightarrow>
        getValue (tensors rc' 7) b 0 h k = left_arg rc K b (h + 1) k \<and>
        getValue (tensors rc' 6) b 0 h k = right_arg rc K b (h + 1) k \<and>
        getValue (tensors rc' 4) b 0 h k = sigmoid (left_arg rc K b (h + 1) k) \<and>
        getValue (tensors rc' 5) b 0 h k = sigmoid (right_arg rc K b (h + 1) k) \<and>
        getValue (tensors rc' 3) b 0 h k =
          sigmoid (left_arg rc K b (h + 1) k) - sigmoid (right_arg rc K b (h + 1) k)"
    using forwarding_result [OF rdy(1-3)] by blast
  have idx: "wt_idx layer Prob = 3" "wt_idx layer Prob_left = 4" "wt_idx layer Prob_right = 5"
    using rdy(1) by (simp_all add: layer_ok_def)
  have v: "getValue (tensors rc' 4) b 0 h k = sigmoid (left_arg rc K b (h + 1) k)"
     "getValue (tensors rc' 5) b 0 h k = sigmoid (right_arg rc K b (h + 1) k)"
     "getValue (tensors rc' 3) b 0 h k =
          sigmoid (left_arg rc K b (h + 1) k) - sigmoid (right_arg rc K b (h + 1) k)"
    using pr assms(8-10) by simp_all
  have "getValue (getTensor rc' (wt_idx (layer\<lparr>helper_exec := False\<rparr>) Prob)) b 0 h k =
       getValue (getTensor rc' (wt_idx (layer\<lparr>helper_exec := False\<rparr>) Prob_left)) b 0 h k -
       getValue (getTensor rc' (wt_idx (layer\<lparr>helper_exec := False\<rparr>) Prob_right)) b 0 h k \<and>
     0 \<le> getValue (getTensor rc' (wt_idx (layer\<lparr>helper_exec := False\<rparr>) Prob)) b 0 h k \<and>
     getValue (getTensor rc' (wt_idx (layer\<lparr>helper_exec := False\<rparr>) Prob)) b 0 h k \<le> 1"
    using prob_bounds [of rc K b "h + 1" k] by (simp add: getTensor_def idx v)
  then show ?thesis using run by blast
qed


lemma dims_agree_iff: "dims_agree ds store \<longleftrightarrow> (\<forall>i<length ds. getDim (store i) = ds ! i)"
  by (auto simp add: dims_agree_def list_all_iff)

lemma dims_agree_alloc_store: "dims_agree ds (alloc_store ds)"
  by (simp add: dims_agree_iff alloc_store_def)

lemma dims_agree_upd:
  "dims_agree ds store \<Longrightarrow> (i < length ds \<Longrightarrow> getDim t = ds ! i) \<Longrightarrow> dims_agree ds (store(i := t))"
  by (simp add: dims_agree_iff)

lemma conforms_allocate: "conforms c (allocate c)"
  by (simp add: conforms_def allocate_def dims_agree_alloc_store)

lemma finalize_declares:
  assumes "finalize layer0 ic = Inr (layer, ic')"
  shows "input_dim ic' = input_dim ic" "output_dim ic' = [input_dim ic ! 0]"
  using assms by (auto simp add: finalize_defs split: if_splits option.splits prod.splits)

lemmas example_defs = example_layer_def example_context_def MoLAttentionLayer_new_def

lemma example_finalize:
  "\<exists>layer ic'. finalize example_layer example_context = Inr (layer, ic')"
proof -
  have "\<not> isl (finalize example_layer example_context)"
    by (simp add: finalize_Inl_iff example_defs getNumInputs_def)
  then show ?thesis
    by (cases "finalize example_layer example_context") auto
qed

lemma example_hyps:
  "wt_idx example_layer Fc_tanh = 0" "weights_spec example_context = []"
  "tensors_spec example_context = []"
  "input_dim example_context = [TensorDim4 1 1 1 1, TensorDim4 1 1 2 1, TensorDim4 1 1 1 1]"
  "props_MoL_K example_layer = Some 1" "props_Unit example_layer = Some 3"
  by (simp_all add: example_defs)

lemma conforms_example_run:
  assumes "finalize example_layer example_context = Inr (layer, ic')"
  shows "conforms ic' (example_run ic')"
proof -
  have i: "input_dim ic' = [TensorDim4 1 1 1 1, TensorDim4 1 1 2 1, TensorDim4 1 1 1 1]"
    and o: "output_dim ic' = [TensorDim4 1 1 1 1]"
    using finalize_declares [OF assms] by (simp_all add: example_hyps)
  have c: "conforms ic' (allocate ic')" by (rule conforms_allocate)
  have "dims_agree (input_dim ic') (inputs (example_run ic'))"
    unfolding example_run_def using c
    by (auto simp add: conforms_def i intro!: dims_agree_upd)
  moreover have "dims_agree (output_dim ic') (incoming_derivatives (example_run ic'))"
    unfolding example_run_def using c
    by (auto simp add: conforms_def o intro!: dims_agree_upd)
  ultimately show ?thesis
    using c by (simp add: conforms_def example_run_def)
qed

theorem forwarding_scores_formula_witness:
  "\<exists>layer ic' layer' rc'.
     finalize example_layer example_context = Inr (layer, ic') \<and>
     forwarding layer (example_run ic') = Inr (layer', rc') \<and>
     getValue (getTensor rc' (wt_idx layer' Scores)) 0 0 0 1 =
       (\<Sum>k<1. mol_weight (example_run ic') 1 0 k *
          (sigmoid ((real (1 + 1) + 1 / 2 - mol_center (example_run ic') 1 0 k) /
                    (mol_scale (example_run ic') 1 0 k + 1 / 10 ^ 8)) -
           sigmoid ((real (1 + 1) - 1 / 2 - mol_center (example_run ic') 1 0 k) /
                    (mol_scale (example_run ic') 1 0 k + 1 / 10 ^ 8))))"
proof -
  obtain layer ic' where fin: "finalize example_layer example_context = Inr (layer, ic')"
    using example_finalize by blast
  have b: "(0::nat) < 1" and h: "(1::nat) < 2" by simp_all
  show ?thesis
    using forwarding_scores_formula [OF fin example_hyps(1-5) conforms_example_run [OF fin] b h] fin
    by blast
qed


section \<open>Properties of the backward pass\<close>

lemma helper_params_values:
  assumes ok: "layer_ok K layer"
    and q: "batch (getDim (inputs rc 0)) = B"
    and run: "helper_params layer K rc = (kappa, beta, alpha)"
  shows "getDim kappa = TensorDim4 B 1 1 K" "getDim beta = TensorDim4 B 1 1 K"
    "getDim alpha = TensorDim4 B 1 1 K"
    "k < K \<Longrightarrow> getValue kappa b 0 0 k = getValue (tensors rc 1) b 0 0 k"
    "k < K \<Longrightarrow> getValue beta b 0 0 k = getValue (tensors rc 1) b 0 0 (K + k)"
    "k < K \<Longrightarrow> getValue alpha b 0 0 k = getValue (tensors rc 1) b 0 0 (2 * K + k)"
proof -
  have k: "kappa = copy_with_stride_from (tensors rc 1) (TensorDim4 B 1 1 K) 0"
    and be: "beta = copy_with_stride_from (tensors rc 1) (TensorDim4 B 1 1 K) K"
    and al: "alpha = copy_with_stride_from (tensors rc 1) (TensorDim4 B 1 1 K) (K * 2)"
    using ok q run by (auto simp add: helper_params_def Let_def ctx_simps layer_ok_def)
  show "getDim kappa = TensorDim4 B 1 1 K" "getDim beta = TensorDim4 B 1 1 K"
    "getDim alpha = TensorDim4 B 1 1 K"
    by (simp_all add: k be al)
  show "k < K \<Longrightarrow> getValue kappa b 0 0 k = getValue (tensors rc 1) b 0 0 k"
    by (simp add: k getValue_copy_with_stride_from)
  show "k < K \<Longrightarrow> getValue beta b 0 0 k = getValue (tensors rc 1) b 0 0 (K + k)"
    by (simp add: be getValue_copy_with_stride_from)
  show "k < K \<Longrightarrow> getValue alpha b 0 0 k = getValue (tensors rc 1) b 0 0 (2 * K + k)"
    by (simp add: al getValue_copy_with_stride_from mult.commute)
qed

lemma getValue_reshape_column:
  assumes "getDim t = TensorDim4 B 1 1 T"
  shows "getValue (reshape t (TensorDim4 B' 1 T 1)) b 0 h 0 = getValue t b 0 0 h"
  using assms by (simp add: getValue_def reshape_def getIndex_def)

lemma getValue_sigmoid_prime_fn:
  "c < channel (getDim t) \<Longrightarrow> h < height (getDim t) \<Longrightarrow> w < width (getDim t) \<Longrightarrow>
   getValue (sigmoid_prime_fn t m) b c h w =
     getValue t b c h w * (1 - getValue t b c h w) * broadcast_value m b c h w"
  by (simp add: sigmoid_prime_fn_def getValue_multiply)

lemma helper_dprob_values:
  assumes ok: "layer_ok K layer"
    and io: "io_dims B qw T vw K U rc"
    and sc: "scratch_dims B T K U rc"
    and dd: "getDim (incoming_derivatives rc 0) = TensorDim4 B 1 1 Wd"
    and da: "getDim alpha = TensorDim4 B 1 1 K"
    and run: "helper_dprob layer K alpha rc = (dalpha, dprob)"
  shows "getDim dalpha = TensorDim4 B 1 1 K" "getDim dprob = TensorDim4 B 1 T K"
    "b < B \<Longrightarrow> h < T \<Longrightarrow> k < K \<Longrightarrow>
       getValue dprob b 0 h k = d_score rc b h * getValue alpha b 0 0 k"
    "b < B \<Longrightarrow> k < K \<Longrightarrow>
       getValue dalpha b 0 0 k = (\<Sum>h<T. d_score rc b h * getValue (tensors rc 3) b 0 h k)"
proof -
  define dscores0 where "dscores0 = dot_batched_deriv_wrt_1 (Tensor_alloc (TensorDim4 B 1 1 T))
     (inputs rc 1) (incoming_derivatives rc 0)"
  define dscores where "dscores = reshape dscores0 (TensorDim4 B 1 T 1)"
  define dps where "dps = add (setZero (Tensor_alloc (TensorDim4 B 1 T K))) dscores"
  have din: "getDim (inputs rc 0) = TensorDim4 B 1 1 qw" "getDim (inputs rc 1) = TensorDim4 B 1 T vw"
    using io by (simp_all add: io_dims_def)
  have dsc: "getDim (tensors rc 2) = TensorDim4 B 1 1 T" "getDim (tensors rc 3) = TensorDim4 B 1 T K"
    using sc by (simp_all add: scratch_dims_def)
  have r: "dalpha = sum_axis 2 (multiply dps (tensors rc 3))" "dprob = multiply dps alpha"
    using ok din dsc run
    by (auto simp add: helper_dprob_def Let_def ctx_simps layer_ok_def SINGLE_INOUT_IDX_def
        dscores0_def dscores_def dps_def)
  have d0: "getDim dscores0 = TensorDim4 B 1 1 T" "getDim dscores = TensorDim4 B 1 T 1"
    "getDim dps = TensorDim4 B 1 T K"
    by (simp_all add: dscores0_def dscores_def dps_def)
  show "getDim dalpha = TensorDim4 B 1 1 K" "getDim dprob = TensorDim4 B 1 T K"
    by (simp_all add: r d0)
  have v0: "getValue dscores0 b 0 0 h = d_score rc b h" if "h < T" for b h
    using that din dd
    by (simp add: dscores0_def dot_batched_deriv_wrt_1_def getValue_write_into getValue_Tensor_of
        d_score_def)
  have v1: "getValue dscores b 0 h 0 = d_score rc b h" if "h < T" for b h
    unfolding dscores_def by (simp only: getValue_reshape_column [OF d0(1)] v0 [OF that])
  have v2: "getValue dps b 0 h k = d_score rc b h" if "b < B" "h < T" "k < K" for b h k
    using that v1 [of h b]
    by (simp add: dps_def getValue_add broadcast_value_column d0)
      (simp add: getValue_def setZero_def Tensor_alloc_def)
  show "b < B \<Longrightarrow> h < T \<Longrightarrow> k < K \<Longrightarrow>
       getValue dprob b 0 h k = d_score rc b h * getValue alpha b 0 0 k"
    by (simp add: r getValue_multiply d0 v2 broadcast_value_batch_row da)
  show "getValue dalpha b 0 0 k = (\<Sum>h<T. d_score rc b h * getValue (tensors rc 3) b 0 h k)"
    if "b < B" "k < K"
  proof -
    have "getValue dalpha b 0 0 k = (\<Sum>h<T. getValue (multiply dps (tensors rc 3)) b 0 h k)"
      using that by (simp add: r getValue_sum_axis2 d0)
    also have "\<dots> = (\<Sum>h<T. d_score rc b h * getValue (tensors rc 3) b 0 h k)"
      using that by (intro sum.cong) (simp_all add: getValue_multiply d0 v2 broadcast_value_same dsc)
    finally show ?thesis .
  qed
qed


lemma helper_scorer_values:
  assumes ok: "layer_ok K layer"
    and sc: "scratch_dims B T K U rc"
    and db: "getDim beta = TensorDim4 B 1 1 K"
    and dp: "getDim dprob = TensorDim4 B 1 T K"
    and run: "helper_scorer layer beta dprob rc = (dm_neg, dm_pos, dbeta_eps)"
  shows "getDim dm_neg = TensorDim4 B 1 1 K" "getDim dm_pos = TensorDim4 B 1 1 K"
    "getDim dbeta_eps = TensorDim4 B 1 1 K"
    "b < B \<Longrightarrow> k < K \<Longrightarrow> getValue dm_neg b 0 0 k =
       - (\<Sum>h<T. getValue (tensors rc 5) b 0 h k * (1 - getValue (tensors rc 5) b 0 h k) *
                  (- getValue dprob b 0 h k) / (getValue beta b 0 0 k + 1 / 10 ^ 8))"
    "b < B \<Longrightarrow> k < K \<Longrightarrow> getValue dm_pos b 0 0 k =
       - (\<Sum>h<T. getValue (tensors rc 4) b 0 h k * (1 - getValue (tensors rc 4) b 0 h k) *
                  getValue dprob b 0 h k / (getValue beta b 0 0 k + 1 / 10 ^ 8))"
    "b < B \<Longrightarrow> k < K \<Longrightarrow> getValue dbeta_eps b 0 0 k =
       - (\<Sum>h<T. getValue (tensors rc 5) b 0 h k * (1 - getValue (tensors rc 5) b 0 h k) *
                  (- getValue dprob b 0 h k) / (getValue beta b 0 0 k + 1 / 10 ^ 8) *
                  getValue (tensors rc 6) b 0 h k)
       - (\<Sum>h<T. getValue (tensors rc 4) b 0 h k * (1 - getValue (tensors rc 4) b 0 h k) *
                  getValue dprob b 0 h k / (getValue beta b 0 0 k + 1 / 10 ^ 8) *
                  getValue (tensors rc 7) b 0 h k)"
proof -
  define beta_eps where "beta_eps = add_scalar beta (1 / 10 ^ 8)"
  define du_neg_m where "du_neg_m =
    divide_t (sigmoid_prime_fn (tensors rc 5) (multiply_scalar dprob (- 1))) beta_eps"
  define du_pos_m where "du_pos_m = divide_t (sigmoid_prime_fn (tensors rc 4) dprob) beta_eps"
  define dbn where "dbn = sum_axis 2 (multiply_scalar (multiply du_neg_m (tensors rc 6)) (- 1))"
  define dbp where "dbp = sum_axis 2 (multiply_scalar (multiply du_pos_m (tensors rc 7)) (- 1))"
  have dsc: "getDim (tensors rc 4) = TensorDim4 B 1 T K" "getDim (tensors rc 5) = TensorDim4 B 1 T K"
    "getDim (tensors rc 6) = TensorDim4 B 1 T K" "getDim (tensors rc 7) = TensorDim4 B 1 T K"
    using sc by (simp_all add: scratch_dims_def)
  have r: "dm_neg = sum_axis 2 (multiply_scalar du_neg_m (- 1))"
    "dm_pos = sum_axis 2 (multiply_scalar du_pos_m (- 1))"
    "dbeta_eps = add dbn dbp"
    using ok run
    by (auto simp add: helper_scorer_def Let_def ctx_simps layer_ok_def beta_eps_def du_neg_m_def
        du_pos_m_def dbn_def dbp_def)
  have d: "getDim beta_eps = TensorDim4 B 1 1 K" "getDim du_neg_m = TensorDim4 B 1 T K"
    "getDim du_pos_m = TensorDim4 B 1 T K" "getDim dbn = TensorDim4 B 1 1 K"
    "getDim dbp = TensorDim4 B 1 1 K"
    by (simp_all add: beta_eps_def du_neg_m_def du_pos_m_def dbn_def dbp_def db dsc)
  show "getDim dm_neg = TensorDim4 B 1 1 K" "getDim dm_pos = TensorDim4 B 1 1 K"
    "getDim dbeta_eps = TensorDim4 B 1 1 K"
    by (simp_all add: r d)
  have vn: "getValue du_neg_m b 0 h k =
      getValue (tensors rc 5) b 0 h k * (1 - getValue (tensors rc 5) b 0 h k) *
        (- getValue dprob b 0 h k) / (getValue beta b 0 0 k + 1 / 10 ^ 8)"
    and vp: "getValue du_pos_m b 0 h k =
      getValue (tensors rc 4) b 0 h k * (1 - getValue (tensors rc 4) b 0 h k) *
        getValue dprob b 0 h k / (getValue beta b 0 0 k + 1 / 10 ^ 8)"
    if "b < B" "h < T" "k < K" for b h k
  proof -
    have bv: "broadcast_value beta_eps b 0 h k = getValue beta b 0 0 k + 1 / 10 ^ 8"
      using that by (simp add: broadcast_value_batch_row d) (simp add: beta_eps_def)
    show "getValue du_neg_m b 0 h k =
      getValue (tensors rc 5) b 0 h k * (1 - getValue (tensors rc 5) b 0 h k) *
        (- getValue dprob b 0 h k) / (getValue beta b 0 0 k + 1 / 10 ^ 8)"
      using that
      by (simp add: du_neg_m_def getValue_divide_t getValue_sigmoid_prime_fn dsc dp
          broadcast_value_same bv)
    show "getValue du_pos_m b 0 h k =
      getValue (tensors rc 4) b 0 h k * (1 - getValue (tensors rc 4) b 0 h k) *
        getValue dprob b 0 h k / (getValue beta b 0 0 k + 1 / 10 ^ 8)"
      using that
      by (simp add: du_pos_m_def getValue_divide_t getValue_sigmoid_prime_fn dsc dp
          broadcast_value_same bv)
  qed
  show "getValue dm_neg b 0 0 k =
       - (\<Sum>h<T. getValue (tensors rc 5) b 0 h k * (1 - getValue (tensors rc 5) b 0 h k) *
                  (- getValue dprob b 0 h k) / (getValue beta b 0 0 k + 1 / 10 ^ 8))"
    if "b < B" "k < K"
  proof -
    have "getValue dm_neg b 0 0 k = (\<Sum>h<T. - getValue du_neg_m b 0 h k)"
      using that by (simp add: r getValue_sum_axis2 d)
    also have "\<dots> = - (\<Sum>h<T. getValue du_neg_m b 0 h k)"
      by (simp add: sum_negf)
    also have "(\<Sum>h<T. getValue du_neg_m b 0 h k) =
       (\<Sum>h<T. getValue (tensors rc 5) b 0 h k * (1 - getValue (tensors rc 5) b 0 h k) *
                  (- getValue dprob b 0 h k) / (getValue beta b 0 0 k + 1 / 10 ^ 8))"
      using that by (intro sum.cong refl vn) simp_all
    finally show ?thesis .
  qed
  show "getValue dm_pos b 0 0 k =
       - (\<Sum>h<T. getValue (tensors rc 4) b 0 h k * (1 - getValue (tensors rc 4) b 0 h k) *
                  getValue dprob b 0 h k / (getValue beta b 0 0 k + 1 / 10 ^ 8))"
    if "b < B" "k < K"
  proof -
    have "getValue dm_pos b 0 0 k = (\<Sum>h<T. - getValue du_pos_m b 0 h k)"
      using that by (simp add: r getValue_sum_axis2 d)
    also have "\<dots> = - (\<Sum>h<T. getValue du_pos_m b 0 h k)"
      by (simp add: sum_negf)
    also have "(\<Sum>h<T. getValue du_pos_m b 0 h k) =
       (\<Sum>h<T. getValue (tensors rc 4) b 0 h k * (1 - getValue (tensors rc 4) b 0 h k) *
                  getValue dprob b 0 h k / (getValue beta b 0 0 k + 1 / 10 ^ 8))"
      using that by (intro sum.cong refl vp) simp_all
    finally show ?thesis .
  qed
  show "getValue dbeta_eps b 0 0 k =
       - (\<Sum>h<T. getValue (tensors rc 5) b 0 h k * (1 - getValue (tensors rc 5) b 0 h k) *
                  (- getValue dprob b 0 h k) / (getValue beta b 0 0 k + 1 / 10 ^ 8) *
                  getValue (tensors rc 6) b 0 h k)
       - (\<Sum>h<T. getValue (tensors rc 4) b 0 h k * (1 - getValue (tensors rc 4) b 0 h k) *
                  getValue dprob b 0 h k / (getValue beta b 0 0 k + 1 / 10 ^ 8) *
                  getValue (tensors rc 7) b 0 h k)"
    if "b < B" "k < K"
  proof -
    have n: "getValue dbn b 0 0 k = - (\<Sum>h<T. getValue du_neg_m b 0 h k * getValue (tensors rc 6) b 0 h k)"
    proof -
      have "getValue dbn b 0 0 k = (\<Sum>h<T. - getValue (multiply du_neg_m (tensors rc 6)) b 0 h k)"
        using that by (simp add: dbn_def getValue_sum_axis2 d)
      also have "\<dots> = (\<Sum>h<T. - (getValue du_neg_m b 0 h k * getValue (tensors rc 6) b 0 h k))"
        using that by (intro sum.cong) (simp_all add: getValue_multiply d broadcast_value_same dsc)
      finally show ?thesis by (simp add: sum_negf)
    qed
    have p: "getValue dbp b 0 0 k = - (\<Sum>h<T. getValue du_pos_m b 0 h k * getValue (tensors rc 7) b 0 h k)"
    proof -
      have "getValue dbp b 0 0 k = (\<Sum>h<T. - getValue (multiply du_pos_m (tensors rc 7)) b 0 h k)"
        using that by (simp add: dbp_def getValue_sum_axis2 d)
      also have "\<dots> = (\<Sum>h<T. - (getValue du_pos_m b 0 h k * getValue (tensors rc 7) b 0 h k))"
        using that by (intro sum.cong) (simp_all add: getValue_multiply d broadcast_value_same dsc)
      finally show ?thesis by (simp add: sum_negf)
    qed
    have n': "(\<Sum>h<T. getValue du_neg_m b 0 h k * getValue (tensors rc 6) b 0 h k) =
        (\<Sum>h<T. getValue (tensors rc 5) b 0 h k * (1 - getValue (tensors rc 5) b 0 h k) *
                  (- getValue dprob b 0 h k) / (getValue beta b 0 0 k + 1 / 10 ^ 8) *
                  getValue (tensors rc 6) b 0 h k)"
      using that by (intro sum.cong refl arg_cong2 [where f = "(*)"] vn) simp_all
    have p': "(\<Sum>h<T. getValue du_pos_m b 0 h k * getValue (tensors rc 7) b 0 h k) =
        (\<Sum>h<T. getValue (tensors rc 4) b 0 h k * (1 - getValue (tensors rc 4) b 0 h k) *
                  getValue dprob b 0 h k / (getValue beta b 0 0 k + 1 / 10 ^ 8) *
                  getValue (tensors rc 7) b 0 h k)"
      using that by (intro sum.cong refl arg_cong2 [where f = "(*)"] vp) simp_all
    have "getValue dbeta_eps b 0 0 k = getValue dbn b 0 0 k + getValue dbp b 0 0 k"
      using that by (simp add: r getValue_add d broadcast_value_batch_row)
    then show ?thesis
      by (simp only: n p n' p')
  qed
qed


lemma getValue_softmax_prime_fn:
  "c < channel (getDim t) \<Longrightarrow> h < height (getDim t) \<Longrightarrow> w < width (getDim t) \<Longrightarrow>
   getValue (softmax_prime_fn t m) b c h w =
     getValue t b c h w *
       (getValue m b c h w - (\<Sum>j<width (getDim t). getValue m b c h j * getValue t b c h j))"
  by (simp add: softmax_prime_fn_def getValue_Tensor_of)

lemma scorer_sums:
  fixes s :: real
  shows "- (\<Sum>h<T. pr h * (1 - pr h) * (- dp h) / s) + - (\<Sum>h<T. pl h * (1 - pl h) * dp h / s) =
         - (\<Sum>h<T. (pl h * (1 - pl h) * dp h + pr h * (1 - pr h) * (- dp h)) / s)"
    and "- (\<Sum>h<T. pr h * (1 - pr h) * (- dp h) / s * un h) - (\<Sum>h<T. pl h * (1 - pl h) * dp h / s * up h) =
         - (\<Sum>h<T. (pl h * (1 - pl h) * dp h * up h + pr h * (1 - pr h) * (- dp h) * un h) / s)"
proof -
  have "(\<Sum>h<T. (pl h * (1 - pl h) * dp h + pr h * (1 - pr h) * (- dp h)) / s) =
        (\<Sum>h<T. pr h * (1 - pr h) * (- dp h) / s) + (\<Sum>h<T. pl h * (1 - pl h) * dp h / s)"
    by (simp add: diff_divide_distrib sum_subtractf sum_negf)
  then show "- (\<Sum>h<T. pr h * (1 - pr h) * (- dp h) / s) + - (\<Sum>h<T. pl h * (1 - pl h) * dp h / s) =
         - (\<Sum>h<T. (pl h * (1 - pl h) * dp h + pr h * (1 - pr h) * (- dp h)) / s)"
    by simp
  have "(\<Sum>h<T. (pl h * (1 - pl h) * dp h * up h + pr h * (1 - pr h) * (- dp h) * un h) / s) =
        (\<Sum>h<T. pr h * (1 - pr h) * (- dp h) / s * un h) + (\<Sum>h<T. pl h * (1 - pl h) * dp h / s * up h)"
    by (simp add: diff_divide_distrib sum_subtractf sum_negf)
  then show "- (\<Sum>h<T. pr h * (1 - pr h) * (- dp h) / s * un h) - (\<Sum>h<T. pl h * (1 - pl h) * dp h / s * up h) =
         - (\<Sum>h<T. (pl h * (1 - pl h) * dp h * up h + pr h * (1 - pr h) * (- dp h) * un h) / s)"
    by simp
qed

lemma calcDerivativeHelper_values:
  assumes ok: "layer_ok K layer"
    and io: "io_dims B qw T vw K U rc"
    and sc: "scratch_dims B T K U rc"
    and buf: "getDim (tensors rc 1) = TensorDim4 B 1 1 (3 * K)"
    and dd: "getDim (incoming_derivatives rc 0) = TensorDim4 B 1 1 Wd"
    and ds: "getDim (outgoing_derivatives rc 2) = TensorDim4 B 1 1 K"
    and run: "calcDerivativeHelper layer rc 2 = Inr (layer', rc')"
    and b: "b < B" and k: "k < K"
  shows "getValue (outgoing_derivatives rc' 2) b 0 0 k = d_center rc K T b k"
    and "getValue (tensors rc' 1) b 0 0 k = d_center rc K T b k * getValue (tensors rc 1) b 0 0 k"
    and "getValue (tensors rc' 1) b 0 0 (K + k) =
           d_safe_scale rc K T b k * getValue (tensors rc 1) b 0 0 (K + k)"
    and "getValue (tensors rc' 1) b 0 0 (2 * K + k) = d_weight_logits rc K T b k"
    and "getValue (snd (snd (scorer_gradients layer K rc))) b 0 0 k = d_safe_scale rc K T b k"
proof -
  obtain kappa beta alpha where hp: "helper_params layer K rc = (kappa, beta, alpha)"
    by (cases "helper_params layer K rc") auto
  obtain dalpha dprob where hd: "helper_dprob layer K alpha rc = (dalpha, dprob)"
    by (cases "helper_dprob layer K alpha rc") auto
  obtain dm_neg dm_pos dbeta_eps where hs: "helper_scorer layer beta dprob rc = (dm_neg, dm_pos, dbeta_eps)"
    by (cases "helper_scorer layer beta dprob rc") auto
  have qb: "batch (getDim (inputs rc 0)) = B"
    using io by (simp add: io_dims_def)
  note pv = helper_params_values [OF ok qb hp]
  note dv = helper_dprob_values [OF ok io sc dd pv(3) hd]
  note sv = helper_scorer_values [OF ok sc pv(2) dv(2) hs]
  define dstate where "dstate = write_into (outgoing_derivatives rc 2) (add dm_neg dm_pos)"
  define seg where "seg = TensorDim4 B 1 1 K"
  define b1 where "b1 = copy_with_stride_into (tensors rc 1) seg 0 (multiply dstate kappa)"
  define b2 where "b2 = copy_with_stride_into b1 seg K (multiply dbeta_eps beta)"
  define b3 where "b3 = copy_with_stride_into b2 seg (K * 2) (softmax_prime_fn alpha dalpha)"
  have res: "outgoing_derivatives rc' = (outgoing_derivatives rc)(2 := dstate)"
    "tensors rc' = (tensors rc)(1 := b3)"
    using ok qb run hp hd hs
    by (auto simp add: calcDerivativeHelper_def get_MoL_K_def Let_def ctx_simps layer_ok_def
        dstate_def seg_def b1_def b2_def b3_def)
  have dp: "getValue dprob b 0 h k = d_prob rc K b h k" if "h < T" for h
    using that b k by (simp add: dv(3) pv(6) d_prob_def)
  have dst: "getValue dstate b 0 0 k = getValue dm_neg b 0 0 k + getValue dm_pos b 0 0 k"
    using b k by (simp add: dstate_def getValue_write_into ds sv getValue_add broadcast_value_batch_row)
  have sums: "(\<Sum>h<T. f (getValue dprob b 0 h k) h) = (\<Sum>h<T. f (d_prob rc K b h k) h)" for f :: "real \<Rightarrow> nat \<Rightarrow> real"
    by (intro sum.cong refl) (simp add: dp)
  have c: "getValue dstate b 0 0 k = d_center rc K T b k"
    unfolding dst sv(4) [OF b k] sv(5) [OF b k] pv(5) [OF k] scorer_sums(1) d_center_def
      d_left_arg_def d_right_arg_def safe_scale_def
    by (intro arg_cong [where f = uminus] sum.cong refl) (simp add: dp)
  have sg: "scorer_gradients layer K rc = (dm_neg, dm_pos, dbeta_eps)"
    by (simp add: scorer_gradients_def hp hd hs)
  have e: "getValue dbeta_eps b 0 0 k = d_safe_scale rc K T b k"
    unfolding sv(6) [OF b k] pv(5) [OF k] scorer_sums(2) d_safe_scale_def
      d_left_arg_def d_right_arg_def safe_scale_def
    by (intro arg_cong [where f = uminus] sum.cong refl) (simp add: dp)
  show "getValue (snd (snd (scorer_gradients layer K rc))) b 0 0 k = d_safe_scale rc K T b k"
    by (simp add: sg e)
  show "getValue (outgoing_derivatives rc' 2) b 0 0 k = d_center rc K T b k"
    by (simp add: res c)
  have dims: "getDim dstate = TensorDim4 B 1 1 K" "getDim b1 = TensorDim4 B 1 1 (3 * K)"
    "getDim b2 = TensorDim4 B 1 1 (3 * K)"
    using buf by (simp_all add: dstate_def ds b1_def b2_def)
  have v3: "getValue b3 b 0 0 j =
      (if K * 2 \<le> j \<and> j < K * 2 + K then getValue (softmax_prime_fn alpha dalpha) b 0 0 (j - K * 2)
       else getValue b2 b 0 0 j)" if "j < 3 * K" for j
    unfolding b3_def seg_def by (rule getValue_copy_with_stride_into [OF dims(3) _ b that]) simp
  have v2: "getValue b2 b 0 0 j =
      (if K \<le> j \<and> j < K + K then getValue (multiply dbeta_eps beta) b 0 0 (j - K)
       else getValue b1 b 0 0 j)" if "j < 3 * K" for j
    unfolding b2_def seg_def by (rule getValue_copy_with_stride_into [OF dims(2) _ b that]) simp
  have v1: "getValue b1 b 0 0 j =
      (if 0 \<le> j \<and> j < 0 + K then getValue (multiply dstate kappa) b 0 0 (j - 0)
       else getValue (tensors rc 1) b 0 0 j)" if "j < 3 * K" for j
    unfolding b1_def seg_def by (rule getValue_copy_with_stride_into [OF buf _ b that]) simp
  have m1: "getValue (multiply dstate kappa) b 0 0 k = d_center rc K T b k * getValue (tensors rc 1) b 0 0 k"
    using b k by (simp add: getValue_multiply dims broadcast_value_batch_row pv c)
  have m2: "getValue (multiply dbeta_eps beta) b 0 0 k =
      d_safe_scale rc K T b k * getValue (tensors rc 1) b 0 0 (K + k)"
    using b k by (simp add: getValue_multiply sv broadcast_value_batch_row pv e)
  have da: "getValue dalpha b 0 0 j = d_weight rc T b j" if "j < K" for j
    using b that by (simp add: dv(4) d_weight_def)
  have m3: "getValue (softmax_prime_fn alpha dalpha) b 0 0 k = d_weight_logits rc K T b k"
  proof -
    have "(\<Sum>j<K. getValue dalpha b 0 0 j * getValue alpha b 0 0 j) =
          (\<Sum>j<K. d_weight rc T b j * getValue (tensors rc 1) b 0 0 (2 * K + j))"
      by (intro sum.cong refl) (simp add: da pv(6))
    then show ?thesis
      using k by (simp add: getValue_softmax_prime_fn pv da d_weight_logits_def)
  qed
  show "getValue (tensors rc' 1) b 0 0 k = d_center rc K T b k * getValue (tensors rc 1) b 0 0 k"
    using k v3 [of k] v2 [of k] v1 [of k] m1 by (simp add: res)
  show "getValue (tensors rc' 1) b 0 0 (K + k) =
           d_safe_scale rc K T b k * getValue (tensors rc 1) b 0 0 (K + k)"
    using k v3 [of "K + k"] v2 [of "K + k"] m2 by (simp add: res)
  show "getValue (tensors rc' 1) b 0 0 (2 * K + k) = d_weight_logits rc K T b k"
    using k v3 [of "2 * K + k"] m3 by (simp add: res mult.commute)
qed


lemma setup_ready_derivatives:
  assumes fin: "finalize layer0 ic = Inr (layer, ic')"
    and ins: "input_dim ic = [TensorDim4 B 1 1 qw, TensorDim4 B 1 T vw, TensorDim4 B 1 1 K]"
    and conf: "conforms ic' rc"
  shows "getDim (incoming_derivatives rc 0) = TensorDim4 B 1 1 qw"
    "getDim (outgoing_derivatives rc 2) = TensorDim4 B 1 1 K"
proof -
  have i: "input_dim ic' = [TensorDim4 B 1 1 qw, TensorDim4 B 1 T vw, TensorDim4 B 1 1 K]"
    and o: "output_dim ic' = [TensorDim4 B 1 1 qw]"
    using finalize_declares [OF fin] by (simp_all add: ins)
  have a: "dims_agree [TensorDim4 B 1 1 qw] (incoming_derivatives rc)"
    and b: "dims_agree [TensorDim4 B 1 1 qw, TensorDim4 B 1 T vw, TensorDim4 B 1 1 K] (outgoing_derivatives rc)"
    using conf by (simp_all add: conforms_def i o)
  show "getDim (incoming_derivatives rc 0) = TensorDim4 B 1 1 qw"
    using dims_agreeD [OF a, of 0] by simp
  show "getDim (outgoing_derivatives rc 2) = TensorDim4 B 1 1 K"
    using dims_agreeD [OF b, of 2] by simp
qed

text \<open>The state of a step: after the setup and one forward pass.\<close>

lemma after_forwarding:
  assumes fin: "finalize layer0 ic = Inr (layer, ic')"
    and tanh0: "wt_idx layer0 Fc_tanh = 0"
    and fresh: "weights_spec ic = []" "tensors_spec ic = []"
    and ins: "input_dim ic = [TensorDim4 B 1 1 qw, TensorDim4 B 1 T vw, TensorDim4 B 1 1 K]"
    and pk: "props_MoL_K layer0 = Some K"
    and conf: "conforms ic' rc"
    and fwd: "forwarding layer rc = Inr (layer1, rc1)"
  shows "layer_ok K layer1" "\<not> helper_exec layer1" "helper_runs layer1 = helper_runs layer0"
    "\<exists>U. io_dims B qw T vw K U rc1 \<and> scratch_dims B T K U rc1"
    "getDim (tensors rc1 1) = TensorDim4 B 1 1 (3 * K)"
    "getDim (incoming_derivatives rc1 0) = TensorDim4 B 1 1 qw"
    "getDim (outgoing_derivatives rc1 2) = TensorDim4 B 1 1 K"
proof -
  obtain U where pu: "props_Unit layer0 = Some U"
    using fin by (auto simp add: finalize_defs split: if_splits option.splits)
  note rdy = setup_ready [OF fin tanh0 fresh ins pk pu conf]
  note dr = setup_ready_derivatives [OF fin ins conf]
  obtain rc' where run: "forwarding layer rc = Inr (layer\<lparr>helper_exec := False\<rparr>, rc')"
    and fr: "inputs rc' = inputs rc" "weights rc' = weights rc"
      "incoming_derivatives rc' = incoming_derivatives rc"
      "outgoing_derivatives rc' = outgoing_derivatives rc"
    and sc: "scratch_dims B T K U rc'"
    and bd: "getDim (tensors rc' 1) = TensorDim4 B 1 1 (3 * K)"
    using forwarding_result [OF rdy(1-3)] by blast
  have e: "layer1 = layer\<lparr>helper_exec := False\<rparr>" "rc1 = rc'"
    using run fwd by simp_all
  show "layer_ok K layer1" using rdy(1) by (simp add: e layer_ok_def)
  show "\<not> helper_exec layer1" by (simp add: e)
  show "helper_runs layer1 = helper_runs layer0" by (simp add: e rdy)
  have "io_dims B qw T vw K U rc1" using rdy(2) by (simp add: e io_dims_def fr)
  then show "\<exists>U. io_dims B qw T vw K U rc1 \<and> scratch_dims B T K U rc1"
    using sc e by blast
  show "getDim (tensors rc1 1) = TensorDim4 B 1 1 (3 * K)" using bd by (simp add: e)
  show "getDim (incoming_derivatives rc1 0) = TensorDim4 B 1 1 qw" using dr by (simp add: e fr)
  show "getDim (outgoing_derivatives rc1 2) = TensorDim4 B 1 1 K" using dr by (simp add: e fr)
qed

lemma calcDerivativeHelper_runs:
  assumes "layer_ok K layer"
  shows "\<exists>rc'. calcDerivativeHelper layer rc ds =
           Inr (layer\<lparr>helper_exec := True, helper_runs := helper_runs layer + 1\<rparr>, rc')"
  using assms calcDerivativeHelper_layer [of layer K rc ds] by (simp add: layer_ok_def)

text \<open>
  C2 (as amended). In a step, the helper returns; the gradient it writes into the
  outgoing derivative of the location state is
  \<open>- \<Sum>\<^sub>t (d_left_arg + d_right_arg) / safe_scale\<close>, its local tensor \<open>dbeta_eps\<close> is
  \<open>- \<Sum>\<^sub>t (d_left_arg \<cdot> left_arg + d_right_arg \<cdot> right_arg) / safe_scale\<close> with the
  cached arguments \<open>u_pos_div\<close> and \<open>u_neg_div\<close>, and the gradient of the scale is
  this tensor: the second segment of the packed buffer receives it times the scale.
\<close>

theorem calcDerivativeHelper_scorer_gradients:
  assumes "finalize layer0 ic = Inr (layer, ic')"
    and "wt_idx layer0 Fc_tanh = 0"
    and "weights_spec ic = []" and "tensors_spec ic = []"
    and "input_dim ic = [TensorDim4 B 1 1 qw, TensorDim4 B 1 T vw, TensorDim4 B 1 1 K]"
    and "props_MoL_K layer0 = Some K"
    and "conforms ic' rc"
    and "forwarding layer rc = Inr (layer1, rc1)"
    and "b < B" and "k < K"
  shows "\<exists>layer2 rc2.
     calcDerivativeHelper layer1 rc1 (wt_idx layer1 State) = Inr (layer2, rc2) \<and>
     getValue (getOutgoingDerivative rc2 (wt_idx layer1 State)) b 0 0 k =
       - (\<Sum>h<T. (d_left_arg rc1 K b h k + d_right_arg rc1 K b h k) / safe_scale rc1 K b k) \<and>
     getValue (snd (snd (scorer_gradients layer1 K rc1))) b 0 0 k =
       - (\<Sum>h<T. (d_left_arg rc1 K b h k * getValue (getTensor rc1 (wt_idx layer1 U_pos_div)) b 0 h k +
                   d_right_arg rc1 K b h k * getValue (getTensor rc1 (wt_idx layer1 U_neg_div)) b 0 h k) /
                  safe_scale rc1 K b k) \<and>
     getValue (getTensor rc2 (wt_idx layer1 Fc_proj_out)) b 0 0 (K + k) =
       getValue (snd (snd (scorer_gradients layer1 K rc1))) b 0 0 k *
       getValue (getTensor rc1 (wt_idx layer1 Fc_proj_out)) b 0 0 (K + k)"
proof -
  note st = after_forwarding [OF assms(1-8)]
  obtain U where io: "io_dims B qw T vw K U rc1" and sc: "scratch_dims B T K U rc1"
    using st(4) by blast
  have idx: "wt_idx layer1 State = 2" "wt_idx layer1 U_pos_div = 7" "wt_idx layer1 U_neg_div = 6"
    "wt_idx layer1 Fc_proj_out = 1"
    using st(1) by (simp_all add: layer_ok_def)
  obtain layer2 rc2 where run: "calcDerivativeHelper layer1 rc1 2 = Inr (layer2, rc2)"
    using calcDerivativeHelper_runs [OF st(1)] by blast
  note v = calcDerivativeHelper_values [OF st(1) io sc st(5) st(6) st(7) run assms(9,10)]
  have "getValue (getOutgoingDerivative rc2 2) b 0 0 k =
       - (\<Sum>h<T. (d_left_arg rc1 K b h k + d_right_arg rc1 K b h k) / safe_scale rc1 K b k)"
    using v(1) by (simp add: getOutgoingDerivative_def d_center_def)
  moreover have "getValue (snd (snd (scorer_gradients layer1 K rc1))) b 0 0 k =
       - (\<Sum>h<T. (d_left_arg rc1 K b h k * getValue (getTensor rc1 7) b 0 h k +
                   d_right_arg rc1 K b h k * getValue (getTensor rc1 6) b 0 h k) /
                  safe_scale rc1 K b k)"
    using v(5) by (simp add: getTensor_def d_safe_scale_def)
  moreover have "getValue (getTensor rc2 1) b 0 0 (K + k) =
       getValue (snd (snd (scorer_gradients layer1 K rc1))) b 0 0 k *
       getValue (getTensor rc1 1) b 0 0 (K + k)"
    using v(3) v(5) by (simp add: getTensor_def)
  ultimately show ?thesis
    using run unfolding idx by blast
qed


subsection \<open>The helper and a change of the scores\<close>

lemma helper_blocks_cong:
  assumes ok: "layer_ok K layer"
    and same: "inputs rc' = inputs rc" "incoming_derivatives rc' = incoming_derivatives rc"
      "\<And>i. i \<noteq> 2 \<Longrightarrow> tensors rc' i = tensors rc i"
      "getDim (tensors rc' 2) = getDim (tensors rc 2)"
  shows "helper_params layer K rc' = helper_params layer K rc"
    "helper_dprob layer K alpha rc' = helper_dprob layer K alpha rc"
    "helper_scorer layer beta dprob rc' = helper_scorer layer beta dprob rc"
proof -
  have t: "tensors rc' 1 = tensors rc 1" "tensors rc' 3 = tensors rc 3" "tensors rc' 4 = tensors rc 4"
    "tensors rc' 5 = tensors rc 5" "tensors rc' 6 = tensors rc 6" "tensors rc' 7 = tensors rc 7"
    by (simp_all add: same(3))
  have i: "wt_idx layer Query = 0" "wt_idx layer Value = 1" "wt_idx layer Fc_proj_out = 1"
     "wt_idx layer Scores = 2" "wt_idx layer Prob = 3" "wt_idx layer Prob_left = 4"
     "wt_idx layer Prob_right = 5" "wt_idx layer U_neg_div = 6" "wt_idx layer U_pos_div = 7"
    using ok by (simp_all add: layer_ok_def)
  show "helper_params layer K rc' = helper_params layer K rc"
    using t i by (simp add: helper_params_def Let_def ctx_simps same(1))
  show "helper_dprob layer K alpha rc' = helper_dprob layer K alpha rc"
    using t i by (simp add: helper_dprob_def Let_def ctx_simps same(1,2,4))
  show "helper_scorer layer beta dprob rc' = helper_scorer layer beta dprob rc"
    using t i by (simp add: helper_scorer_def Let_def ctx_simps)
qed

lemma calcDerivativeHelper_cong:
  assumes ok: "layer_ok K layer"
    and same: "inputs rc' = inputs rc" "incoming_derivatives rc' = incoming_derivatives rc"
      "\<And>i. i \<noteq> 2 \<Longrightarrow> tensors rc' i = tensors rc i"
      "getDim (tensors rc' 2) = getDim (tensors rc 2)"
      "outgoing_derivatives rc' 2 = outgoing_derivatives rc 2"
    and r: "calcDerivativeHelper layer rc 2 = Inr (l1, c1)"
    and r': "calcDerivativeHelper layer rc' 2 = Inr (l2, c2)"
  shows "l2 = l1" "outgoing_derivatives c2 2 = outgoing_derivatives c1 2" "tensors c2 1 = tensors c1 1"
proof -
  note bl = helper_blocks_cong [OF ok same(1-4)]
  have p: "props_MoL_K layer = Some K" and i: "wt_idx layer Query = 0" "wt_idx layer Fc_proj_out = 1"
    using ok by (simp_all add: layer_ok_def)
  have t1: "tensors rc' 1 = tensors rc 1" by (simp add: same(3))
  show "l2 = l1" "outgoing_derivatives c2 2 = outgoing_derivatives c1 2" "tensors c2 1 = tensors c1 1"
    using r r' t1
    by (auto simp add: calcDerivativeHelper_def get_MoL_K_def p bl Let_def ctx_simps i same(1,5)
        split: prod.splits)
qed


subsection \<open>The two entry points\<close>

lemma layer_ok_computed:
  "layer_ok K layer \<Longrightarrow> layer_ok K (layer\<lparr>helper_exec := True, helper_runs := n\<rparr>)"
  by (simp add: layer_ok_def)

lemma calcDerivative_pending:
  assumes ok: "layer_ok K layer" and np: "\<not> helper_exec layer"
  shows "\<exists>lh ch rc2.
     calcDerivativeHelper layer rc 2 = Inr (lh, ch) \<and>
     calcDerivative layer rc = Inr (lh, rc2) \<and>
     lh = layer\<lparr>helper_exec := True, helper_runs := helper_runs layer + 1\<rparr> \<and>
     outgoing_derivatives rc2 2 = outgoing_derivatives ch 2 \<and> tensors rc2 1 = tensors ch 1"
proof -
  define rcs where "rcs = setTensor rc 2
     (dot_batched_deriv_wrt_1 (getTensor rc 2) (getOutgoingDerivative rc 1)
        (getIncomingDerivative rc SINGLE_INOUT_IDX))"
  let ?lh = "layer\<lparr>helper_exec := True, helper_runs := helper_runs layer + 1\<rparr>"
  obtain ch where h: "calcDerivativeHelper layer rc 2 = Inr (?lh, ch)"
    using calcDerivativeHelper_runs [OF ok] by blast
  obtain cs where hs: "calcDerivativeHelper layer rcs 2 = Inr (?lh, cs)"
    using calcDerivativeHelper_runs [OF ok] by blast
  have same: "inputs rcs = inputs rc" "incoming_derivatives rcs = incoming_derivatives rc"
    "\<And>i. i \<noteq> 2 \<Longrightarrow> tensors rcs i = tensors rc i"
    "getDim (tensors rcs 2) = getDim (tensors rc 2)"
    "outgoing_derivatives rcs 2 = outgoing_derivatives rc 2"
    by (simp_all add: rcs_def ctx_simps)
  note cg = calcDerivativeHelper_cong [OF ok same h hs]
  have i: "wt_idx layer Scores = 2" "wt_idx layer Value = 1" "wt_idx layer State = 2"
    "wt_idx layer Query = 0"
    using ok by (simp_all add: layer_ok_def)
  have "\<exists>t. calcDerivative layer rc = Inr (?lh, setOutgoingDerivative cs 0 t)"
    using np hs unfolding rcs_def by (auto simp add: calcDerivative_def Let_def i)
  then obtain t where r: "calcDerivative layer rc = Inr (?lh, setOutgoingDerivative cs 0 t)"
    by blast
  have "outgoing_derivatives (setOutgoingDerivative cs 0 t) 2 = outgoing_derivatives ch 2"
    "tensors (setOutgoingDerivative cs 0 t) 1 = tensors ch 1"
    using cg by (simp_all add: ctx_simps)
  with h r show ?thesis by blast
qed

lemma calcGradient_pending:
  assumes ok: "layer_ok K layer" and np: "\<not> helper_exec layer"
  shows "\<exists>lh ch rc2.
     calcDerivativeHelper layer rc 2 = Inr (lh, ch) \<and>
     calcGradient layer rc = Inr (lh, rc2) \<and>
     lh = layer\<lparr>helper_exec := True, helper_runs := helper_runs layer + 1\<rparr> \<and>
     outgoing_derivatives rc2 2 = outgoing_derivatives ch 2 \<and> tensors rc2 1 = tensors ch 1"
proof -
  let ?lh = "layer\<lparr>helper_exec := True, helper_runs := helper_runs layer + 1\<rparr>"
  obtain ch where h: "calcDerivativeHelper layer rc 2 = Inr (?lh, ch)"
    using calcDerivativeHelper_runs [OF ok] by blast
  have i: "wt_idx layer State = 2"
    using ok by (simp_all add: layer_ok_def)
  have "\<exists>rc2. calcGradient layer rc = Inr (?lh, rc2) \<and>
      outgoing_derivatives rc2 = outgoing_derivatives ch \<and> tensors rc2 = tensors ch"
    using np h by (simp add: calcGradient_def Let_def i ctx_simps)
  with h show ?thesis by auto
qed

lemma calcDerivative_computed:
  assumes ok: "layer_ok K layer" and c: "helper_exec layer"
  shows "\<exists>rc2. calcDerivative layer rc = Inr (layer, rc2) \<and>
     outgoing_derivatives rc2 2 = outgoing_derivatives rc 2 \<and> tensors rc2 1 = tensors rc 1"
proof -
  have i: "wt_idx layer Scores = 2" "wt_idx layer Query = 0"
    using ok by (simp_all add: layer_ok_def)
  show ?thesis
    using c by (simp add: calcDerivative_def Let_def i ctx_simps)
qed

lemma calcGradient_computed:
  assumes c: "helper_exec layer"
  shows "\<exists>rc2. calcGradient layer rc = Inr (layer, rc2) \<and>
     outgoing_derivatives rc2 2 = outgoing_derivatives rc 2 \<and> tensors rc2 1 = tensors rc 1"
  using c by (simp add: calcGradient_def Let_def ctx_simps)


lemma finalize_layer_ok:
  assumes fin: "finalize layer0 ic = Inr (layer, ic')"
    and tanh0: "wt_idx layer0 Fc_tanh = 0"
    and fresh: "weights_spec ic = []" "tensors_spec ic = []"
  shows "\<exists>K. layer_ok K layer" "helper_exec layer = helper_exec layer0"
    "helper_runs layer = helper_runs layer0"
  using fin tanh0 fresh
  by (auto simp add: finalize_defs layer_ok_def eval_nat_numeral split: if_splits option.splits)

lemma forwarding_pending:
  assumes ok: "layer_ok K layer" and fwd: "forwarding layer rc = Inr (layer1, rc1)"
  shows "layer1 = layer\<lparr>helper_exec := False\<rparr>" "layer_ok K layer1" "\<not> helper_exec layer1"
    "helper_runs layer1 = helper_runs layer"
proof -
  have "props_MoL_K layer = Some K" using ok by (simp add: layer_ok_def)
  then show e: "layer1 = layer\<lparr>helper_exec := False\<rparr>"
    using forwarding_layer [of layer K rc] fwd by auto
  show "layer_ok K layer1" "\<not> helper_exec layer1" "helper_runs layer1 = helper_runs layer"
    using ok by (simp_all add: e layer_ok_def)
qed

text \<open>
  C3. In a step (after the setup and a forward pass) both entry points return, in either
  order; whichever runs first runs the helper once and the one that runs second does not
  run it again; the outgoing derivative of the location state and the packed buffer are
  the same tensors after the first entry point alone, after the other alone and after
  both in either order.
\<close>

theorem backward_cache_once:
  assumes "finalize layer0 ic = Inr (layer, ic')"
    and "wt_idx layer0 Fc_tanh = 0"
    and "weights_spec ic = []" and "tensors_spec ic = []"
    and "forwarding layer rc = Inr (layer1, rc1)"
  shows "\<exists>lD cD lG cG lDG cDG lGD cGD.
     calcDerivative layer1 rc1 = Inr (lD, cD) \<and> calcGradient lD cD = Inr (lDG, cDG) \<and>
     calcGradient layer1 rc1 = Inr (lG, cG) \<and> calcDerivative lG cG = Inr (lGD, cGD) \<and>
     helper_runs lD = helper_runs layer1 + 1 \<and> helper_runs lDG = helper_runs layer1 + 1 \<and>
     helper_runs lG = helper_runs layer1 + 1 \<and> helper_runs lGD = helper_runs layer1 + 1 \<and>
     getOutgoingDerivative cG (wt_idx layer1 State) = getOutgoingDerivative cD (wt_idx layer1 State) \<and>
     getOutgoingDerivative cDG (wt_idx layer1 State) = getOutgoingDerivative cD (wt_idx layer1 State) \<and>
     getOutgoingDerivative cGD (wt_idx layer1 State) = getOutgoingDerivative cD (wt_idx layer1 State) \<and>
     getTensor cG (wt_idx layer1 Fc_proj_out) = getTensor cD (wt_idx layer1 Fc_proj_out) \<and>
     getTensor cDG (wt_idx layer1 Fc_proj_out) = getTensor cD (wt_idx layer1 Fc_proj_out) \<and>
     getTensor cGD (wt_idx layer1 Fc_proj_out) = getTensor cD (wt_idx layer1 Fc_proj_out)"
proof -
  obtain K where ok0: "layer_ok K layer"
    using finalize_layer_ok(1) [OF assms(1-4)] by blast
  note p = forwarding_pending [OF ok0 assms(5)]
  let ?lh = "layer1\<lparr>helper_exec := True, helper_runs := helper_runs layer1 + 1\<rparr>"
  have okh: "layer_ok K ?lh" by (rule layer_ok_computed [OF p(2)])
  have idx: "wt_idx layer1 State = 2" "wt_idx layer1 Fc_proj_out = 1"
    using p(2) by (simp_all add: layer_ok_def)
  obtain ch cD where h: "calcDerivativeHelper layer1 rc1 2 = Inr (?lh, ch)"
    and d: "calcDerivative layer1 rc1 = Inr (?lh, cD)"
    and dv: "outgoing_derivatives cD 2 = outgoing_derivatives ch 2" "tensors cD 1 = tensors ch 1"
    using calcDerivative_pending [OF p(2,3), of rc1] by auto
  obtain ch' cG where h': "calcDerivativeHelper layer1 rc1 2 = Inr (?lh, ch')"
    and g: "calcGradient layer1 rc1 = Inr (?lh, cG)"
    and gv: "outgoing_derivatives cG 2 = outgoing_derivatives ch' 2" "tensors cG 1 = tensors ch' 1"
    using calcGradient_pending [OF p(2,3), of rc1] by auto
  have same: "ch' = ch" using h h' by simp
  obtain cDG where dg: "calcGradient ?lh cD = Inr (?lh, cDG)"
    and dgv: "outgoing_derivatives cDG 2 = outgoing_derivatives cD 2" "tensors cDG 1 = tensors cD 1"
    using calcGradient_computed [of ?lh cD] by auto
  obtain cGD where gd: "calcDerivative ?lh cG = Inr (?lh, cGD)"
    and gdv: "outgoing_derivatives cGD 2 = outgoing_derivatives cG 2" "tensors cGD 1 = tensors cG 1"
    using calcDerivative_computed [OF okh, of cG] by auto
  show ?thesis
    unfolding idx getOutgoingDerivative_def getTensor_def
    using d dg g gd dv gv dgv gdv same
    by (intro exI [of _ ?lh] exI [of _ cD] exI [of _ cG] exI [of _ cDG] exI [of _ cGD]) simp
qed

text \<open>
  C7 (as amended). A batch-size change leaves the layer, and so the flag of the backward
  cache, as it is; the next forward pass resets the flag, and after it either gradient
  entry point runs the helper.
\<close>

theorem setBatch_keeps_cache_state:
  assumes "props_MoL_K layer = Some K"
  shows "fst (setBatch layer rc n) = layer \<and>
    (\<exists>l1 c1 l2 c2 l3 c3.
       forwarding layer (snd (setBatch layer rc n)) = Inr (l1, c1) \<and> \<not> helper_exec l1 \<and>
       calcDerivative l1 c1 = Inr (l2, c2) \<and> helper_runs l2 = helper_runs layer + 1 \<and>
       calcGradient l1 c1 = Inr (l3, c3) \<and> helper_runs l3 = helper_runs layer + 1)"
proof -
  let ?l1 = "layer\<lparr>helper_exec := False\<rparr>"
  obtain c1 where f: "forwarding layer (snd (setBatch layer rc n)) = Inr (?l1, c1)"
    using forwarding_layer [OF assms] by blast
  have p1: "props_MoL_K ?l1 = Some K" using assms by simp
  obtain c2 where d: "calcDerivative ?l1 c1 =
      Inr (?l1\<lparr>helper_exec := True, helper_runs := helper_runs ?l1 + 1\<rparr>, c2)"
    using calcDerivative_layer [OF p1, of c1] by auto
  obtain c3 where g: "calcGradient ?l1 c1 =
      Inr (?l1\<lparr>helper_exec := True, helper_runs := helper_runs ?l1 + 1\<rparr>, c3)"
    using calcGradient_layer [OF p1, of c1] by auto
  show ?thesis
    using f d g by (auto simp add: setBatch_layer)
qed


lemma example_step:
  "\<exists>layer ic' layer1 rc1.
     finalize example_layer example_context = Inr (layer, ic') \<and>
     forwarding layer (example_run ic') = Inr (layer1, rc1)"
proof -
  obtain layer ic' where fin: "finalize example_layer example_context = Inr (layer, ic')"
    using example_finalize by blast
  have "props_MoL_K layer = Some 1"
    using finalize_props(1) [OF fin] by (simp add: example_hyps)
  then show ?thesis
    using forwarding_layer [of layer 1 "example_run ic'"] fin by blast
qed

theorem backward_cache_once_witness:
  "\<exists>layer ic' layer1 rc1 lD cD lG cG lDG cDG lGD cGD.
     finalize example_layer example_context = Inr (layer, ic') \<and>
     forwarding layer (example_run ic') = Inr (layer1, rc1) \<and>
     calcDerivative layer1 rc1 = Inr (lD, cD) \<and> calcGradient lD cD = Inr (lDG, cDG) \<and>
     calcGradient layer1 rc1 = Inr (lG, cG) \<and> calcDerivative lG cG = Inr (lGD, cGD) \<and>
     helper_runs lD = helper_runs layer1 + 1 \<and> helper_runs lDG = helper_runs layer1 + 1 \<and>
     helper_runs lG = helper_runs layer1 + 1 \<and> helper_runs lGD = helper_runs layer1 + 1 \<and>
     getOutgoingDerivative cG (wt_idx layer1 State) = getOutgoingDerivative cD (wt_idx layer1 State) \<and>
     getOutgoingDerivative cDG (wt_idx layer1 State) = getOutgoingDerivative cD (wt_idx layer1 State) \<and>
     getOutgoingDerivative cGD (wt_idx layer1 State) = getOutgoingDerivative cD (wt_idx layer1 State) \<and>
     getTensor cG (wt_idx layer1 Fc_proj_out) = getTensor cD (wt_idx layer1 Fc_proj_out) \<and>
     getTensor cDG (wt_idx layer1 Fc_proj_out) = getTensor cD (wt_idx layer1 Fc_proj_out) \<and>
     getTensor cGD (wt_idx layer1 Fc_proj_out) = getTensor cD (wt_idx layer1 Fc_proj_out)"
proof -
  obtain layer ic' layer1 rc1 where
    fin: "finalize example_layer example_context = Inr (layer, ic')" and
    fwd: "forwarding layer (example_run ic') = Inr (layer1, rc1)"
    using example_step by blast
  show ?thesis
    using backward_cache_once [OF fin example_hyps(1-3) fwd] fin fwd by blast
qed

theorem setBatch_keeps_cache_state_witness:
  "fst (setBatch (example_layer\<lparr>helper_exec := True\<rparr>) (allocate example_context) 2) =
     example_layer\<lparr>helper_exec := True\<rparr> \<and>
   (\<exists>l1 c1 l2 c2 l3 c3.
      forwarding (example_layer\<lparr>helper_exec := True\<rparr>)
        (snd (setBatch (example_layer\<lparr>helper_exec := True\<rparr>) (allocate example_context) 2)) = Inr (l1, c1) \<and>
      \<not> helper_exec l1 \<and>
      calcDerivative l1 c1 = Inr (l2, c2) \<and>
      helper_runs l2 = helper_runs (example_layer\<lparr>helper_exec := True\<rparr>) + 1 \<and>
      calcGradient l1 c1 = Inr (l3, c3) \<and>
      helper_runs l3 = helper_runs (example_layer\<lparr>helper_exec := True\<rparr>) + 1)"
proof -
  have "props_MoL_K (example_layer\<lparr>helper_exec := True\<rparr>) = Some 1"
    by (simp add: example_hyps)
  then show ?thesis
    by (rule setBatch_keeps_cache_state)
qed

text \<open>
  The claim C7 as stated fails: after a forward pass and one gradient entry point the
  cache is Computed; a batch-size change leaves the flag set, and the next gradient entry
  point does not run the helper again (the counter stays at 1).
\<close>

theorem setBatch_does_not_reset_counterexample:
  "\<not> isl (run_from_setup example_layer example_context example_run
            [Forwarding, CalcDerivative, SetBatch 2]) \<and>
   helper_exec (fst (projr (run_from_setup example_layer example_context example_run
            [Forwarding, CalcDerivative, SetBatch 2]))) \<and>
   \<not> isl (run_from_setup example_layer example_context example_run
            [Forwarding, CalcDerivative, SetBatch 2, CalcGradient]) \<and>
   helper_runs (fst (projr (run_from_setup example_layer example_context example_run
            [Forwarding, CalcDerivative, SetBatch 2, CalcGradient]))) = 1"
proof -
  obtain layer ic' where fin: "finalize example_layer example_context = Inr (layer, ic')"
    using example_finalize by blast
  have pk: "props_MoL_K layer = Some 1"
    using finalize_props(1) [OF fin] by (simp add: example_hyps)
  have hr: "helper_runs layer = 0"
    using finalize_layer_ok(3) [OF fin example_hyps(1-3)] by (simp add: example_defs)
  let ?l1 = "layer\<lparr>helper_exec := False\<rparr>"
  let ?l2 = "?l1\<lparr>helper_exec := True, helper_runs := helper_runs ?l1 + 1\<rparr>"
  obtain c1 where f: "forwarding layer (example_run ic') = Inr (?l1, c1)"
    using forwarding_layer [OF pk] by blast
  have p1: "props_MoL_K ?l1 = Some 1" using pk by simp
  obtain c2 where d: "calcDerivative ?l1 c1 = Inr (?l2, c2)"
    using calcDerivative_layer [OF p1, of c1] by auto
  obtain c3 where b: "setBatch ?l2 c2 2 = (?l2, c3)"
    using setBatch_layer [of ?l2 c2 2] by (cases "setBatch ?l2 c2 2") auto
  have p2: "props_MoL_K ?l2 = Some 1" using pk by simp
  obtain c4 where g: "calcGradient ?l2 c3 = Inr (?l2, c4)"
    using calcGradient_layer [OF p2, of c3] by auto
  show ?thesis
    using f d b g by (simp add: run_from_setup_def fin hr)
qed


lemma entry_points_values:
  assumes ok: "layer_ok K layer"
    and io: "io_dims B qw T vw K U rc"
    and sc: "scratch_dims B T K U rc"
    and buf: "getDim (tensors rc 1) = TensorDim4 B 1 1 (3 * K)"
    and dd: "getDim (incoming_derivatives rc 0) = TensorDim4 B 1 1 Wd"
    and ds: "getDim (outgoing_derivatives rc 2) = TensorDim4 B 1 1 K"
    and np: "\<not> helper_exec layer"
  shows "\<exists>lD cD lG cG.
     calcDerivative layer rc = Inr (lD, cD) \<and> calcGradient layer rc = Inr (lG, cG) \<and>
     tensors cG 1 = tensors cD 1 \<and> outgoing_derivatives cG 2 = outgoing_derivatives cD 2 \<and>
     (\<forall>b k. b < B \<longrightarrow> k < K \<longrightarrow>
        getValue (outgoing_derivatives cD 2) b 0 0 k = d_center rc K T b k \<and>
        getValue (tensors cD 1) b 0 0 k = d_center rc K T b k * getValue (tensors rc 1) b 0 0 k \<and>
        getValue (tensors cD 1) b 0 0 (K + k) =
          d_safe_scale rc K T b k * getValue (tensors rc 1) b 0 0 (K + k) \<and>
        getValue (tensors cD 1) b 0 0 (2 * K + k) = d_weight_logits rc K T b k)"
proof -
  obtain lh ch cD where h: "calcDerivativeHelper layer rc 2 = Inr (lh, ch)"
    and d: "calcDerivative layer rc = Inr (lh, cD)"
    and dv: "outgoing_derivatives cD 2 = outgoing_derivatives ch 2" "tensors cD 1 = tensors ch 1"
    using calcDerivative_pending [OF ok np, of rc] by auto
  obtain lh' ch' cG where h': "calcDerivativeHelper layer rc 2 = Inr (lh', ch')"
    and g: "calcGradient layer rc = Inr (lh', cG)"
    and gv: "outgoing_derivatives cG 2 = outgoing_derivatives ch' 2" "tensors cG 1 = tensors ch' 1"
    using calcGradient_pending [OF ok np, of rc] by auto
  have same: "ch' = ch" using h h' by simp
  note v = calcDerivativeHelper_values [OF ok io sc buf dd ds h]
  have "\<forall>b k. b < B \<longrightarrow> k < K \<longrightarrow>
        getValue (outgoing_derivatives cD 2) b 0 0 k = d_center rc K T b k \<and>
        getValue (tensors cD 1) b 0 0 k = d_center rc K T b k * getValue (tensors rc 1) b 0 0 k \<and>
        getValue (tensors cD 1) b 0 0 (K + k) =
          d_safe_scale rc K T b k * getValue (tensors rc 1) b 0 0 (K + k) \<and>
        getValue (tensors cD 1) b 0 0 (2 * K + k) = d_weight_logits rc K T b k"
    by (intro allI impI conjI) (simp_all only: dv v)
  moreover have "tensors cG 1 = tensors cD 1" "outgoing_derivatives cG 2 = outgoing_derivatives cD 2"
    by (simp_all only: dv gv same)
  ultimately show ?thesis
    using d g by blast
qed

lemma softmax_sums:
  fixes a w :: "nat \<Rightarrow> real"
  assumes "0 < K"
  shows "(\<Sum>k<K. exp (a k) / (\<Sum>j<K. exp (a j))) = 1"
    and "(\<Sum>k<K. al k) = 1 \<Longrightarrow> (\<Sum>k<K. al k * (w k - (\<Sum>j<K. w j * al j))) = 0"
proof -
  have "0 < (\<Sum>j<K. exp (a j))"
    using assms by (intro sum_pos) auto
  then show "(\<Sum>k<K. exp (a k) / (\<Sum>j<K. exp (a j))) = 1"
    by (simp add: sum_divide_distrib [symmetric])
next
  assume one: "(\<Sum>k<K. al k) = 1"
  have "(\<Sum>k<K. al k * (w k - (\<Sum>j<K. w j * al j))) =
        (\<Sum>k<K. w k * al k) - (\<Sum>k<K. al k) * (\<Sum>j<K. w j * al j)"
    by (simp add: right_diff_distrib sum_subtractf sum_distrib_right mult.commute)
  then show "(\<Sum>k<K. al k * (w k - (\<Sum>j<K. w j * al j))) = 0"
    by (simp add: one)
qed

text \<open>
  C10. In a step, the tensor at the handle of \<open>Fc_proj_out\<close> holds the forward mixture
  parameters (shift, scale, weight) after the forward pass; after either backward entry
  point the same handle holds, in its three segments, the gradient slices, each computed
  from the values the buffer held before the backward pass; the two entry points leave
  the same tensor. The forward values are gone: the weights in the third segment summed to
  1, what the segment holds afterwards sums to 0.
\<close>

theorem backward_overwrites_packed_buffer:
  assumes "finalize layer0 ic = Inr (layer, ic')"
    and "wt_idx layer0 Fc_tanh = 0"
    and "weights_spec ic = []" and "tensors_spec ic = []"
    and "input_dim ic = [TensorDim4 B 1 1 qw, TensorDim4 B 1 T vw, TensorDim4 B 1 1 K]"
    and "props_MoL_K layer0 = Some K"
    and "conforms ic' rc"
    and "forwarding layer rc = Inr (layer1, rc1)"
    and "b < B" and "k < K"
  shows "\<exists>lD cD lG cG.
     calcDerivative layer1 rc1 = Inr (lD, cD) \<and> calcGradient layer1 rc1 = Inr (lG, cG) \<and>
     getValue (getTensor rc1 (wt_idx layer1 Fc_proj_out)) b 0 0 k = exp (packed_output rc b k) \<and>
     getValue (getTensor rc1 (wt_idx layer1 Fc_proj_out)) b 0 0 (K + k) = mol_scale rc K b k \<and>
     getValue (getTensor rc1 (wt_idx layer1 Fc_proj_out)) b 0 0 (2 * K + k) = mol_weight rc K b k \<and>
     getValue (getTensor cD (wt_idx layer1 Fc_proj_out)) b 0 0 k =
       d_center rc1 K T b k * getValue (getTensor rc1 (wt_idx layer1 Fc_proj_out)) b 0 0 k \<and>
     getValue (getTensor cD (wt_idx layer1 Fc_proj_out)) b 0 0 (K + k) =
       d_safe_scale rc1 K T b k * getValue (getTensor rc1 (wt_idx layer1 Fc_proj_out)) b 0 0 (K + k) \<and>
     getValue (getTensor cD (wt_idx layer1 Fc_proj_out)) b 0 0 (2 * K + k) =
       d_weight_logits rc1 K T b k \<and>
     getTensor cG (wt_idx layer1 Fc_proj_out) = getTensor cD (wt_idx layer1 Fc_proj_out) \<and>
     (\<Sum>j<K. getValue (getTensor rc1 (wt_idx layer1 Fc_proj_out)) b 0 0 (2 * K + j)) = 1 \<and>
     (\<Sum>j<K. getValue (getTensor cD (wt_idx layer1 Fc_proj_out)) b 0 0 (2 * K + j)) = 0"
proof -
  obtain U where pu: "props_Unit layer0 = Some U"
    using assms(1) by (auto simp add: finalize_defs split: if_splits option.splits)
  note rdy = setup_ready [OF assms(1-6) pu assms(7)]
  note st = after_forwarding [OF assms(1-8)]
  obtain U' where io: "io_dims B qw T vw K U' rc1" and sc: "scratch_dims B T K U' rc1"
    using st(4) by blast
  have idx: "wt_idx layer1 Fc_proj_out = 1"
    using st(1) by (simp add: layer_ok_def)
  obtain rc' where run: "forwarding layer rc = Inr (layer\<lparr>helper_exec := False\<rparr>, rc')"
    and fv: "\<forall>b k. b < B \<longrightarrow> k < K \<longrightarrow>
        getValue (tensors rc' 1) b 0 0 k = exp (packed_output rc b k) \<and>
        getValue (tensors rc' 1) b 0 0 (K + k) = mol_scale rc K b k \<and>
        getValue (tensors rc' 1) b 0 0 (2 * K + k) = mol_weight rc K b k"
    using forwarding_result [OF rdy(1-3)] by blast
  have e: "rc1 = rc'" using run assms(8) by simp
  have fw: "getValue (tensors rc1 1) b 0 0 j = exp (packed_output rc b j)"
    "getValue (tensors rc1 1) b 0 0 (K + j) = mol_scale rc K b j"
    "getValue (tensors rc1 1) b 0 0 (2 * K + j) = mol_weight rc K b j" if "j < K" for j
    using fv that assms(9) unfolding e by blast+
  obtain lD cD lG cG where d: "calcDerivative layer1 rc1 = Inr (lD, cD)"
    and g: "calcGradient layer1 rc1 = Inr (lG, cG)"
    and eq: "tensors cG 1 = tensors cD 1"
    and bv: "\<forall>b k. b < B \<longrightarrow> k < K \<longrightarrow>
        getValue (outgoing_derivatives cD 2) b 0 0 k = d_center rc1 K T b k \<and>
        getValue (tensors cD 1) b 0 0 k = d_center rc1 K T b k * getValue (tensors rc1 1) b 0 0 k \<and>
        getValue (tensors cD 1) b 0 0 (K + k) =
          d_safe_scale rc1 K T b k * getValue (tensors rc1 1) b 0 0 (K + k) \<and>
        getValue (tensors cD 1) b 0 0 (2 * K + k) = d_weight_logits rc1 K T b k"
    using entry_points_values [OF st(1) io sc st(5) st(6) st(7) st(2)] by blast
  have bw: "getValue (tensors cD 1) b 0 0 j = d_center rc1 K T b j * getValue (tensors rc1 1) b 0 0 j"
    "getValue (tensors cD 1) b 0 0 (K + j) =
          d_safe_scale rc1 K T b j * getValue (tensors rc1 1) b 0 0 (K + j)"
    "getValue (tensors cD 1) b 0 0 (2 * K + j) = d_weight_logits rc1 K T b j" if "j < K" for j
    using bv that assms(9) by blast+
  have kpos: "0 < K" using assms(10) by simp
  have s1: "(\<Sum>j<K. getValue (tensors rc1 1) b 0 0 (2 * K + j)) = 1"
  proof -
    have "(\<Sum>j<K. getValue (tensors rc1 1) b 0 0 (2 * K + j)) = (\<Sum>j<K. mol_weight rc K b j)"
      by (intro sum.cong refl) (use fw in simp)
    also have "\<dots> = 1"
      unfolding mol_weight_def by (rule softmax_sums(1) [OF kpos])
    finally show ?thesis .
  qed
  have s0: "(\<Sum>j<K. getValue (tensors cD 1) b 0 0 (2 * K + j)) = 0"
  proof -
    have "(\<Sum>j<K. getValue (tensors cD 1) b 0 0 (2 * K + j)) = (\<Sum>j<K. d_weight_logits rc1 K T b j)"
      by (intro sum.cong refl) (use bw in simp)
    also have "\<dots> = 0"
      unfolding d_weight_logits_def by (rule softmax_sums(2) [OF kpos s1])
    finally show ?thesis .
  qed
  show ?thesis
    unfolding idx getTensor_def
    using d g eq fw [OF assms(10)] bw [OF assms(10)] s1 s0
    by (intro exI [of _ lD] exI [of _ cD] exI [of _ lG] exI [of _ cG]) simp
qed

theorem backward_overwrites_packed_buffer_witness:
  "\<exists>layer ic' layer1 rc1 lD cD lG cG.
     finalize example_layer example_context = Inr (layer, ic') \<and>
     forwarding layer (example_run ic') = Inr (layer1, rc1) \<and>
     calcDerivative layer1 rc1 = Inr (lD, cD) \<and> calcGradient layer1 rc1 = Inr (lG, cG) \<and>
     getValue (getTensor rc1 (wt_idx layer1 Fc_proj_out)) 0 0 0 (2 * 1 + 0) =
       mol_weight (example_run ic') 1 0 0 \<and>
     getValue (getTensor cD (wt_idx layer1 Fc_proj_out)) 0 0 0 (2 * 1 + 0) =
       d_weight_logits rc1 1 2 0 0 \<and>
     getTensor cG (wt_idx layer1 Fc_proj_out) = getTensor cD (wt_idx layer1 Fc_proj_out) \<and>
     (\<Sum>j<1. getValue (getTensor rc1 (wt_idx layer1 Fc_proj_out)) 0 0 0 (2 * 1 + j)) = 1 \<and>
     (\<Sum>j<1. getValue (getTensor cD (wt_idx layer1 Fc_proj_out)) 0 0 0 (2 * 1 + j)) = 0"
proof -
  obtain layer ic' layer1 rc1 where
    fin: "finalize example_layer example_context = Inr (layer, ic')" and
    fwd: "forwarding layer (example_run ic') = Inr (layer1, rc1)"
    using example_step by blast
  have b: "(0::nat) < 1" by simp
  show ?thesis
    using backward_overwrites_packed_buffer
      [OF fin example_hyps(1-5) conforms_example_run [OF fin] fwd b b] fin fwd
    by blast
qed

theorem calcDerivativeHelper_scorer_gradients_witness:
  "\<exists>layer ic' layer1 rc1 layer2 rc2.
     finalize example_layer example_context = Inr (layer, ic') \<and>
     forwarding layer (example_run ic') = Inr (layer1, rc1) \<and>
     calcDerivativeHelper layer1 rc1 (wt_idx layer1 State) = Inr (layer2, rc2) \<and>
     getValue (getOutgoingDerivative rc2 (wt_idx layer1 State)) 0 0 0 0 =
       - (\<Sum>h<2. (d_left_arg rc1 1 0 h 0 + d_right_arg rc1 1 0 h 0) / safe_scale rc1 1 0 0) \<and>
     getValue (snd (snd (scorer_gradients layer1 1 rc1))) 0 0 0 0 =
       - (\<Sum>h<2. (d_left_arg rc1 1 0 h 0 * getValue (getTensor rc1 (wt_idx layer1 U_pos_div)) 0 0 h 0 +
                   d_right_arg rc1 1 0 h 0 * getValue (getTensor rc1 (wt_idx layer1 U_neg_div)) 0 0 h 0) /
                  safe_scale rc1 1 0 0) \<and>
     getValue (getTensor rc2 (wt_idx layer1 Fc_proj_out)) 0 0 0 (1 + 0) =
       getValue (snd (snd (scorer_gradients layer1 1 rc1))) 0 0 0 0 *
       getValue (getTensor rc1 (wt_idx layer1 Fc_proj_out)) 0 0 0 (1 + 0)"
proof -
  obtain layer ic' layer1 rc1 where
    fin: "finalize example_layer example_context = Inr (layer, ic')" and
    fwd: "forwarding layer (example_run ic') = Inr (layer1, rc1)"
    using example_step by blast
  have b: "(0::nat) < 1" by simp
  show ?thesis
    using calcDerivativeHelper_scorer_gradients
      [OF fin example_hyps(1-5) conforms_example_run [OF fin] fwd b b] fin fwd
    by blast
qed


subsection \<open>The gradient of the centre at a scale other than one\<close>

lemma getValue_alloc_store [simp]: "getValue (alloc_store ds i) b c h w = 0"
  by (simp add: alloc_store_def getValue_def Tensor_alloc_def)

lemma example_run_zero:
  "getValue (weights (example_run c) i) b ch h w = 0"
  "getValue (inputs (example_run c) 0) b ch h w = 0"
  by (simp_all add: example_run_def allocate_def)

lemma example_run_state: "getValue (inputs (example_run c) 2) 0 0 0 0 = 1 / 2"
  by (simp add: example_run_def getValue_Tensor_of)

lemma d_score_cong:
  "incoming_derivatives rc' = incoming_derivatives rc \<Longrightarrow> inputs rc' = inputs rc \<Longrightarrow>
   d_score rc' b h = d_score rc b h"
  by (simp add: d_score_def)

lemma getData_Tensor_of:
  "getData (Tensor_of d f) i =
     f (i div getFeatureLen d) (i div (height d * width d) mod channel d)
       (i div width d mod height d) (i mod width d)"
  by (simp add: Tensor_of_def)

lemma example_d_score:
  "d_score (example_run c) 0 0 = 1" "d_score (example_run c) 0 1 = 0"
  by (simp_all add: d_score_def example_run_def getValue_Tensor_of batch_matrix_value_def
      getData_Tensor_of getFeatureLen_def)

lemma sigmoid_zero: "sigmoid 0 = 1 / 2"
  by (simp add: sigmoid_def)

lemma sigmoid_neg_less_half: "x < 0 \<Longrightarrow> sigmoid x < 1 / 2"
proof -
  assume "x < 0"
  then have "1 < exp (- x)" by simp
  then have "2 < 1 + exp (- x)" by simp
  moreover have "0 < 1 + exp (- x)" by (simp add: add_pos_pos)
  ultimately show ?thesis by (simp add: sigmoid_def field_simps)
qed

lemma sigmoid_prime_less_quarter:
  assumes "p < 1 / 2"
  shows "p * (1 - p) < 1 / (4::real)"
proof -
  have "0 < (1 / 2 - p) * (1 / 2 - p)" using assms by simp
  then show ?thesis by (simp add: algebra_simps)
qed

lemma example_weights_spec:
  assumes "finalize example_layer example_context = Inr (layer, ic')"
  shows "map fst (weights_spec ic') = [TensorDim4 1 1 1 3, TensorDim4 1 1 1 3, TensorDim4 1 1 3 3]"
  using assms
  by (auto simp add: finalize_defs example_defs TensorDim2_def TensorDim1_def split: if_splits)

lemma conforms_scaled_run:
  assumes "finalize example_layer example_context = Inr (layer, ic')"
  shows "conforms ic' (scaled_run ic')"
proof -
  have c: "conforms ic' (example_run ic')" by (rule conforms_example_run [OF assms])
  have "dims_agree (map fst (weights_spec ic')) (weights (scaled_run ic'))"
    unfolding scaled_run_def using c
    by (auto simp add: conforms_def example_weights_spec [OF assms] intro!: dims_agree_upd)
  then show ?thesis
    using c by (simp add: conforms_def scaled_run_def)
qed

lemma scaled_run_frame:
  "inputs (scaled_run c) = inputs (example_run c)"
  "incoming_derivatives (scaled_run c) = incoming_derivatives (example_run c)"
  by (simp_all add: scaled_run_def)

lemma three: "(\<Sum>u<3. f u) = f 0 + f 1 + f 2" for f :: "nat \<Rightarrow> real"
  by (simp add: numeral_3_eq_3 numeral_2_eq_2)

lemma scaled_hidden:
  "u < 3 \<Longrightarrow> hidden (scaled_run c) b u = tanh 1"
  by (simp add: hidden_def scaled_run_frame example_run_zero)
     (simp add: scaled_run_def getValue_Tensor_of)

lemma scaled_packed_output:
  assumes "finalize example_layer example_context = Inr (layer, ic')"
  shows "packed_output (scaled_run ic') b 0 = 0" "packed_output (scaled_run ic') b 1 = tanh 1"
    "packed_output (scaled_run ic') b 2 = 0"
proof -
  have w: "width (getDim (weights (scaled_run ic') 0)) = 3"
    using example_weights_spec [OF assms]
    by (simp add: scaled_run_def example_run_def allocate_def alloc_store_def)
  have v: "getValue (weights (scaled_run ic') 2) 0 0 u j = (if u = 0 \<and> j = 1 then 1 else 0)"
    if "u < 3" "j < 3" for u j
    using that by (simp add: scaled_run_def getValue_Tensor_of)
  have h: "hidden (scaled_run ic') b 0 = tanh 1" "hidden (scaled_run ic') b 1 = tanh 1"
    "hidden (scaled_run ic') b 2 = tanh 1"
    by (simp_all add: scaled_hidden)
  show "packed_output (scaled_run ic') b 0 = 0"
    unfolding packed_output_def w three h using v [of 0 0] v [of 1 0] v [of 2 0] by simp
  show "packed_output (scaled_run ic') b 1 = tanh 1"
    unfolding packed_output_def w three h using v [of 0 1] v [of 1 1] v [of 2 1] by simp
  show "packed_output (scaled_run ic') b 2 = 0"
    unfolding packed_output_def w three h using v [of 0 2] v [of 1 2] v [of 2 2] by simp
qed


lemma scaled_mixture:
  assumes "finalize example_layer example_context = Inr (layer, ic')"
  shows "mol_scale (scaled_run ic') 1 b 0 = exp (tanh 1)"
    "mol_weight (scaled_run ic') 1 b 0 = 1"
    "mol_center (scaled_run ic') 1 0 0 = 3 / 2"
  using scaled_packed_output [OF assms, of b] scaled_packed_output [OF assms, of 0]
  by (simp_all add: mol_scale_def mol_weight_def mol_center_def scaled_run_frame example_run_state)

lemma scaled_args:
  assumes "finalize example_layer example_context = Inr (layer, ic')"
  shows "left_arg (scaled_run ic') 1 0 1 0 = 0"
    "right_arg (scaled_run ic') 1 0 1 0 = - 1 / (exp (tanh 1) + 1 / 10 ^ 8)"
  unfolding left_arg_def right_arg_def scaled_mixture(1,2) [OF assms, of 0] scaled_mixture(3) [OF assms]
  by simp_all

text \<open>
  The claim C2 as stated fails: with a scale of \<open>exp (tanh 1)\<close>, about 2.14, the
  gradient the backward pass writes for the location state differs from
  \<open>- \<Sum>\<^sub>t (d_left_arg + d_right_arg)\<close>, because the code divides each term by
  \<open>safe_scale\<close>.
\<close>

theorem d_center_scaled_counterexample:
  "\<not> isl (run_from_setup example_layer example_context scaled_run [Forwarding]) \<and>
   \<not> isl (run_from_setup example_layer example_context scaled_run [Forwarding, CalcDerivative]) \<and>
   safe_scale (snd (projr (run_from_setup example_layer example_context scaled_run [Forwarding]))) 1 0 0 =
     exp (tanh 1) + 1 / 10 ^ 8 \<and>
   getValue
     (getOutgoingDerivative
        (snd (projr (run_from_setup example_layer example_context scaled_run [Forwarding, CalcDerivative])))
        (wt_idx (fst (projr (run_from_setup example_layer example_context scaled_run [Forwarding]))) State))
     0 0 0 0 \<noteq>
   - (\<Sum>h<2. d_left_arg (snd (projr (run_from_setup example_layer example_context scaled_run [Forwarding]))) 1 0 h 0 +
             d_right_arg (snd (projr (run_from_setup example_layer example_context scaled_run [Forwarding]))) 1 0 h 0) \<and>
   getValue
     (getOutgoingDerivative
        (snd (projr (run_from_setup example_layer example_context scaled_run [Forwarding, CalcDerivative])))
        (wt_idx (fst (projr (run_from_setup example_layer example_context scaled_run [Forwarding]))) State))
     0 0 0 0 =
   - (\<Sum>h<2. d_left_arg (snd (projr (run_from_setup example_layer example_context scaled_run [Forwarding]))) 1 0 h 0 +
             d_right_arg (snd (projr (run_from_setup example_layer example_context scaled_run [Forwarding]))) 1 0 h 0) /
     (exp (tanh 1) + 1 / 10 ^ 8)"
proof -
  obtain layer ic' where fin: "finalize example_layer example_context = Inr (layer, ic')"
    using example_finalize by blast
  let ?rc = "scaled_run ic'"
  note conf = conforms_scaled_run [OF fin]
  note rdy = setup_ready [OF fin example_hyps(1-6) conf]
  obtain rc1 where fwd: "forwarding layer ?rc = Inr (layer\<lparr>helper_exec := False\<rparr>, rc1)"
    and fr: "inputs rc1 = inputs ?rc" "incoming_derivatives rc1 = incoming_derivatives ?rc"
    and fb: "\<forall>b k. b < 1 \<longrightarrow> k < 1 \<longrightarrow>
        getValue (tensors rc1 1) b 0 0 k = exp (packed_output ?rc b k) \<and>
        getValue (tensors rc1 1) b 0 0 (1 + k) = mol_scale ?rc 1 b k \<and>
        getValue (tensors rc1 1) b 0 0 (2 * 1 + k) = mol_weight ?rc 1 b k"
    and fp: "\<forall>b h k. b < 1 \<longrightarrow> h < 2 \<longrightarrow> k < 1 \<longrightarrow>
        getValue (tensors rc1 7) b 0 h k = left_arg ?rc 1 b (h + 1) k \<and>
        getValue (tensors rc1 6) b 0 h k = right_arg ?rc 1 b (h + 1) k \<and>
        getValue (tensors rc1 4) b 0 h k = sigmoid (left_arg ?rc 1 b (h + 1) k) \<and>
        getValue (tensors rc1 5) b 0 h k = sigmoid (right_arg ?rc 1 b (h + 1) k) \<and>
        getValue (tensors rc1 3) b 0 h k =
          sigmoid (left_arg ?rc 1 b (h + 1) k) - sigmoid (right_arg ?rc 1 b (h + 1) k)"
    using forwarding_result [OF rdy(1-3)] by blast
  let ?l1 = "layer\<lparr>helper_exec := False\<rparr>"
  note st = after_forwarding [OF fin example_hyps(1-5) conf fwd]
  obtain U where io: "io_dims 1 1 2 1 1 U rc1" and sc: "scratch_dims 1 2 1 U rc1"
    using st(4) by blast
  obtain lD cD where d: "calcDerivative ?l1 rc1 = Inr (lD, cD)"
    and dv: "\<forall>b k. b < 1 \<longrightarrow> k < 1 \<longrightarrow>
        getValue (outgoing_derivatives cD 2) b 0 0 k = d_center rc1 1 2 b k \<and>
        getValue (tensors cD 1) b 0 0 k = d_center rc1 1 2 b k * getValue (tensors rc1 1) b 0 0 k \<and>
        getValue (tensors cD 1) b 0 0 (1 + k) =
          d_safe_scale rc1 1 2 b k * getValue (tensors rc1 1) b 0 0 (1 + k) \<and>
        getValue (tensors cD 1) b 0 0 (2 * 1 + k) = d_weight_logits rc1 1 2 b k"
    using entry_points_values [OF st(1) io sc st(5) st(6) st(7) st(2)] by blast
  have idx: "wt_idx ?l1 State = 2"
    using st(1) by (simp add: layer_ok_def)
  define s where "s = exp (tanh 1) + 1 / (10::real) ^ 8"
  have s1: "1 < s"
  proof -
    have "(0::real) < tanh 1" by simp
    then have a: "1 < exp (tanh (1::real))" by simp
    have b: "0 < 1 / (10::real) ^ 8" by simp
    show ?thesis unfolding s_def using a b by linarith
  qed
  define p where "p = sigmoid (- 1 / s)"
  have p: "p * (1 - p) < 1 / 4"
    unfolding p_def using s1 by (intro sigmoid_prime_less_quarter sigmoid_neg_less_half) simp
  have sc1: "safe_scale rc1 1 0 0 = s"
    using fb scaled_mixture(1,2) [OF fin, of 0] by (simp add: safe_scale_def s_def)
  have dsc: "d_score rc1 0 h = d_score (example_run ic') 0 h" for h
    by (rule d_score_cong) (simp_all add: fr scaled_run_frame)
  have dp: "d_prob rc1 1 0 0 0 = 1" "d_prob rc1 1 0 1 0 = 0"
    using fb scaled_mixture(1,2) [OF fin, of 0] example_d_score [of ic']
    by (simp_all add: d_prob_def dsc)
  have pl: "getValue (tensors rc1 4) 0 0 0 0 = 1 / 2" and pr: "getValue (tensors rc1 5) 0 0 0 0 = p"
    using fp scaled_args [OF fin] by (simp_all add: sigmoid_zero p_def s_def)
  have l0: "d_left_arg rc1 1 0 0 0 = 1 / 4"
    unfolding d_left_arg_def pl dp by simp
  have r0: "d_right_arg rc1 1 0 0 0 = - (p * (1 - p))"
    unfolding d_right_arg_def pr dp by simp
  have l1: "d_left_arg rc1 1 0 1 0 = 0" and r1: "d_right_arg rc1 1 0 1 0 = 0"
    unfolding d_left_arg_def d_right_arg_def dp by simp_all
  have two: "(\<Sum>h<2. f h) = f 0 + f 1" for f :: "nat \<Rightarrow> real"
    by (simp add: numeral_2_eq_2)
  have claimed: "- (\<Sum>h<2. d_left_arg rc1 1 0 h 0 + d_right_arg rc1 1 0 h 0) = - (1 / 4 - p * (1 - p))"
    unfolding two l0 r0 l1 r1 by simp
  have "d_center rc1 1 2 0 0 = - ((1 / 4 - p * (1 - p)) / s)"
    unfolding d_center_def two l0 r0 l1 r1 sc1 by (simp add: add_divide_distrib diff_divide_distrib)
  then have code: "getValue (outgoing_derivatives cD 2) 0 0 0 0 = - ((1 / 4 - p * (1 - p)) / s)"
    using dv by simp
  have ne: "- ((1 / 4 - p * (1 - p)) / s) \<noteq> - (1 / 4 - p * (1 - p))"
  proof -
    have x: "0 < 1 / 4 - p * (1 - p)" using p by simp
    have "(1 / 4 - p * (1 - p)) / s < (1 / 4 - p * (1 - p)) / 1"
      using x s1 by (intro divide_strict_left_mono) simp_all
    then show ?thesis by simp
  qed
  have R1: "run_from_setup example_layer example_context scaled_run [Forwarding] = Inr (?l1, rc1)"
    by (simp add: run_from_setup_def fin fwd)
  have R2: "run_from_setup example_layer example_context scaled_run [Forwarding, CalcDerivative] =
      Inr (lD, cD)"
    by (simp add: run_from_setup_def fin fwd d)
  have idx': "wt_idx layer State = 2"
    using idx by simp
  have "getValue (getOutgoingDerivative cD 2) 0 0 0 0 \<noteq>
      - (\<Sum>h<2. d_left_arg rc1 1 0 h 0 + d_right_arg rc1 1 0 h 0)"
    unfolding getOutgoingDerivative_def code claimed by (rule ne)
  moreover have "safe_scale rc1 1 0 0 = exp (tanh 1) + 1 / 10 ^ 8"
    using sc1 by (simp add: s_def)
  moreover have "getValue (getOutgoingDerivative cD 2) 0 0 0 0 =
      - (\<Sum>h<2. d_left_arg rc1 1 0 h 0 + d_right_arg rc1 1 0 h 0) / (exp (tanh 1) + 1 / 10 ^ 8)"
    unfolding getOutgoingDerivative_def code claimed s_def
    by (simp only: minus_divide_left)
  ultimately show ?thesis
    unfolding R1 R2 by (simp add: idx')
qed

end
